theory Spec2Isabelle
  imports Main "HOL-Library.Word"
begin

unbundle bit_operations_syntax

section \<open>Data model of the bytecode generator (source/slang/bytecode.cpp)\<close>

text \<open>
  Machine integers: \<open>uint8_t\<close> is \<open>8 word\<close>, \<open>uint32_t\<close> is \<open>32 word\<close>, and the
  pointer-sized \<open>UInt\<close> and \<open>Int\<close> are both \<open>64 word\<close> (\<open>Int\<close>, here \<open>Int_t\<close>, read through \<open>sint\<close>).
  List counts and arena offsets are \<open>nat\<close>; they are cast to words where the source
  casts them.
\<close>

type_synonym byte = "8 word"
type_synonym uint32_t = "32 word"
type_synonym UInt = "64 word"
type_synonym Int_t = "64 word"

text \<open>
  \<open>SLANG_UNEXPECTED\<close> raises a fatal internal error carrying its message. A store or
  load through a handle is checked against the arena, a dereference of a null pointer
  and a failed \<open>assert\<close> are errors of their own.
\<close>

datatype error =
    Unexpected string
  | NullDereference
  | OutOfBounds
  | AssertionFailed

datatype IROp =
    kIROp_Func | kIROp_global_var | kIROp_global_constant
  | kIROp_Param | kIROp_Var | kIROp_IntLit | kIROp_FloatLit | kIROp_boolConst
  | kIROp_ReturnVoid | kIROp_Store | kIROp_Load
  | kIROp_VoidType | kIROp_BoolType | kIROp_Int32Type | kIROp_UInt32Type
  | kIROp_UInt64Type | kIROp_Float16Type | kIROp_Float32Type | kIROp_Float64Type
  | kIROp_FuncType | kIROp_PtrType
  | kIROp_readWriteStructuredBufferType | kIROp_structuredBufferType
  | kIROp_Other nat

datatype BaseType =
    BaseType_Void | BaseType_Bool | BaseType_Int | BaseType_UInt | BaseType_UInt64
  | BaseType_Half | BaseType_Float | BaseType_Double | BaseType_Other nat

text \<open>
  A \<open>Type*\<close> is \<open>Type option\<close>, \<open>None\<close> the null pointer. A type object is given by
  its canonical structure, which is what \<open>As<T>()\<close> inspects.
\<close>

datatype Type =
    BasicExpressionType (baseType: BaseType)
  | FuncType (resultType: Type) (paramTypes: "Type list")
  | PtrType (getValueType: Type)
  | HLSLRWStructuredBufferType (rwElementType: Type)
  | HLSLStructuredBufferType (elementType: Type)
  | OtherType nat

text \<open>
  An \<open>IRInst*\<close> is the instruction it points to; \<open>addr\<close> is the identity of the
  object, the key under which the dictionaries of the generator file it. The union
  \<open>u\<close> of an \<open>IRConstant\<close> is its 64 bits: \<open>u.intVal\<close> reads them as an integer,
  \<open>u.floatVal\<close> as the 8 bytes of a double.
\<close>

datatype IRInst =
  IRInst (addr: nat) (op: IROp) (getDataType: "Type option")
         (getOperands: "IRInst list") (u_intVal: "64 word")

text \<open>
  A basic block is an instruction too (it is filed under its address), with its
  instructions in order. A global value is an instruction with its decorations and,
  for a function, its blocks. The decoration looked at is the high-level declaration:
  the name of its \<open>ParameterGroupReflectionName\<close> modifier and its own name, each
  possibly absent. A string is its bytes.
\<close>

datatype IRBlock = IRBlock (blockAddr: nat) (getInsts: "IRInst list")

record Decl =
  reflectionName :: "byte list option"
  nameAndLoc_name :: "byte list option"

datatype IRGlobalValue =
  IRGlobalValue (asInst: IRInst) (findDecoration: "Decl option") (getBlocks: "IRBlock list")

text \<open>
  The global instructions of a module: \<open>as<IRGlobalValue>\<close> succeeds on the first
  kind and gives null on the second.
\<close>

datatype IRGlobalInst = GlobalValue IRGlobalValue | OtherInst IRInst

record IRModule =
  getGlobalInsts :: "IRGlobalInst list"

text \<open>A compile request: the \<open>irModule\<close> of each translation unit, possibly null.\<close>

record CompileRequest =
  translationUnits :: "IRModule option list"

datatype BCConstFlavor = kBCConstFlavor_GlobalSymbol | kBCConstFlavor_Constant

record BCConst =
  flavor :: BCConstFlavor
  id_BCConst :: uint32_t

text \<open>
  A \<open>BytecodeGenerationPtr<T>\<close> is an offset into the arena together with the shared
  context; the default-constructed handle has no context and is the null handle
  \<open>None\<close>. A handle that was just allocated always has the context and is kept as
  its offset alone.
\<close>

type_synonym BytecodeGenerationPtr = "nat option"

record SharedBytecodeGenerationContext =
  bytecode :: "byte list"
  mapValueToGlobal :: "nat \<rightharpoonup> BCConst"
  bcTypes :: "nat list"
  mapTypeToID :: "Type option \<rightharpoonup> nat"
  constants :: "IRInst list"

text \<open>
  The own fields of a \<open>BytecodeGenerationContext\<close>. Its field \<open>shared\<close> points to the
  one shared context of the compile request, which every function below takes and
  returns beside the context; \<open>currentIRFunc\<close> is written once and never read.
\<close>

record BytecodeGenerationContext =
  currentBytecode :: "byte list"
  remappedGlobalSymbols :: "BCConst list"
  mapInstToLocalID :: "nat \<rightharpoonup> Int_t"

section \<open>The byte arena\<close>

text \<open>
  Sequencing of fallible steps: the first error ends the run, as the exception of
  \<open>SLANG_UNEXPECTED\<close> does.
\<close>

definition and_then :: "error + 'a \<Rightarrow> ('a \<Rightarrow> error + 'b) \<Rightarrow> error + 'b" where
  "and_then m f = (case m of Inl e \<Rightarrow> Inl e | Inr x \<Rightarrow> f x)"

lemma and_then_cong [fundef_cong]:
  "m = m' \<Longrightarrow> (\<And>x. m' = Inr x \<Longrightarrow> f x = f' x) \<Longrightarrow> and_then m f = and_then m' f'"
  by (cases m') (simp_all add: and_then_def)

text \<open>
  Modelled from the spec: the record declarations of bytecode.h are not under src/.
  The layout follows section 3 and section 6 of the specification: fields in the
  order listed there, at their natural alignment, on a 64-bit little-endian host;
  opcodes, counts and ids are 32-bit, a stored offset (\<open>BCPtr\<close>) is pointer-sized and
  arena-relative, with 0 for null, and the flavor of a \<open>BCConst\<close> is one byte (0 for
  a global symbol, 1 for a constant). The header is
  magic (bytes 0..7), version (8..11), moduleCount (12..15), modules (16..23).
\<close>

datatype ctype =
    T_uint8_t | T_BCPtr | T_IRIntegerValue | T_BCType | T_BCConst | T_BCReg | T_BCBlock
  | T_BCSymbol | T_BCFunc | T_BCConstant | T_BCModule | T_BCHeader

fun sizeof :: "ctype \<Rightarrow> nat" where
  "sizeof T_uint8_t = 1"
| "sizeof T_BCPtr = 8"
| "sizeof T_IRIntegerValue = 8"
| "sizeof T_BCType = 12"
| "sizeof T_BCConst = 8"
| "sizeof T_BCReg = 12"
| "sizeof T_BCBlock = 24"
| "sizeof T_BCSymbol = 16"
| "sizeof T_BCFunc = 64"
| "sizeof T_BCConstant = 16"
| "sizeof T_BCModule = 48"
| "sizeof T_BCHeader = 24"

fun alignof :: "ctype \<Rightarrow> nat" where
  "alignof T_uint8_t = 1"
| "alignof T_BCPtr = 8"
| "alignof T_IRIntegerValue = 8"
| "alignof T_BCType = 4"
| "alignof T_BCConst = 4"
| "alignof T_BCReg = 4"
| "alignof T_BCBlock = 8"
| "alignof T_BCSymbol = 8"
| "alignof T_BCFunc = 8"
| "alignof T_BCConstant = 8"
| "alignof T_BCModule = 8"
| "alignof T_BCHeader = 8"

datatype field =
    BCType_op | BCType_argCount | BCType_id
  | BCConst_flavor | BCConst_id
  | BCReg_op | BCReg_typeID | BCReg_previousVarIndexPlusOne
  | BCBlock_paramCount | BCBlock_params | BCBlock_code
  | BCSymbol_op | BCSymbol_typeID | BCSymbol_name
  | BCFunc_regCount | BCFunc_regs | BCFunc_blockCount | BCFunc_blocks
  | BCFunc_constCount | BCFunc_consts
  | BCConstant_op | BCConstant_typeID | BCConstant_ptr
  | BCModule_symbolCount | BCModule_symbols | BCModule_constantCount | BCModule_constants
  | BCModule_typeCount | BCModule_types
  | BCHeader_magic | BCHeader_version | BCHeader_moduleCount | BCHeader_modules

fun offsetof :: "field \<Rightarrow> nat" where
  "offsetof BCType_op = 0"
| "offsetof BCType_argCount = 4"
| "offsetof BCType_id = 8"
| "offsetof BCConst_flavor = 0"
| "offsetof BCConst_id = 4"
| "offsetof BCReg_op = 0"
| "offsetof BCReg_typeID = 4"
| "offsetof BCReg_previousVarIndexPlusOne = 8"
| "offsetof BCBlock_paramCount = 0"
| "offsetof BCBlock_params = 8"
| "offsetof BCBlock_code = 16"
| "offsetof BCSymbol_op = 0"
| "offsetof BCSymbol_typeID = 4"
| "offsetof BCSymbol_name = 8"
| "offsetof BCFunc_regCount = 16"
| "offsetof BCFunc_regs = 24"
| "offsetof BCFunc_blockCount = 32"
| "offsetof BCFunc_blocks = 40"
| "offsetof BCFunc_constCount = 48"
| "offsetof BCFunc_consts = 56"
| "offsetof BCConstant_op = 0"
| "offsetof BCConstant_typeID = 4"
| "offsetof BCConstant_ptr = 8"
| "offsetof BCModule_symbolCount = 0"
| "offsetof BCModule_symbols = 8"
| "offsetof BCModule_constantCount = 16"
| "offsetof BCModule_constants = 24"
| "offsetof BCModule_typeCount = 32"
| "offsetof BCModule_types = 40"
| "offsetof BCHeader_magic = 0"
| "offsetof BCHeader_version = 8"
| "offsetof BCHeader_moduleCount = 12"
| "offsetof BCHeader_modules = 16"

fun flavorByte :: "BCConstFlavor \<Rightarrow> byte" where
  "flavorByte kBCConstFlavor_GlobalSymbol = 0"
| "flavorByte kBCConstFlavor_Constant = 1"

text \<open>Little-endian bytes of a word, and the word of little-endian bytes.\<close>

definition encodeLE :: "nat \<Rightarrow> 'a::len word \<Rightarrow> byte list" where
  "encodeLE n w = map (\<lambda>i. ucast (drop_bit (8 * i) w)) [0..<n]"

fun decodeLE :: "byte list \<Rightarrow> 'a::len word" where
  "decodeLE [] = 0"
| "decodeLE (b # bs) = ucast b OR push_bit 8 (decodeLE bs)"

text \<open>
  \<open>allocateRaw\<close>: the begin offset is the current length rounded up by the mask
  expression of the source, and the arena grows by zero bytes up to the end offset.
\<close>

definition allocateRaw ::
  "SharedBytecodeGenerationContext \<Rightarrow> nat \<Rightarrow> nat \<Rightarrow> nat \<times> SharedBytecodeGenerationContext" where
  "allocateRaw shared size' alignment =
     (let currentOffset = length (bytecode shared);
          beginOffset = nat ((int currentOffset + (int alignment - 1)) AND NOT (int alignment - 1));
          endOffset = beginOffset + size'
      in (beginOffset,
          shared\<lparr>bytecode := bytecode shared @ replicate (endOffset - currentOffset) 0\<rparr>))"

definition allocate ::
  "SharedBytecodeGenerationContext \<Rightarrow> ctype \<Rightarrow> nat \<times> SharedBytecodeGenerationContext" where
  "allocate shared T = allocateRaw shared (sizeof T) (alignof T)"

definition allocateArray ::
  "SharedBytecodeGenerationContext \<Rightarrow> ctype \<Rightarrow> nat \<Rightarrow> nat \<times> SharedBytecodeGenerationContext" where
  "allocateArray shared T count = allocateRaw shared (count * sizeof T) (alignof T)"

text \<open>
  A store through a handle writes the bytes of the value at the handle's offset in the
  arena as it is at that moment; a store or load that leaves the arena is an error.
\<close>

definition store_bytes ::
  "SharedBytecodeGenerationContext \<Rightarrow> nat \<Rightarrow> byte list \<Rightarrow> error + SharedBytecodeGenerationContext" where
  "store_bytes shared offset bs =
     (if offset + length bs \<le> length (bytecode shared)
      then Inr (shared\<lparr>bytecode :=
                  take offset (bytecode shared) @ bs @ drop (offset + length bs) (bytecode shared)\<rparr>)
      else Inl OutOfBounds)"

definition store_u32 ::
  "SharedBytecodeGenerationContext \<Rightarrow> nat \<Rightarrow> uint32_t \<Rightarrow> error + SharedBytecodeGenerationContext" where
  "store_u32 shared offset v = store_bytes shared offset (encodeLE 4 v)"

definition store_ptr ::
  "SharedBytecodeGenerationContext \<Rightarrow> nat \<Rightarrow> BytecodeGenerationPtr \<Rightarrow> error + SharedBytecodeGenerationContext" where
  "store_ptr shared offset ptr =
     store_bytes shared offset
       (encodeLE 8 (case ptr of None \<Rightarrow> 0 | Some target \<Rightarrow> (of_nat target :: 64 word)))"

definition load_bytes :: "byte list \<Rightarrow> nat \<Rightarrow> nat \<Rightarrow> byte list" where
  "load_bytes arena offset n = take n (drop offset arena)"

definition load_u32 :: "byte list \<Rightarrow> nat \<Rightarrow> uint32_t" where
  "load_u32 arena offset = decodeLE (load_bytes arena offset 4)"

definition load_ptr :: "byte list \<Rightarrow> nat \<Rightarrow> 64 word" where
  "load_ptr arena offset = decodeLE (load_bytes arena offset 8)"

section \<open>The type interner\<close>

fun emitBCType_storeArgs ::
  "SharedBytecodeGenerationContext \<Rightarrow> nat \<Rightarrow> nat list \<Rightarrow> error + SharedBytecodeGenerationContext" where
  "emitBCType_storeArgs shared bcArgs [] = Inr shared"
| "emitBCType_storeArgs shared bcArgs (arg # args) =
     and_then (store_ptr shared bcArgs (Some arg))
       (\<lambda>shared'. emitBCType_storeArgs shared' (bcArgs + sizeof T_BCPtr) args)"

text \<open>
  \<open>emitBCType(context, type, op, args, argCount)\<close>. The numbering of the opcodes
  (ir-inst-defs.h, not under src/) is the parameter \<open>opc\<close> throughout.
\<close>

definition emitBCType_args ::
  "(IROp \<Rightarrow> nat) \<Rightarrow> SharedBytecodeGenerationContext \<Rightarrow> Type option \<Rightarrow> IROp \<Rightarrow> nat list
     \<Rightarrow> error + (nat \<times> SharedBytecodeGenerationContext)" where
  "emitBCType_args opc shared type' op' args =
     (let argCount = length args;
          size' = sizeof T_BCType + argCount * sizeof T_BCPtr;
          (bcAllocation, shared1) = allocateRaw shared size' (alignof T_BCPtr);
          bcType = bcAllocation;
          bcArgs = bcType + 1 * sizeof T_BCType
      in and_then (store_u32 shared1 (bcType + offsetof BCType_op) (of_nat (opc op')))
        (\<lambda>shared2. and_then (store_u32 shared2 (bcType + offsetof BCType_argCount) (of_nat argCount))
        (\<lambda>shared3. and_then (emitBCType_storeArgs shared3 bcArgs args)
        (\<lambda>shared4.
           let id' = length (bcTypes shared4);
               shared5 = shared4\<lparr>mapTypeToID := (mapTypeToID shared4)(type' \<mapsto> id'),
                                  bcTypes := bcTypes shared4 @ [bcType]\<rparr>
           in and_then (store_u32 shared5 (bcType + offsetof BCType_id) (of_nat id'))
                (\<lambda>shared6. Inr (bcType, shared6))))))"

definition emitBCVarArgType ::
  "(IROp \<Rightarrow> nat) \<Rightarrow> SharedBytecodeGenerationContext \<Rightarrow> Type option \<Rightarrow> IROp \<Rightarrow> nat list
     \<Rightarrow> error + (nat \<times> SharedBytecodeGenerationContext)" where
  "emitBCVarArgType opc shared type' op' args = emitBCType_args opc shared type' op' args"

definition emitBCType_op ::
  "(IROp \<Rightarrow> nat) \<Rightarrow> SharedBytecodeGenerationContext \<Rightarrow> Type option \<Rightarrow> IROp
     \<Rightarrow> error + (nat \<times> SharedBytecodeGenerationContext)" where
  "emitBCType_op opc shared type' op' = emitBCType_args opc shared type' op' []"

text \<open>
  Modelled from the spec: \<open>Type::GetCanonicalType\<close> is not under src/. The
  specification calls canonicalisation an external collaborator and says that a null
  input type is treated as void, which the null test of \<open>emitBCTypeImpl\<close> on the
  canonical type presupposes: the null receiver comes back as null. A type object is
  given here by its canonical structure, so a non-null type is its own canonical type.
\<close>

definition GetCanonicalType :: "Type option \<Rightarrow> Type option" where
  "GetCanonicalType type' = (case type' of None \<Rightarrow> None | Some t \<Rightarrow> Some t)"

text \<open>
  \<open>emitBCType(context, type)\<close> and \<open>emitBCTypeImpl\<close>, with the loop over the
  parameter types of a function type.
\<close>

function emitBCType ::
    "(IROp \<Rightarrow> nat) \<Rightarrow> SharedBytecodeGenerationContext \<Rightarrow> Type option
       \<Rightarrow> error + (nat \<times> SharedBytecodeGenerationContext)"
  and emitBCTypeImpl ::
    "(IROp \<Rightarrow> nat) \<Rightarrow> SharedBytecodeGenerationContext \<Rightarrow> Type option
       \<Rightarrow> error + (nat \<times> SharedBytecodeGenerationContext)"
  and emitBCTypeImpl_params ::
    "(IROp \<Rightarrow> nat) \<Rightarrow> SharedBytecodeGenerationContext \<Rightarrow> Type list
       \<Rightarrow> error + (nat list \<times> SharedBytecodeGenerationContext)"
  where
  "emitBCType opc shared type' =
     (let canonical = GetCanonicalType type'
      in case mapTypeToID shared canonical of
           Some id' \<Rightarrow>
             (if id' < length (bcTypes shared) then Inr (bcTypes shared ! id', shared)
              else Inl OutOfBounds)
         | None \<Rightarrow> emitBCTypeImpl opc shared canonical)"
| "emitBCTypeImpl opc shared None = emitBCType_op opc shared None kIROp_VoidType"
| "emitBCTypeImpl opc shared (Some (BasicExpressionType b)) =
     (case b of
        BaseType_Void \<Rightarrow> emitBCType_op opc shared (Some (BasicExpressionType b)) kIROp_VoidType
      | BaseType_Bool \<Rightarrow> emitBCType_op opc shared (Some (BasicExpressionType b)) kIROp_BoolType
      | BaseType_Int \<Rightarrow> emitBCType_op opc shared (Some (BasicExpressionType b)) kIROp_Int32Type
      | BaseType_UInt \<Rightarrow> emitBCType_op opc shared (Some (BasicExpressionType b)) kIROp_UInt32Type
      | BaseType_UInt64 \<Rightarrow> emitBCType_op opc shared (Some (BasicExpressionType b)) kIROp_UInt64Type
      | BaseType_Half \<Rightarrow> emitBCType_op opc shared (Some (BasicExpressionType b)) kIROp_Float16Type
      | BaseType_Float \<Rightarrow> emitBCType_op opc shared (Some (BasicExpressionType b)) kIROp_Float32Type
      | BaseType_Double \<Rightarrow> emitBCType_op opc shared (Some (BasicExpressionType b)) kIROp_Float64Type
      | BaseType_Other k \<Rightarrow> Inl (Unexpected ''unimplemented''))"
| "emitBCTypeImpl opc shared (Some (FuncType r ps)) =
     and_then (emitBCType opc shared (Some r))
       (\<lambda>(resultOperand, shared1). and_then (emitBCTypeImpl_params opc shared1 ps)
       (\<lambda>(paramOperands, shared2).
          emitBCVarArgType opc shared2 (Some (FuncType r ps)) kIROp_FuncType
            (resultOperand # paramOperands)))"
| "emitBCTypeImpl opc shared (Some (PtrType t)) =
     and_then (emitBCType opc shared (Some t))
       (\<lambda>(operand, shared1).
          emitBCVarArgType opc shared1 (Some (PtrType t)) kIROp_PtrType [operand])"
| "emitBCTypeImpl opc shared (Some (HLSLRWStructuredBufferType t)) =
     and_then (emitBCType opc shared (Some t))
       (\<lambda>(operand, shared1).
          emitBCVarArgType opc shared1 (Some (HLSLRWStructuredBufferType t))
            kIROp_readWriteStructuredBufferType [operand])"
| "emitBCTypeImpl opc shared (Some (HLSLStructuredBufferType t)) =
     and_then (emitBCType opc shared (Some t))
       (\<lambda>(operand, shared1).
          emitBCVarArgType opc shared1 (Some (HLSLStructuredBufferType t))
            kIROp_structuredBufferType [operand])"
| "emitBCTypeImpl opc shared (Some (OtherType k)) = Inl (Unexpected ''unimplemented'')"
| "emitBCTypeImpl_params opc shared [] = Inr ([], shared)"
| "emitBCTypeImpl_params opc shared (p # ps) =
     and_then (emitBCType opc shared (Some p))
       (\<lambda>(operand, shared1). and_then (emitBCTypeImpl_params opc shared1 ps)
       (\<lambda>(operands, shared2). Inr (operand # operands, shared2)))"
  by pat_completeness auto
termination
  by (relation "measure (\<lambda>x. case x of
        Inl (opc, shared, t) \<Rightarrow> 2 * (case t of None \<Rightarrow> 0 | Some t' \<Rightarrow> size t') + 1
      | Inr (Inl (opc, shared, t)) \<Rightarrow> 2 * (case t of None \<Rightarrow> 0 | Some t' \<Rightarrow> size t')
      | Inr (Inr (opc, shared, ps)) \<Rightarrow> 2 * size_list size ps + 1)")
    (auto simp add: GetCanonicalType_def split: option.splits)

text \<open>\<open>getTypeID\<close> reads the id back from the record in the arena.\<close>

definition getTypeID ::
  "(IROp \<Rightarrow> nat) \<Rightarrow> SharedBytecodeGenerationContext \<Rightarrow> Type option
     \<Rightarrow> error + (uint32_t \<times> SharedBytecodeGenerationContext)" where
  "getTypeID opc shared type' =
     and_then (emitBCType opc shared type')
       (\<lambda>(bcType, shared').
          if bcType + offsetof BCType_id + 4 \<le> length (bytecode shared')
          then Inr (load_u32 (bytecode shared') (bcType + offsetof BCType_id), shared')
          else Inl OutOfBounds)"

definition getTypeIDForGlobalSymbol ::
  "(IROp \<Rightarrow> nat) \<Rightarrow> SharedBytecodeGenerationContext \<Rightarrow> IRInst
     \<Rightarrow> error + (uint32_t \<times> SharedBytecodeGenerationContext)" where
  "getTypeIDForGlobalSymbol opc shared inst =
     (case getDataType inst of
        None \<Rightarrow> Inr (0, shared)
      | Some t \<Rightarrow> getTypeID opc shared (Some t))"

section \<open>Variable-length integers\<close>

definition encodeUInt8 :: "BytecodeGenerationContext \<Rightarrow> byte \<Rightarrow> BytecodeGenerationContext" where
  "encodeUInt8 context v = context\<lparr>currentBytecode := currentBytecode context @ [v]\<rparr>"

text \<open>
  The first loop of \<open>encodeUInt\<close>: the scratch array \<open>bytes\<close>, index 0 first. Each
  round stores the low seven bits, shifts, stops when nothing is left, and otherwise
  sets bit 7 of the group just stored.
\<close>

function encodeUInt_bytes :: "UInt \<Rightarrow> byte list" where
  "encodeUInt_bytes v =
     (let b = ucast (v AND 0x7F);
          v' = drop_bit 7 v
      in if v' = 0 then [b] else (b OR 0x80) # encodeUInt_bytes v')"
  by pat_completeness auto
termination
proof (relation "measure unat")
  show "wf (measure unat)" by simp
next
  fix v :: UInt and b :: byte and v' :: UInt
  assume v': "v' = drop_bit 7 v" and nz: "v' \<noteq> 0"
  have e: "unat (drop_bit 7 v) = unat v div 128"
    using unat_drop_bit_eq [of 7 v] by (simp add: drop_bit_eq_div)
  from nz v' have "unat (drop_bit 7 v) \<noteq> 0" by (simp add: unat_eq_0)
  with e have "unat v div 128 \<noteq> 0" by simp
  then have "unat v div 128 < unat v" by (intro div_less_dividend) auto
  with e v' show "(v', v) \<in> measure unat" by simp
qed

declare encodeUInt_bytes.simps [simp del]

text \<open>The second loop runs \<open>index\<close> from \<open>count\<close> down to 0: the array in reverse.\<close>

definition encodeUInt :: "BytecodeGenerationContext \<Rightarrow> UInt \<Rightarrow> BytecodeGenerationContext" where
  "encodeUInt context v =
     (if v < 128 then encodeUInt8 context (ucast v)
      else foldl encodeUInt8 context (rev (encodeUInt_bytes v)))"

definition encodeSInt :: "BytecodeGenerationContext \<Rightarrow> Int_t \<Rightarrow> BytecodeGenerationContext" where
  "encodeSInt context v =
     (let uValue = (if sint v < 0 then push_bit 1 (NOT v) OR 1 else push_bit 1 v)
      in encodeUInt context uValue)"

section \<open>Identifiers of operands\<close>

definition getGlobalValue ::
  "SharedBytecodeGenerationContext \<Rightarrow> IRInst \<Rightarrow> error + (BCConst \<times> SharedBytecodeGenerationContext)" where
  "getGlobalValue shared v =
     (case mapValueToGlobal shared (addr v) of
        Some bcConst \<Rightarrow> Inr (bcConst, shared)
      | None \<Rightarrow>
          (case op v of
             kIROp_IntLit \<Rightarrow>
               (let constID = length (constants shared);
                    bcConst = \<lparr>flavor = kBCConstFlavor_Constant, id_BCConst = of_nat constID\<rparr>
                in Inr (bcConst,
                        shared\<lparr>constants := constants shared @ [v],
                               mapValueToGlobal := (mapValueToGlobal shared)(addr v \<mapsto> bcConst)\<rparr>))
           | _ \<Rightarrow> Inl (Unexpected ''no ID for inst'')))"

definition getLocalID ::
  "SharedBytecodeGenerationContext \<Rightarrow> BytecodeGenerationContext \<Rightarrow> IRInst
     \<Rightarrow> error + (Int_t \<times> SharedBytecodeGenerationContext \<times> BytecodeGenerationContext)" where
  "getLocalID shared context v =
     (case mapInstToLocalID context (addr v) of
        Some localID \<Rightarrow> Inr (localID, shared, context)
      | None \<Rightarrow>
          (case getGlobalValue shared v of
             Inl e \<Rightarrow> Inl e
           | Inr (bcConst, shared') \<Rightarrow>
               (let remappedSymbolIndex = length (remappedGlobalSymbols context);
                    localID = NOT (of_nat remappedSymbolIndex)
                in Inr (localID, shared',
                        context\<lparr>remappedGlobalSymbols := remappedGlobalSymbols context @ [bcConst],
                                mapInstToLocalID := (mapInstToLocalID context)(addr v \<mapsto> localID)\<rparr>))))"

definition encodeOperand ::
  "SharedBytecodeGenerationContext \<Rightarrow> BytecodeGenerationContext \<Rightarrow> IRInst
     \<Rightarrow> error + (SharedBytecodeGenerationContext \<times> BytecodeGenerationContext)" where
  "encodeOperand shared context operand =
     (case getLocalID shared context operand of
        Inl e \<Rightarrow> Inl e
      | Inr (id', shared', context') \<Rightarrow> Inr (shared', encodeSInt context' id'))"


section \<open>The instruction emitter\<close>

text \<open>\<open>encodeOperand(context, IRType*)\<close>.\<close>

definition encodeOperand_type ::
  "(IROp \<Rightarrow> nat) \<Rightarrow> SharedBytecodeGenerationContext \<Rightarrow> BytecodeGenerationContext \<Rightarrow> Type option
     \<Rightarrow> error + (SharedBytecodeGenerationContext \<times> BytecodeGenerationContext)" where
  "encodeOperand_type opc shared context type' =
     and_then (getTypeID opc shared type')
       (\<lambda>(typeID, shared'). Inr (shared', encodeUInt context (ucast typeID)))"

definition opHasResult :: "IRInst \<Rightarrow> bool" where
  "opHasResult inst =
     (case getDataType inst of
        None \<Rightarrow> False
      | Some (BasicExpressionType BaseType_Void) \<Rightarrow> False
      | Some _ \<Rightarrow> True)"

definition getOperand :: "IRInst \<Rightarrow> nat \<Rightarrow> error + IRInst" where
  "getOperand inst i =
     (if i < length (getOperands inst) then Inr (getOperands inst ! i) else Inl OutOfBounds)"

fun encodeOperands ::
  "SharedBytecodeGenerationContext \<Rightarrow> BytecodeGenerationContext \<Rightarrow> IRInst list
     \<Rightarrow> error + (SharedBytecodeGenerationContext \<times> BytecodeGenerationContext)" where
  "encodeOperands shared context [] = Inr (shared, context)"
| "encodeOperands shared context (operand # rest) =
     and_then (encodeOperand shared context operand)
       (\<lambda>(shared', context'). encodeOperands shared' context' rest)"

text \<open>
  \<open>generateBytecodeForInst\<close>: the \<open>switch\<close> on the opcode as a chain of tests, the
  default case last. The eight bytes of a float literal are copied as they lie in
  memory.
\<close>

definition generateBytecodeForInst ::
  "(IROp \<Rightarrow> nat) \<Rightarrow> SharedBytecodeGenerationContext \<Rightarrow> BytecodeGenerationContext \<Rightarrow> IRInst
     \<Rightarrow> error + (SharedBytecodeGenerationContext \<times> BytecodeGenerationContext)" where
  "generateBytecodeForInst opc shared context inst =
     (if op inst = kIROp_ReturnVoid then
        Inr (shared, encodeUInt context (of_nat (opc (op inst))))
      else if op inst = kIROp_IntLit then
        (let context1 = encodeUInt context (of_nat (opc (op inst)))
         in and_then (encodeOperand_type opc shared context1 (getDataType inst))
           (\<lambda>(shared2, context2).
              let context3 = encodeUInt context2 (u_intVal inst)
              in encodeOperand shared2 context3 inst))
      else if op inst = kIROp_FloatLit then
        (let context1 = encodeUInt context (of_nat (opc (op inst)))
         in and_then (encodeOperand_type opc shared context1 (getDataType inst))
           (\<lambda>(shared2, context2).
              let context3 = foldl encodeUInt8 context2 (encodeLE 8 (u_intVal inst))
              in encodeOperand shared2 context3 inst))
      else if op inst = kIROp_boolConst then
        (let context1 = encodeUInt context (of_nat (opc (op inst)));
             context2 = encodeUInt context1 (if u_intVal inst \<noteq> 0 then 1 else 0)
         in encodeOperand shared context2 inst)
      else if op inst = kIROp_Store then
        (let context1 = encodeUInt context (of_nat (opc (op inst)))
         in and_then (getOperand inst 1)
           (\<lambda>operand1. and_then (encodeOperand_type opc shared context1 (getDataType operand1))
           (\<lambda>(shared2, context2). and_then (getOperand inst 0)
           (\<lambda>operand0. and_then (encodeOperand shared2 context2 operand0)
           (\<lambda>(shared3, context3). encodeOperand shared3 context3 operand1)))))
      else if op inst = kIROp_Load then
        (let context1 = encodeUInt context (of_nat (opc (op inst)))
         in and_then (encodeOperand_type opc shared context1 (getDataType inst))
           (\<lambda>(shared2, context2). and_then (getOperand inst 0)
           (\<lambda>operand0. and_then (encodeOperand shared2 context2 operand0)
           (\<lambda>(shared3, context3). encodeOperand shared3 context3 inst))))
      else
        (let operandCount = length (getOperands inst);
             context1 = encodeUInt context (of_nat (opc (op inst)))
         in and_then (encodeOperand_type opc shared context1 (getDataType inst))
           (\<lambda>(shared2, context2).
              let context3 = encodeUInt context2 (of_nat operandCount)
              in and_then (encodeOperands shared2 context3 (getOperands inst))
                (\<lambda>(shared4, context4).
                   if \<not> opHasResult inst then Inr (shared4, context4)
                   else encodeOperand shared4 context4 inst))))"

section \<open>Names of symbols\<close>

definition allocateString ::
  "SharedBytecodeGenerationContext \<Rightarrow> byte list
     \<Rightarrow> error + (BytecodeGenerationPtr \<times> SharedBytecodeGenerationContext)" where
  "allocateString shared data =
     (let (ptr, shared1) = allocateArray shared T_uint8_t (length data + 1)
      in and_then (store_bytes shared1 ptr data) (\<lambda>shared2. Inr (Some ptr, shared2)))"

definition tryGenerateNameForSymbol ::
  "SharedBytecodeGenerationContext \<Rightarrow> IRGlobalValue
     \<Rightarrow> error + (BytecodeGenerationPtr \<times> SharedBytecodeGenerationContext)" where
  "tryGenerateNameForSymbol shared inst =
     (case findDecoration inst of
        None \<Rightarrow> Inr (None, shared)
      | Some decl \<Rightarrow>
          (case reflectionName decl of
             Some name \<Rightarrow> allocateString shared name
           | None \<Rightarrow>
               (case nameAndLoc_name decl of
                  Some name \<Rightarrow> allocateString shared name
                | None \<Rightarrow> Inr (None, shared))))"

section \<open>The function encoder\<close>

text \<open>First loop of the \<open>kIROp_Func\<close> case: every block gets its index as local id.\<close>

fun enumerateBlocks ::
  "BytecodeGenerationContext \<Rightarrow> IRBlock list \<Rightarrow> nat \<Rightarrow> BytecodeGenerationContext" where
  "enumerateBlocks subContext [] blockCounter = subContext"
| "enumerateBlocks subContext (bb # rest) blockCounter =
     enumerateBlocks
       (subContext\<lparr>mapInstToLocalID := (mapInstToLocalID subContext)(blockAddr bb \<mapsto> of_nat blockCounter)\<rparr>)
       rest (blockCounter + 1)"

text \<open>
  Second loop, the counting pass. The inner loop over the instructions of a block
  carries \<open>(regCounter, paramCount)\<close>.
\<close>

fun countInsts :: "IRInst list \<Rightarrow> nat \<times> nat \<Rightarrow> nat \<times> nat" where
  "countInsts [] (regCounter, paramCount) = (regCounter, paramCount)"
| "countInsts (ii # rest) (regCounter, paramCount) =
     (if op ii = kIROp_Param then countInsts rest (regCounter + 1, paramCount + 1)
      else if op ii = kIROp_Var then countInsts rest (regCounter + 2, paramCount)
      else if opHasResult ii then countInsts rest (regCounter + 1, paramCount)
      else countInsts rest (regCounter, paramCount))"

fun countRegisters ::
  "SharedBytecodeGenerationContext \<Rightarrow> nat \<Rightarrow> IRBlock list \<Rightarrow> nat \<Rightarrow> nat
     \<Rightarrow> error + (nat \<times> SharedBytecodeGenerationContext)" where
  "countRegisters shared bcBlocks [] blockCounter regCounter = Inr (regCounter, shared)"
| "countRegisters shared bcBlocks (bb # rest) blockCounter regCounter =
     (let blockID = blockCounter;
          (regCounter', paramCount) = countInsts (getInsts bb) (regCounter, 0)
      in and_then
           (store_u32 shared (bcBlocks + blockID * sizeof T_BCBlock + offsetof BCBlock_paramCount)
              (of_nat paramCount))
           (\<lambda>shared'. countRegisters shared' bcBlocks rest (blockCounter + 1) regCounter'))"

text \<open>
  Third loop, the filling pass. In each assignment of a type id the right-hand side is
  evaluated first, and the store goes to the arena as it is afterwards.
\<close>

definition fillReg ::
  "(IROp \<Rightarrow> nat) \<Rightarrow> SharedBytecodeGenerationContext \<Rightarrow> nat \<Rightarrow> nat \<Rightarrow> IRInst
     \<Rightarrow> error + SharedBytecodeGenerationContext" where
  "fillReg opc shared bcRegs localID ii =
     and_then (store_u32 shared (bcRegs + localID * sizeof T_BCReg + offsetof BCReg_op)
                 (of_nat (opc (op ii))))
       (\<lambda>shared1. and_then
          (store_u32 shared1 (bcRegs + localID * sizeof T_BCReg + offsetof BCReg_previousVarIndexPlusOne)
             (of_nat localID))
       (\<lambda>shared2. and_then (getTypeIDForGlobalSymbol opc shared2 ii)
       (\<lambda>(typeID, shared3).
          store_u32 shared3 (bcRegs + localID * sizeof T_BCReg + offsetof BCReg_typeID) typeID)))"

fun fillInsts ::
  "(IROp \<Rightarrow> nat) \<Rightarrow> SharedBytecodeGenerationContext \<Rightarrow> BytecodeGenerationContext \<Rightarrow> nat
     \<Rightarrow> IRInst list \<Rightarrow> nat
     \<Rightarrow> error + (nat \<times> SharedBytecodeGenerationContext \<times> BytecodeGenerationContext)" where
  "fillInsts opc shared subContext bcRegs [] regCounter = Inr (regCounter, shared, subContext)"
| "fillInsts opc shared subContext bcRegs (ii # rest) regCounter =
     (if op ii = kIROp_Var then
        (let localID = regCounter;
             regCounter' = regCounter + 2;
             subContext' = subContext\<lparr>mapInstToLocalID :=
                              (mapInstToLocalID subContext)(addr ii \<mapsto> of_nat localID)\<rparr>
         in and_then (fillReg opc shared bcRegs localID ii)
           (\<lambda>shared1. and_then
              (store_u32 shared1 (bcRegs + (localID + 1) * sizeof T_BCReg + offsetof BCReg_op)
                 (of_nat (opc (op ii))))
           (\<lambda>shared2. and_then
              (store_u32 shared2
                 (bcRegs + (localID + 1) * sizeof T_BCReg + offsetof BCReg_previousVarIndexPlusOne)
                 (of_nat localID + 1))
           (\<lambda>shared3. and_then
              (case getDataType ii of
                 Some (PtrType valueType) \<Rightarrow> getTypeID opc shared3 (Some valueType)
               | _ \<Rightarrow> Inl NullDereference)
           (\<lambda>(typeID, shared4). and_then
              (store_u32 shared4 (bcRegs + (localID + 1) * sizeof T_BCReg + offsetof BCReg_typeID)
                 typeID)
           (\<lambda>shared5. fillInsts opc shared5 subContext' bcRegs rest regCounter'))))))
      else if opHasResult ii then
        (let localID = regCounter;
             regCounter' = regCounter + 1;
             subContext' = subContext\<lparr>mapInstToLocalID :=
                              (mapInstToLocalID subContext)(addr ii \<mapsto> of_nat localID)\<rparr>
         in and_then (fillReg opc shared bcRegs localID ii)
           (\<lambda>shared1. fillInsts opc shared1 subContext' bcRegs rest regCounter'))
      else fillInsts opc shared subContext bcRegs rest regCounter)"

fun fillRegisters ::
  "(IROp \<Rightarrow> nat) \<Rightarrow> SharedBytecodeGenerationContext \<Rightarrow> BytecodeGenerationContext \<Rightarrow> nat \<Rightarrow> nat
     \<Rightarrow> IRBlock list \<Rightarrow> nat \<Rightarrow> nat
     \<Rightarrow> error + (nat \<times> SharedBytecodeGenerationContext \<times> BytecodeGenerationContext)" where
  "fillRegisters opc shared subContext bcBlocks bcRegs [] blockCounter regCounter =
     Inr (regCounter, shared, subContext)"
| "fillRegisters opc shared subContext bcBlocks bcRegs (bb # rest) blockCounter regCounter =
     (let blockID = blockCounter
      in and_then
           (store_ptr shared (bcBlocks + blockID * sizeof T_BCBlock + offsetof BCBlock_params)
              (Some (bcRegs + regCounter * sizeof T_BCReg)))
           (\<lambda>shared1. and_then (fillInsts opc shared1 subContext bcRegs (getInsts bb) regCounter)
           (\<lambda>(regCounter', shared2, subContext').
              fillRegisters opc shared2 subContext' bcBlocks bcRegs rest (blockCounter + 1) regCounter')))"

text \<open>Fourth loop: the code of every block, into the buffer of the sub-context.\<close>

fun emitInsts ::
  "(IROp \<Rightarrow> nat) \<Rightarrow> SharedBytecodeGenerationContext \<Rightarrow> BytecodeGenerationContext \<Rightarrow> IRInst list
     \<Rightarrow> error + (SharedBytecodeGenerationContext \<times> BytecodeGenerationContext)" where
  "emitInsts opc shared subContext [] = Inr (shared, subContext)"
| "emitInsts opc shared subContext (ii # rest) =
     (if op ii = kIROp_Param then emitInsts opc shared subContext rest
      else and_then (generateBytecodeForInst opc shared subContext ii)
             (\<lambda>(shared', subContext'). emitInsts opc shared' subContext' rest))"

fun emitBlocks ::
  "(IROp \<Rightarrow> nat) \<Rightarrow> SharedBytecodeGenerationContext \<Rightarrow> BytecodeGenerationContext \<Rightarrow> IRBlock list
     \<Rightarrow> nat list
     \<Rightarrow> error + (nat list \<times> SharedBytecodeGenerationContext \<times> BytecodeGenerationContext)" where
  "emitBlocks opc shared subContext [] blockOffsets = Inr (blockOffsets, shared, subContext)"
| "emitBlocks opc shared subContext (bb # rest) blockOffsets =
     (let blockOffset = length (currentBytecode subContext);
          blockOffsets' = blockOffsets @ [blockOffset]
      in and_then (emitInsts opc shared subContext (getInsts bb))
           (\<lambda>(shared', subContext'). emitBlocks opc shared' subContext' rest blockOffsets'))"

text \<open>Fifth loop: the code pointer of every block.\<close>

fun storeBlockCode ::
  "SharedBytecodeGenerationContext \<Rightarrow> nat \<Rightarrow> nat \<Rightarrow> nat list \<Rightarrow> IRBlock list \<Rightarrow> nat
     \<Rightarrow> error + SharedBytecodeGenerationContext" where
  "storeBlockCode shared bcBlocks bytes blockOffsets [] blockCounter = Inr shared"
| "storeBlockCode shared bcBlocks bytes blockOffsets (bb # rest) blockCounter =
     (let blockID = blockCounter
      in if blockID < length blockOffsets then
           and_then
             (store_ptr shared (bcBlocks + blockID * sizeof T_BCBlock + offsetof BCBlock_code)
                (Some (bytes + (blockOffsets ! blockID) * sizeof T_uint8_t)))
             (\<lambda>shared'. storeBlockCode shared' bcBlocks bytes blockOffsets rest (blockCounter + 1))
         else Inl OutOfBounds)"

text \<open>Sixth loop: the imported constants, \<open>cc\<close> counting up.\<close>

fun storeConsts ::
  "SharedBytecodeGenerationContext \<Rightarrow> nat \<Rightarrow> BCConst list \<Rightarrow> nat
     \<Rightarrow> error + SharedBytecodeGenerationContext" where
  "storeConsts shared bcConsts [] cc = Inr shared"
| "storeConsts shared bcConsts (bcConst # rest) cc =
     and_then
       (store_bytes shared (bcConsts + cc * sizeof T_BCConst + offsetof BCConst_flavor)
          [flavorByte (flavor bcConst)])
       (\<lambda>shared1. and_then
          (store_u32 shared1 (bcConsts + cc * sizeof T_BCConst + offsetof BCConst_id)
             (id_BCConst bcConst))
       (\<lambda>shared2. storeConsts shared2 bcConsts rest (cc + 1)))"

text \<open>
  The \<open>kIROp_Func\<close> case of \<open>generateBytecodeSymbolForInst\<close> in its three stages.
  The first runs up to the \<open>assert\<close> after the filling pass and hands on the
  handles of the function record and of its block array with the sub-context.
\<close>

definition funcRegisters ::
  "(IROp \<Rightarrow> nat) \<Rightarrow> SharedBytecodeGenerationContext \<Rightarrow> IRGlobalValue
     \<Rightarrow> error + (nat \<times> nat \<times> SharedBytecodeGenerationContext \<times> BytecodeGenerationContext)" where
  "funcRegisters opc shared inst =
     (let irFunc = inst;
          (bcFunc, shared1) = allocate shared T_BCFunc
      in and_then (store_u32 shared1 (bcFunc + offsetof BCSymbol_op) (of_nat (opc (op (asInst inst)))))
        (\<lambda>shared2. and_then (getTypeIDForGlobalSymbol opc shared2 (asInst inst))
        (\<lambda>(typeID, shared3). and_then (store_u32 shared3 (bcFunc + offsetof BCSymbol_typeID) typeID)
        (\<lambda>shared4.
           let subContext0 = \<lparr>currentBytecode = [], remappedGlobalSymbols = [],
                               mapInstToLocalID = Map.empty\<rparr>;
               subContext1 = enumerateBlocks subContext0 (getBlocks irFunc) 0;
               blockCount = length (getBlocks irFunc);
               (bcBlocks, shared5) = allocateArray shared4 T_BCBlock blockCount
           in and_then (store_u32 shared5 (bcFunc + offsetof BCFunc_blockCount) (of_nat blockCount))
             (\<lambda>shared6. and_then (store_ptr shared6 (bcFunc + offsetof BCFunc_blocks) (Some bcBlocks))
             (\<lambda>shared7. and_then (countRegisters shared7 bcBlocks (getBlocks irFunc) 0 0)
             (\<lambda>(regCounter, shared8).
                let regCount = regCounter;
                    (bcRegs, shared9) = allocateArray shared8 T_BCReg regCount
                in and_then (store_u32 shared9 (bcFunc + offsetof BCFunc_regCount) (of_nat regCount))
                  (\<lambda>shared10. and_then (store_ptr shared10 (bcFunc + offsetof BCFunc_regs) (Some bcRegs))
                  (\<lambda>shared11. and_then
                     (fillRegisters opc shared11 subContext1 bcBlocks bcRegs (getBlocks irFunc) 0 0)
                  (\<lambda>(regCounter', shared12, subContext2).
                     if regCounter' \<noteq> regCount then Inl AssertionFailed
                     else Inr (bcFunc, bcBlocks, shared12, subContext2)))))))))))"

text \<open>
  The last stage: the code goes into the arena, every block gets its code pointer, and
  the imported constants are written.
\<close>

definition funcCode ::
  "SharedBytecodeGenerationContext \<Rightarrow> nat \<Rightarrow> nat \<Rightarrow> IRBlock list \<Rightarrow> nat list
     \<Rightarrow> BytecodeGenerationContext \<Rightarrow> error + SharedBytecodeGenerationContext" where
  "funcCode shared bcFunc bcBlocks blocks blockOffsets subContext =
     (let byteCount = length (currentBytecode subContext);
          (bytes, shared1) = allocateArray shared T_uint8_t byteCount
      in and_then (store_bytes shared1 bytes (currentBytecode subContext))
        (\<lambda>shared2. and_then (storeBlockCode shared2 bcBlocks bytes blockOffsets blocks 0)
        (\<lambda>shared3.
           let constCount = length (remappedGlobalSymbols subContext);
               (bcConsts, shared4) = allocateArray shared3 T_BCConst constCount
           in and_then (store_u32 shared4 (bcFunc + offsetof BCFunc_constCount) (of_nat constCount))
             (\<lambda>shared5. and_then (store_ptr shared5 (bcFunc + offsetof BCFunc_consts) (Some bcConsts))
             (\<lambda>shared6. storeConsts shared6 bcConsts (remappedGlobalSymbols subContext) 0)))))"

definition generateBytecodeSymbolForInst ::
  "(IROp \<Rightarrow> nat) \<Rightarrow> SharedBytecodeGenerationContext \<Rightarrow> IRGlobalValue
     \<Rightarrow> error + (BytecodeGenerationPtr \<times> SharedBytecodeGenerationContext)" where
  "generateBytecodeSymbolForInst opc shared inst =
     (if op (asInst inst) = kIROp_Func then
        and_then (funcRegisters opc shared inst)
          (\<lambda>(bcFunc, bcBlocks, shared1, subContext1). and_then
             (emitBlocks opc shared1 subContext1 (getBlocks inst) [])
          (\<lambda>(blockOffsets, shared2, subContext2). and_then
             (funcCode shared2 bcFunc bcBlocks (getBlocks inst) blockOffsets subContext2)
          (\<lambda>shared3. Inr (Some bcFunc, shared3))))
      else if op (asInst inst) = kIROp_global_var \<or> op (asInst inst) = kIROp_global_constant then
        (let (bcVar, shared1) = allocate shared T_BCSymbol
         in and_then (store_u32 shared1 (bcVar + offsetof BCSymbol_op) (of_nat (opc (op (asInst inst)))))
           (\<lambda>shared2. and_then (getTypeID opc shared2 (getDataType (asInst inst)))
           (\<lambda>(typeID, shared3). and_then (store_u32 shared3 (bcVar + offsetof BCSymbol_typeID) typeID)
           (\<lambda>shared4. Inr (Some bcVar, shared4)))))
      else Inr (None, shared))"

section \<open>Modules and the container\<close>

text \<open>First loop of \<open>generateBytecodeForModule\<close>: the ids of the global values.\<close>

fun assignGlobalIDs ::
  "SharedBytecodeGenerationContext \<Rightarrow> BytecodeGenerationContext \<Rightarrow> IRGlobalInst list \<Rightarrow> nat
     \<Rightarrow> nat \<times> SharedBytecodeGenerationContext \<times> BytecodeGenerationContext" where
  "assignGlobalIDs shared context [] symbolCount = (symbolCount, shared, context)"
| "assignGlobalIDs shared context (OtherInst ii # rest) symbolCount =
     assignGlobalIDs shared context rest symbolCount"
| "assignGlobalIDs shared context (GlobalValue gv # rest) symbolCount =
     (let globalID = symbolCount;
          bcConst = \<lparr>flavor = kBCConstFlavor_GlobalSymbol, id_BCConst = of_nat globalID\<rparr>;
          shared' = shared\<lparr>mapValueToGlobal := (mapValueToGlobal shared)(addr (asInst gv) \<mapsto> bcConst)\<rparr>;
          context' = context\<lparr>mapInstToLocalID :=
                        (mapInstToLocalID context)(addr (asInst gv) \<mapsto> of_nat globalID)\<rparr>
      in assignGlobalIDs shared' context' rest (symbolCount + 1))"

text \<open>Second loop: the symbol of every global value, with its name.\<close>

fun generateSymbols ::
  "(IROp \<Rightarrow> nat) \<Rightarrow> SharedBytecodeGenerationContext \<Rightarrow> BytecodeGenerationContext \<Rightarrow> nat
     \<Rightarrow> IRGlobalInst list \<Rightarrow> error + SharedBytecodeGenerationContext" where
  "generateSymbols opc shared context bcSymbols [] = Inr shared"
| "generateSymbols opc shared context bcSymbols (OtherInst ii # rest) =
     generateSymbols opc shared context bcSymbols rest"
| "generateSymbols opc shared context bcSymbols (GlobalValue gv # rest) =
     (case mapInstToLocalID context (addr (asInst gv)) of
        None \<Rightarrow> Inl NullDereference
      | Some localID \<Rightarrow>
          (let symbolIndex = unat localID
           in and_then (generateBytecodeSymbolForInst opc shared gv)
             (\<lambda>(bcSymbol, shared1).
                case bcSymbol of
                  None \<Rightarrow> generateSymbols opc shared1 context bcSymbols rest
                | Some symbolOffset \<Rightarrow>
                    and_then (tryGenerateNameForSymbol shared1 gv)
                      (\<lambda>(name, shared2). and_then
                         (store_ptr shared2 (symbolOffset + offsetof BCSymbol_name) name)
                      (\<lambda>shared3. and_then
                         (store_ptr shared3 (bcSymbols + symbolIndex * sizeof T_BCPtr) bcSymbol)
                      (\<lambda>shared4. generateSymbols opc shared4 context bcSymbols rest))))))"

text \<open>
  Third loop: the pooled constants, \<open>cc\<close> counting up. The body adds no constant, so
  the loop runs over the list as it is when the loop starts.
\<close>

fun storeConstants ::
  "(IROp \<Rightarrow> nat) \<Rightarrow> SharedBytecodeGenerationContext \<Rightarrow> nat \<Rightarrow> IRInst list \<Rightarrow> nat
     \<Rightarrow> error + SharedBytecodeGenerationContext" where
  "storeConstants opc shared bcConstants [] cc = Inr shared"
| "storeConstants opc shared bcConstants (irConstant # rest) cc =
     and_then
       (store_u32 shared (bcConstants + cc * sizeof T_BCConstant + offsetof BCConstant_op)
          (of_nat (opc (op irConstant))))
       (\<lambda>shared1. and_then (getTypeID opc shared1 (getDataType irConstant))
       (\<lambda>(typeID, shared2). and_then
          (store_u32 shared2 (bcConstants + cc * sizeof T_BCConstant + offsetof BCConstant_typeID) typeID)
       (\<lambda>shared3.
          if op irConstant = kIROp_IntLit then
            (let (ptr, shared4) = allocate shared3 T_IRIntegerValue
             in and_then (store_bytes shared4 ptr (encodeLE 8 (u_intVal irConstant)))
               (\<lambda>shared5. and_then
                  (store_ptr shared5 (bcConstants + cc * sizeof T_BCConstant + offsetof BCConstant_ptr)
                     (Some ptr))
               (\<lambda>shared6. storeConstants opc shared6 bcConstants rest (cc + 1))))
          else storeConstants opc shared3 bcConstants rest (cc + 1))))"

text \<open>Fourth loop: the type table, \<open>tt\<close> counting up.\<close>

fun storeTypes ::
  "SharedBytecodeGenerationContext \<Rightarrow> nat \<Rightarrow> nat list \<Rightarrow> nat
     \<Rightarrow> error + SharedBytecodeGenerationContext" where
  "storeTypes shared bcTypesArray [] tt = Inr shared"
| "storeTypes shared bcTypesArray (bcType # rest) tt =
     and_then (store_ptr shared (bcTypesArray + tt * sizeof T_BCPtr) (Some bcType))
       (\<lambda>shared'. storeTypes shared' bcTypesArray rest (tt + 1))"

definition generateBytecodeForModule ::
  "(IROp \<Rightarrow> nat) \<Rightarrow> SharedBytecodeGenerationContext \<Rightarrow> BytecodeGenerationContext
     \<Rightarrow> IRModule option
     \<Rightarrow> error + (BytecodeGenerationPtr \<times> SharedBytecodeGenerationContext \<times> BytecodeGenerationContext)" where
  "generateBytecodeForModule opc shared context irModule =
     (case irModule of
        None \<Rightarrow> Inr (None, shared, context)
      | Some m \<Rightarrow>
          (let (bcModule, shared1) = allocate shared T_BCModule;
               (symbolCount, shared2, context') = assignGlobalIDs shared1 context (getGlobalInsts m) 0;
               (bcSymbols, shared3) = allocateArray shared2 T_BCPtr symbolCount
           in and_then (store_u32 shared3 (bcModule + offsetof BCModule_symbolCount) (of_nat symbolCount))
             (\<lambda>shared4. and_then (store_ptr shared4 (bcModule + offsetof BCModule_symbols) (Some bcSymbols))
             (\<lambda>shared5. and_then (generateSymbols opc shared5 context' bcSymbols (getGlobalInsts m))
             (\<lambda>shared6.
                let constantCount = length (constants shared6);
                    (bcConstants, shared7) = allocateArray shared6 T_BCConstant constantCount
                in and_then
                     (store_u32 shared7 (bcModule + offsetof BCModule_constantCount) (of_nat constantCount))
                  (\<lambda>shared8. and_then
                     (store_ptr shared8 (bcModule + offsetof BCModule_constants) (Some bcConstants))
                  (\<lambda>shared9. and_then (storeConstants opc shared9 bcConstants (constants shared9) 0)
                  (\<lambda>shared10.
                     let typeCount = length (bcTypes shared10);
                         (bcTypesArray, shared11) = allocateArray shared10 T_BCPtr typeCount
                     in and_then
                          (store_u32 shared11 (bcModule + offsetof BCModule_typeCount) (of_nat typeCount))
                       (\<lambda>shared12. and_then
                          (store_ptr shared12 (bcModule + offsetof BCModule_types) (Some bcTypesArray))
                       (\<lambda>shared13. and_then (storeTypes shared13 bcTypesArray (bcTypes shared13) 0)
                       (\<lambda>shared14. Inr (Some bcModule, shared14, context'))))))))))))"

text \<open>The loop of \<open>generateBytecodeContainer\<close> over the translation units.\<close>

fun generateModules ::
  "(IROp \<Rightarrow> nat) \<Rightarrow> SharedBytecodeGenerationContext \<Rightarrow> BytecodeGenerationContext
     \<Rightarrow> IRModule option list \<Rightarrow> BytecodeGenerationPtr list
     \<Rightarrow> error + (BytecodeGenerationPtr list \<times> SharedBytecodeGenerationContext \<times> BytecodeGenerationContext)" where
  "generateModules opc shared context [] bcModulesList = Inr (bcModulesList, shared, context)"
| "generateModules opc shared context (irModule # rest) bcModulesList =
     and_then (generateBytecodeForModule opc shared context irModule)
       (\<lambda>(bcModule, shared', context').
          generateModules opc shared' context' rest (bcModulesList @ [bcModule]))"

fun storeModules ::
  "SharedBytecodeGenerationContext \<Rightarrow> nat \<Rightarrow> BytecodeGenerationPtr list \<Rightarrow> nat
     \<Rightarrow> error + SharedBytecodeGenerationContext" where
  "storeModules shared bcModules [] ii = Inr shared"
| "storeModules shared bcModules (bcModule # rest) ii =
     and_then (store_ptr shared (bcModules + ii * sizeof T_BCPtr) bcModule)
       (\<lambda>shared'. storeModules shared' bcModules rest (ii + 1))"

definition magic :: "byte list" where
  "magic = [0x73, 0x6C, 0x61, 0x6E, 0x67, 0x00, 0x62, 0x63]"

definition generateBytecodeContainer ::
  "(IROp \<Rightarrow> nat) \<Rightarrow> SharedBytecodeGenerationContext \<Rightarrow> BytecodeGenerationContext \<Rightarrow> CompileRequest
     \<Rightarrow> error + (SharedBytecodeGenerationContext \<times> BytecodeGenerationContext)" where
  "generateBytecodeContainer opc shared context compileReq =
     (let (header, shared1) = allocate shared T_BCHeader
      in and_then (store_bytes shared1 (header + offsetof BCHeader_magic) magic)
        (\<lambda>shared2. and_then (store_u32 shared2 (header + offsetof BCHeader_version) 0)
        (\<lambda>shared3. and_then (generateModules opc shared3 context (translationUnits compileReq) [])
        (\<lambda>(bcModulesList, shared4, context').
           let bcModuleCount = length bcModulesList
           in and_then
                (store_u32 shared4 (header + offsetof BCHeader_moduleCount) (of_nat bcModuleCount))
             (\<lambda>shared5.
                let (bcModules, shared6) = allocateArray shared5 T_BCPtr bcModuleCount
                in and_then (store_ptr shared6 (header + offsetof BCHeader_modules) (Some bcModules))
                  (\<lambda>shared7. and_then (storeModules shared7 bcModules bcModulesList 0)
                  (\<lambda>shared8. Inr (shared8, context'))))))))"

text \<open>
  \<open>generateBytecodeForCompileRequest\<close>: fresh contexts, and the arena as the result,
  \<open>compileReq->generatedBytecode\<close>.
\<close>

definition generateBytecodeForCompileRequest ::
  "(IROp \<Rightarrow> nat) \<Rightarrow> CompileRequest \<Rightarrow> error + byte list" where
  "generateBytecodeForCompileRequest opc compileReq =
     (let sharedContext = \<lparr>bytecode = [], mapValueToGlobal = Map.empty, bcTypes = [],
                             mapTypeToID = Map.empty, constants = []\<rparr>;
          context = \<lparr>currentBytecode = [], remappedGlobalSymbols = [],
                       mapInstToLocalID = Map.empty\<rparr>
      in and_then (generateBytecodeContainer opc sharedContext context compileReq)
           (\<lambda>(sharedContext', context'). Inr (bytecode sharedContext')))"

section \<open>Notions used in the statements\<close>

text \<open>
  \<open>keeps L B ref\<close>: the arena is at least \<open>L\<close> bytes long, and its first \<open>B\<close>
  bytes, where \<open>B \<le> L\<close>, are \<open>ref\<close>. Every allocation made from such a state
  lies at or above \<open>L\<close>, and a store at or above \<open>B\<close> keeps the state such.
\<close>

definition keeps :: "nat \<Rightarrow> nat \<Rightarrow> byte list \<Rightarrow> SharedBytecodeGenerationContext \<Rightarrow> bool" where
  "keeps L B ref s \<longleftrightarrow> L \<le> length (bytecode s) \<and> B \<le> L \<and> take B (bytecode s) = ref"


text \<open>
  The register count as the specification words it: per block, the parameters, twice
  the \<open>var\<close> instructions, and the other instructions whose result type is present
  and not void.
\<close>

definition resultRegisters :: "IRInst list \<Rightarrow> nat" where
  "resultRegisters insts =
     length (filter (\<lambda>ii. op ii = kIROp_Param) insts) +
     2 * length (filter (\<lambda>ii. op ii = kIROp_Var) insts) +
     length (filter (\<lambda>ii. op ii \<noteq> kIROp_Param \<and> op ii \<noteq> kIROp_Var \<and>
                          getDataType ii \<noteq> None \<and>
                          getDataType ii \<noteq> Some (BasicExpressionType BaseType_Void)) insts)"

definition functionRegisters :: "IRBlock list \<Rightarrow> nat" where
  "functionRegisters blocks = sum_list (map (\<lambda>bb. resultRegisters (getInsts bb)) blocks)"


text \<open>
  The scenarios of the specification: an opcode numbering with \<open>IntLit = 7\<close> and
  \<open>ReturnVoid = 3\<close>, the fresh shared context of a compile request, and a function
  with a parameter, a \<open>var\<close>, a literal, a store and a return.
\<close>

definition scenarioOpcodes :: "IROp \<Rightarrow> nat" where
  "scenarioOpcodes x =
     (if x = kIROp_IntLit then 7 else if x = kIROp_ReturnVoid then 3
      else if x = kIROp_Func then 1 else if x = kIROp_Param then 2
      else if x = kIROp_Var then 4 else if x = kIROp_Store then 5 else if x = kIROp_Load then 6
      else if x = kIROp_Int32Type then 20 else if x = kIROp_PtrType then 21
      else if x = kIROp_VoidType then 22 else 99)"

definition freshShared :: SharedBytecodeGenerationContext where
  "freshShared = \<lparr>bytecode = [], mapValueToGlobal = Map.empty, bcTypes = [],
                   mapTypeToID = Map.empty, constants = []\<rparr>"

definition int32 :: Type where
  "int32 = BasicExpressionType BaseType_Int"

definition scenarioVarStore :: IRGlobalValue where
  "scenarioVarStore =
     IRGlobalValue (IRInst 1 kIROp_Func None [] 0) None
       [IRBlock 2
          [IRInst 3 kIROp_Param (Some int32) [] 0,
           IRInst 4 kIROp_Var (Some (PtrType int32)) [] 0,
           IRInst 5 kIROp_IntLit (Some int32) [] 5,
           IRInst 6 kIROp_Store None
             [IRInst 4 kIROp_Var (Some (PtrType int32)) [] 0, IRInst 5 kIROp_IntLit (Some int32) [] 5] 0,
           IRInst 7 kIROp_ReturnVoid None [] 0]]"

text \<open>A compile request of two translation units: an empty module, and no module.\<close>

definition emptyAndNullRequest :: CompileRequest where
  "emptyAndNullRequest = \<lparr>translationUnits = [Some \<lparr>getGlobalInsts = []\<rparr>, None]\<rparr>"

text \<open>
  A compile request of two translation units: a module with one global variable of type
  \<open>int32\<close>, and an empty module.
\<close>

definition globalVarThenEmptyRequest :: CompileRequest where
  "globalVarThenEmptyRequest =
     \<lparr>translationUnits =
        [Some \<lparr>getGlobalInsts =
           [GlobalValue (IRGlobalValue (IRInst 1 kIROp_global_var (Some int32) [] 0) None [])]\<rparr>,
         Some \<lparr>getGlobalInsts = []\<rparr>]\<rparr>"

text \<open>
  A compile request with one function: a typed boolean constant, and an untyped one.
\<close>

definition untypedConstantRequest :: CompileRequest where
  "untypedConstantRequest =
     \<lparr>translationUnits =
        [Some \<lparr>getGlobalInsts =
           [GlobalValue (IRGlobalValue (IRInst 1 kIROp_Func None [] 0) None
              [IRBlock 2
                 [IRInst 4 kIROp_boolConst (Some (BasicExpressionType BaseType_Bool)) [] 1,
                  IRInst 6 kIROp_boolConst None [] 1]])]\<rparr>]\<rparr>"

text \<open>
  A compile request with one function, whose entry block is \<open>IntLit 42 : int32\<close> and
  \<open>ReturnVoid\<close>.
\<close>

definition literalRequest :: CompileRequest where
  "literalRequest =
     \<lparr>translationUnits =
        [Some \<lparr>getGlobalInsts =
           [GlobalValue (IRGlobalValue (IRInst 1 kIROp_Func None [] 0) None
              [IRBlock 2
                 [IRInst 3 kIROp_IntLit (Some int32) [] 42,
                  IRInst 4 kIROp_ReturnVoid None [] 0]])]\<rparr>]\<rparr>"

text \<open>
  Modelled from the spec: the paths through the container to the record of the first
  module, to its first symbol, to the first block and the first register of that
  function, and to the first type of the module.
\<close>

definition firstModule :: "byte list \<Rightarrow> nat" where
  "firstModule a = unat (load_ptr a (unat (load_ptr a (offsetof BCHeader_modules))))"

definition firstSymbol :: "byte list \<Rightarrow> nat" where
  "firstSymbol a = unat (load_ptr a (unat (load_ptr a (firstModule a + offsetof BCModule_symbols))))"

definition firstBlock :: "byte list \<Rightarrow> nat" where
  "firstBlock a = unat (load_ptr a (firstSymbol a + offsetof BCFunc_blocks))"

definition firstRegister :: "byte list \<Rightarrow> nat" where
  "firstRegister a = unat (load_ptr a (firstSymbol a + offsetof BCFunc_regs))"

definition firstType :: "byte list \<Rightarrow> nat" where
  "firstType a = unat (load_ptr a (unat (load_ptr a (firstModule a + offsetof BCModule_types))))"

text \<open>The 224 bytes that the generator returns for that request.\<close>

definition literalBytecode :: "byte list" where
  "literalBytecode =
   [115, 108, 97, 110, 103, 0, 98, 99, 0, 0, 0, 0, 1, 0, 0, 0, 216, 0, 0, 0,
    0, 0, 0, 0, 1, 0, 0, 0, 0, 0, 0, 0, 72, 0, 0, 0, 0, 0, 0, 0, 0, 0, 0, 0,
    0, 0, 0, 0, 208, 0, 0, 0, 0, 0, 0, 0, 1, 0, 0, 0, 0, 0, 0, 0, 208, 0, 0,
    0, 0, 0, 0, 0, 80, 0, 0, 0, 0, 0, 0, 0, 1, 0, 0, 0, 0, 0, 0, 0, 0, 0, 0,
    0, 0, 0, 0, 0, 1, 0, 0, 0, 0, 0, 0, 0, 168, 0, 0, 0, 0, 0, 0, 0, 1, 0,
    0, 0, 0, 0, 0, 0, 144, 0, 0, 0, 0, 0, 0, 0, 0, 0, 0, 0, 0, 0, 0, 0, 204,
    0, 0, 0, 0, 0, 0, 0, 0, 0, 0, 0, 0, 0, 0, 0, 168, 0, 0, 0, 0, 0, 0, 0,
    196, 0, 0, 0, 0, 0, 0, 0, 7, 0, 0, 0, 0, 0, 0, 0, 0, 0, 0, 0, 0, 0, 0,
    0, 20, 0, 0, 0, 0, 0, 0, 0, 0, 0, 0, 0, 7, 0, 42, 0, 3, 0, 0, 0, 0, 0,
    0, 0, 184, 0, 0, 0, 0, 0, 0, 0, 24, 0, 0, 0, 0, 0, 0, 0]"

text \<open>
  Modelled from the spec: a void record is a type record with the opcode of the void
  type and no arguments. A type is registered as void when the interning map has no
  entry for it, or its entry is the index of a void record in the type table.
\<close>

definition isVoidRecord :: "(IROp \<Rightarrow> nat) \<Rightarrow> SharedBytecodeGenerationContext \<Rightarrow> nat \<Rightarrow> bool" where
  "isVoidRecord opc shared bcType =
     (bcType + sizeof T_BCType \<le> length (bytecode shared) \<and>
      load_u32 (bytecode shared) (bcType + offsetof BCType_op) = of_nat (opc kIROp_VoidType) \<and>
      load_u32 (bytecode shared) (bcType + offsetof BCType_argCount) = 0)"

definition registeredAsVoid ::
  "(IROp \<Rightarrow> nat) \<Rightarrow> SharedBytecodeGenerationContext \<Rightarrow> Type option \<Rightarrow> bool" where
  "registeredAsVoid opc shared type' =
     (case mapTypeToID shared type' of
        None \<Rightarrow> True
      | Some id' \<Rightarrow> id' < length (bcTypes shared) \<and> isVoidRecord opc shared (bcTypes shared ! id'))"

section \<open>The operands a run encodes\<close>

text \<open>
  Every function of the generator on the way from \<open>generateBytecodeForCompileRequest\<close>
  down to \<open>encodeOperand(context, IRInst*)\<close> has, beside it, the list of the calls of
  \<open>encodeOperand\<close> that it makes, in the order in which it makes them, each with the
  shared context, the context and the operand of the call. The list follows the body of
  the function statement by statement: a statement that does not reach
  \<open>encodeOperand\<close> contributes no call and passes its state on, and after a statement
  that fails nothing more is called.
\<close>

type_synonym OperandCall = "SharedBytecodeGenerationContext \<times> BytecodeGenerationContext \<times> IRInst"

definition then_calls :: "error + 'a \<Rightarrow> ('a \<Rightarrow> OperandCall list) \<Rightarrow> OperandCall list" where
  "then_calls m f = (case m of Inl e \<Rightarrow> [] | Inr x \<Rightarrow> f x)"

fun encodeOperands_calls ::
  "SharedBytecodeGenerationContext \<Rightarrow> BytecodeGenerationContext \<Rightarrow> IRInst list \<Rightarrow> OperandCall list" where
  "encodeOperands_calls shared context [] = []"
| "encodeOperands_calls shared context (operand # rest) =
     (shared, context, operand) #
     then_calls (encodeOperand shared context operand)
       (\<lambda>(shared', context'). encodeOperands_calls shared' context' rest)"

definition generateBytecodeForInst_calls ::
  "(IROp \<Rightarrow> nat) \<Rightarrow> SharedBytecodeGenerationContext \<Rightarrow> BytecodeGenerationContext \<Rightarrow> IRInst
     \<Rightarrow> OperandCall list" where
  "generateBytecodeForInst_calls opc shared context inst =
     (if op inst = kIROp_ReturnVoid then []
      else if op inst = kIROp_IntLit then
        (let context1 = encodeUInt context (of_nat (opc (op inst)))
         in then_calls (encodeOperand_type opc shared context1 (getDataType inst))
           (\<lambda>(shared2, context2).
              let context3 = encodeUInt context2 (u_intVal inst)
              in [(shared2, context3, inst)]))
      else if op inst = kIROp_FloatLit then
        (let context1 = encodeUInt context (of_nat (opc (op inst)))
         in then_calls (encodeOperand_type opc shared context1 (getDataType inst))
           (\<lambda>(shared2, context2).
              let context3 = foldl encodeUInt8 context2 (encodeLE 8 (u_intVal inst))
              in [(shared2, context3, inst)]))
      else if op inst = kIROp_boolConst then
        (let context1 = encodeUInt context (of_nat (opc (op inst)));
             context2 = encodeUInt context1 (if u_intVal inst \<noteq> 0 then 1 else 0)
         in [(shared, context2, inst)])
      else if op inst = kIROp_Store then
        (let context1 = encodeUInt context (of_nat (opc (op inst)))
         in then_calls (getOperand inst 1)
           (\<lambda>operand1. then_calls (encodeOperand_type opc shared context1 (getDataType operand1))
           (\<lambda>(shared2, context2). then_calls (getOperand inst 0)
           (\<lambda>operand0. (shared2, context2, operand0) #
              then_calls (encodeOperand shared2 context2 operand0)
           (\<lambda>(shared3, context3). [(shared3, context3, operand1)])))))
      else if op inst = kIROp_Load then
        (let context1 = encodeUInt context (of_nat (opc (op inst)))
         in then_calls (encodeOperand_type opc shared context1 (getDataType inst))
           (\<lambda>(shared2, context2). then_calls (getOperand inst 0)
           (\<lambda>operand0. (shared2, context2, operand0) #
              then_calls (encodeOperand shared2 context2 operand0)
           (\<lambda>(shared3, context3). [(shared3, context3, inst)]))))
      else
        (let operandCount = length (getOperands inst);
             context1 = encodeUInt context (of_nat (opc (op inst)))
         in then_calls (encodeOperand_type opc shared context1 (getDataType inst))
           (\<lambda>(shared2, context2).
              let context3 = encodeUInt context2 (of_nat operandCount)
              in encodeOperands_calls shared2 context3 (getOperands inst) @
                 then_calls (encodeOperands shared2 context3 (getOperands inst))
                   (\<lambda>(shared4, context4).
                      if \<not> opHasResult inst then []
                      else [(shared4, context4, inst)]))))"

fun emitInsts_calls ::
  "(IROp \<Rightarrow> nat) \<Rightarrow> SharedBytecodeGenerationContext \<Rightarrow> BytecodeGenerationContext \<Rightarrow> IRInst list
     \<Rightarrow> OperandCall list" where
  "emitInsts_calls opc shared subContext [] = []"
| "emitInsts_calls opc shared subContext (ii # rest) =
     (if op ii = kIROp_Param then emitInsts_calls opc shared subContext rest
      else generateBytecodeForInst_calls opc shared subContext ii @
           then_calls (generateBytecodeForInst opc shared subContext ii)
             (\<lambda>(shared', subContext'). emitInsts_calls opc shared' subContext' rest))"

fun emitBlocks_calls ::
  "(IROp \<Rightarrow> nat) \<Rightarrow> SharedBytecodeGenerationContext \<Rightarrow> BytecodeGenerationContext \<Rightarrow> IRBlock list
     \<Rightarrow> OperandCall list" where
  "emitBlocks_calls opc shared subContext [] = []"
| "emitBlocks_calls opc shared subContext (bb # rest) =
     emitInsts_calls opc shared subContext (getInsts bb) @
     then_calls (emitInsts opc shared subContext (getInsts bb))
       (\<lambda>(shared', subContext'). emitBlocks_calls opc shared' subContext' rest)"

definition generateBytecodeSymbolForInst_calls ::
  "(IROp \<Rightarrow> nat) \<Rightarrow> SharedBytecodeGenerationContext \<Rightarrow> IRGlobalValue \<Rightarrow> OperandCall list" where
  "generateBytecodeSymbolForInst_calls opc shared inst =
     (if op (asInst inst) = kIROp_Func then
        then_calls (funcRegisters opc shared inst)
          (\<lambda>(bcFunc, bcBlocks, shared1, subContext1).
             emitBlocks_calls opc shared1 subContext1 (getBlocks inst))
      else [])"

fun generateSymbols_calls ::
  "(IROp \<Rightarrow> nat) \<Rightarrow> SharedBytecodeGenerationContext \<Rightarrow> BytecodeGenerationContext \<Rightarrow> nat
     \<Rightarrow> IRGlobalInst list \<Rightarrow> OperandCall list" where
  "generateSymbols_calls opc shared context bcSymbols [] = []"
| "generateSymbols_calls opc shared context bcSymbols (OtherInst ii # rest) =
     generateSymbols_calls opc shared context bcSymbols rest"
| "generateSymbols_calls opc shared context bcSymbols (GlobalValue gv # rest) =
     (case mapInstToLocalID context (addr (asInst gv)) of
        None \<Rightarrow> []
      | Some localID \<Rightarrow>
          (let symbolIndex = unat localID
           in generateBytecodeSymbolForInst_calls opc shared gv @
              then_calls (generateBytecodeSymbolForInst opc shared gv)
                (\<lambda>(bcSymbol, shared1).
                   case bcSymbol of
                     None \<Rightarrow> generateSymbols_calls opc shared1 context bcSymbols rest
                   | Some symbolOffset \<Rightarrow>
                       then_calls (tryGenerateNameForSymbol shared1 gv)
                         (\<lambda>(name, shared2). then_calls
                            (store_ptr shared2 (symbolOffset + offsetof BCSymbol_name) name)
                         (\<lambda>shared3. then_calls
                            (store_ptr shared3 (bcSymbols + symbolIndex * sizeof T_BCPtr) bcSymbol)
                         (\<lambda>shared4. generateSymbols_calls opc shared4 context bcSymbols rest))))))"

definition generateBytecodeForModule_calls ::
  "(IROp \<Rightarrow> nat) \<Rightarrow> SharedBytecodeGenerationContext \<Rightarrow> BytecodeGenerationContext
     \<Rightarrow> IRModule option \<Rightarrow> OperandCall list" where
  "generateBytecodeForModule_calls opc shared context irModule =
     (case irModule of
        None \<Rightarrow> []
      | Some m \<Rightarrow>
          (let (bcModule, shared1) = allocate shared T_BCModule;
               (symbolCount, shared2, context') = assignGlobalIDs shared1 context (getGlobalInsts m) 0;
               (bcSymbols, shared3) = allocateArray shared2 T_BCPtr symbolCount
           in then_calls (store_u32 shared3 (bcModule + offsetof BCModule_symbolCount) (of_nat symbolCount))
             (\<lambda>shared4. then_calls (store_ptr shared4 (bcModule + offsetof BCModule_symbols) (Some bcSymbols))
             (\<lambda>shared5. generateSymbols_calls opc shared5 context' bcSymbols (getGlobalInsts m)))))"

fun generateModules_calls ::
  "(IROp \<Rightarrow> nat) \<Rightarrow> SharedBytecodeGenerationContext \<Rightarrow> BytecodeGenerationContext
     \<Rightarrow> IRModule option list \<Rightarrow> OperandCall list" where
  "generateModules_calls opc shared context [] = []"
| "generateModules_calls opc shared context (irModule # rest) =
     generateBytecodeForModule_calls opc shared context irModule @
     then_calls (generateBytecodeForModule opc shared context irModule)
       (\<lambda>(bcModule, shared', context'). generateModules_calls opc shared' context' rest)"

definition generateBytecodeContainer_calls ::
  "(IROp \<Rightarrow> nat) \<Rightarrow> SharedBytecodeGenerationContext \<Rightarrow> BytecodeGenerationContext \<Rightarrow> CompileRequest
     \<Rightarrow> OperandCall list" where
  "generateBytecodeContainer_calls opc shared context compileReq =
     (let (header, shared1) = allocate shared T_BCHeader
      in then_calls (store_bytes shared1 (header + offsetof BCHeader_magic) magic)
        (\<lambda>shared2. then_calls (store_u32 shared2 (header + offsetof BCHeader_version) 0)
        (\<lambda>shared3. generateModules_calls opc shared3 context (translationUnits compileReq))))"

definition generateBytecodeForCompileRequest_calls ::
  "(IROp \<Rightarrow> nat) \<Rightarrow> CompileRequest \<Rightarrow> OperandCall list" where
  "generateBytecodeForCompileRequest_calls opc compileReq =
     (let sharedContext = \<lparr>bytecode = [], mapValueToGlobal = Map.empty, bcTypes = [],
                             mapTypeToID = Map.empty, constants = []\<rparr>;
          context = \<lparr>currentBytecode = [], remappedGlobalSymbols = [],
                       mapInstToLocalID = Map.empty\<rparr>
      in generateBytecodeContainer_calls opc sharedContext context compileReq)"

text \<open>
  Modelled from the spec: a call whose operand cannot be resolved has no local id, no
  entry in the value-to-global map, and is not an \<open>IntLit\<close>.
\<close>

definition unresolvable :: "OperandCall \<Rightarrow> bool" where
  "unresolvable call =
     (case call of (shared, context, v) \<Rightarrow>
        mapInstToLocalID context (addr v) = None \<and> mapValueToGlobal shared (addr v) = None \<and>
        op v \<noteq> kIROp_IntLit)"

section \<open>Moving the objects of the IR graph\<close>

text \<open>
  The same IR graph with its objects at other addresses: \<open>f\<close> gives the new address of
  every instruction, block and global value, in the graph and in the operand lists alike.
  Type objects are given by their canonical structure and have no address here. A state
  of the generator is moved by moving the keys of its two dictionaries of instructions
  and the instructions of its constant pool.
\<close>

fun renameInst :: "(nat \<Rightarrow> nat) \<Rightarrow> IRInst \<Rightarrow> IRInst" where
  "renameInst f (IRInst a opc' t operands v) = IRInst (f a) opc' t (map (renameInst f) operands) v"

fun renameBlock :: "(nat \<Rightarrow> nat) \<Rightarrow> IRBlock \<Rightarrow> IRBlock" where
  "renameBlock f (IRBlock a insts) = IRBlock (f a) (map (renameInst f) insts)"

fun renameGlobalValue :: "(nat \<Rightarrow> nat) \<Rightarrow> IRGlobalValue \<Rightarrow> IRGlobalValue" where
  "renameGlobalValue f (IRGlobalValue inst decoration blocks) =
     IRGlobalValue (renameInst f inst) decoration (map (renameBlock f) blocks)"




definition renameShared ::
  "(nat \<Rightarrow> nat) \<Rightarrow> SharedBytecodeGenerationContext \<Rightarrow> SharedBytecodeGenerationContext" where
  "renameShared f shared =
     shared\<lparr>mapValueToGlobal := mapValueToGlobal shared \<circ> inv f,
            constants := map (renameInst f) (constants shared)\<rparr>"

definition renameContext ::
  "(nat \<Rightarrow> nat) \<Rightarrow> BytecodeGenerationContext \<Rightarrow> BytecodeGenerationContext" where
  "renameContext f context = context\<lparr>mapInstToLocalID := mapInstToLocalID context \<circ> inv f\<rparr>"

text \<open>The result of a step with its state replaced.\<close>

definition mapResult :: "('a \<Rightarrow> 'b) \<Rightarrow> error + 'a \<Rightarrow> error + 'b" where
  "mapResult g m = (case m of Inl e \<Rightarrow> Inl e | Inr x \<Rightarrow> Inr (g x))"



section \<open>Properties of the variable-length integers\<close>

lemma foldl_encodeUInt8:
  "foldl encodeUInt8 c bs = c\<lparr>currentBytecode := currentBytecode c @ bs\<rparr>"
  by (induction bs arbitrary: c) (simp_all add: encodeUInt8_def)

lemma encodeUInt_eq:
  "encodeUInt c v =
     c\<lparr>currentBytecode := currentBytecode c @ (if v < 128 then [ucast v] else rev (encodeUInt_bytes v))\<rparr>"
  by (simp add: encodeUInt_def foldl_encodeUInt8 encodeUInt8_def)

text \<open>
  C1. \<open>encodeUInt\<close> at 128 and at 16384: the scratch array holds the groups least
  significant first with bit 7 set on every group but the last one stored, and is
  emitted in reverse, so the byte emitted first is the one without the continuation
  bit: 128 gives 01 80 and 16384 gives 01 80 80, where 81 00 and 81 80 00 are
  expected. Values below 128 are single bytes: 0 gives 00 and 127 gives 7F.
\<close>

theorem encodeUInt_continuation_on_trailing_bytes:
  "currentBytecode (encodeUInt \<lparr>currentBytecode = [], remappedGlobalSymbols = [],
      mapInstToLocalID = Map.empty\<rparr> 128) = [0x01, 0x80] \<and>
   currentBytecode (encodeUInt \<lparr>currentBytecode = [], remappedGlobalSymbols = [],
      mapInstToLocalID = Map.empty\<rparr> 16384) = [0x01, 0x80, 0x80] \<and>
   currentBytecode (encodeUInt \<lparr>currentBytecode = [], remappedGlobalSymbols = [],
      mapInstToLocalID = Map.empty\<rparr> 0) = [0x00] \<and>
   currentBytecode (encodeUInt \<lparr>currentBytecode = [], remappedGlobalSymbols = [],
      mapInstToLocalID = Map.empty\<rparr> 127) = [0x7F]"
  by (simp add: encodeUInt_eq encodeUInt_bytes.simps)

section \<open>Resolution of operands\<close>

lemma encodeSInt_minus_one:
  "encodeSInt c (- 1) = c\<lparr>currentBytecode := currentBytecode c @ [0x01]\<rparr>"
  by (simp add: encodeSInt_def encodeUInt_eq)

lemma getGlobalValue_cases:
  "getGlobalValue shared v =
     (case mapValueToGlobal shared (addr v) of
        Some bcConst \<Rightarrow> Inr (bcConst, shared)
      | None \<Rightarrow>
          if op v = kIROp_IntLit
          then Inr (\<lparr>flavor = kBCConstFlavor_Constant, id_BCConst = of_nat (length (constants shared))\<rparr>,
                    shared\<lparr>constants := constants shared @ [v],
                           mapValueToGlobal := (mapValueToGlobal shared)(addr v \<mapsto>
                             \<lparr>flavor = kBCConstFlavor_Constant, id_BCConst = of_nat (length (constants shared))\<rparr>)\<rparr>)
          else Inl (Unexpected ''no ID for inst''))"
  by (cases "op v") (simp_all add: getGlobalValue_def Let_def split: option.splits)

lemma getLocalID_local:
  "mapInstToLocalID context (addr v) = Some l \<Longrightarrow> getLocalID shared context v = Inr (l, shared, context)"
  by (simp add: getLocalID_def)

lemma getLocalID_global:
  "mapInstToLocalID context (addr v) = None \<Longrightarrow> mapValueToGlobal shared (addr v) = Some g \<Longrightarrow>
   getLocalID shared context v =
     Inr (NOT (of_nat (length (remappedGlobalSymbols context))), shared,
          context\<lparr>remappedGlobalSymbols := remappedGlobalSymbols context @ [g],
                  mapInstToLocalID := (mapInstToLocalID context)(addr v \<mapsto>
                     NOT (of_nat (length (remappedGlobalSymbols context))))\<rparr>)"
  by (simp add: getLocalID_def getGlobalValue_cases Let_def)

lemma getLocalID_literal:
  "mapInstToLocalID context (addr v) = None \<Longrightarrow> mapValueToGlobal shared (addr v) = None \<Longrightarrow>
   op v = kIROp_IntLit \<Longrightarrow>
   getLocalID shared context v =
     Inr (NOT (of_nat (length (remappedGlobalSymbols context))),
          shared\<lparr>constants := constants shared @ [v],
                 mapValueToGlobal := (mapValueToGlobal shared)(addr v \<mapsto>
                   \<lparr>flavor = kBCConstFlavor_Constant, id_BCConst = of_nat (length (constants shared))\<rparr>)\<rparr>,
          context\<lparr>remappedGlobalSymbols := remappedGlobalSymbols context @
                    [\<lparr>flavor = kBCConstFlavor_Constant, id_BCConst = of_nat (length (constants shared))\<rparr>],
                  mapInstToLocalID := (mapInstToLocalID context)(addr v \<mapsto>
                     NOT (of_nat (length (remappedGlobalSymbols context))))\<rparr>)"
  by (simp add: getLocalID_def getGlobalValue_cases Let_def)

lemma getLocalID_unresolved:
  "mapInstToLocalID context (addr v) = None \<Longrightarrow> mapValueToGlobal shared (addr v) = None \<Longrightarrow>
   op v \<noteq> kIROp_IntLit \<Longrightarrow>
   getLocalID shared context v = Inl (Unexpected ''no ID for inst'')"
  by (simp add: getLocalID_def getGlobalValue_cases)

text \<open>
  C5, as stated, fails: the operand that is the first import of a function body, a
  fresh \<open>IntLit\<close> that becomes constant 0 and local id \<open>~0 = -1\<close>, is encoded as the
  single byte 01, not 03.
\<close>

theorem encodeOperand_first_import_counterexample:
  "map_sum id (\<lambda>(shared, context). (currentBytecode context, remappedGlobalSymbols context, constants shared))
     (encodeOperand
        \<lparr>bytecode = [], mapValueToGlobal = Map.empty, bcTypes = [], mapTypeToID = Map.empty, constants = []\<rparr>
        \<lparr>currentBytecode = [], remappedGlobalSymbols = [], mapInstToLocalID = Map.empty\<rparr>
        (IRInst 9 kIROp_IntLit (Some (BasicExpressionType BaseType_Int)) [] 5))
   = Inr ([0x01],
          [\<lparr>flavor = kBCConstFlavor_Constant, id_BCConst = 0\<rparr>],
          [IRInst 9 kIROp_IntLit (Some (BasicExpressionType BaseType_Int)) [] 5]) \<and>
   [0x01] \<noteq> [0x03 :: byte]"
  by (simp add: encodeOperand_def getLocalID_def getGlobalValue_def encodeSInt_minus_one Let_def)

text \<open>
  C5, amended. For a function body whose first imported reference is a fresh integer
  literal (no local id, no global entry, empty import list, empty constant pool), the
  literal becomes constant 0, gets the local id \<open>~0 = -1\<close>, and its operand is
  \<open>svar(-1) = uvar((~(-1) << 1) | 1) = uvar(1)\<close>, the single byte 01.
\<close>

theorem encodeOperand_first_import:
  assumes "mapInstToLocalID context (addr v) = None"
    and "remappedGlobalSymbols context = []"
    and "mapValueToGlobal shared (addr v) = None" and "op v = kIROp_IntLit"
    and "constants shared = []"
  shows "\<exists>shared' context'.
           encodeOperand shared context v = Inr (shared', context') \<and>
           constants shared' = [v] \<and>
           mapValueToGlobal shared' (addr v) = Some \<lparr>flavor = kBCConstFlavor_Constant, id_BCConst = 0\<rparr> \<and>
           remappedGlobalSymbols context' = [\<lparr>flavor = kBCConstFlavor_Constant, id_BCConst = 0\<rparr>] \<and>
           mapInstToLocalID context' (addr v) = Some (NOT 0) \<and> sint (NOT 0 :: Int_t) = - 1 \<and>
           currentBytecode context' = currentBytecode context @ [0x01]"
proof -
  from assms have g: "getGlobalValue shared v =
      Inr (\<lparr>flavor = kBCConstFlavor_Constant, id_BCConst = 0\<rparr>,
           shared\<lparr>constants := [v],
                  mapValueToGlobal := (mapValueToGlobal shared)(addr v \<mapsto>
                     \<lparr>flavor = kBCConstFlavor_Constant, id_BCConst = 0\<rparr>)\<rparr>)"
    by (simp add: getGlobalValue_cases)
  from assms(1,2) g have l: "getLocalID shared context v =
      Inr (NOT 0,
           shared\<lparr>constants := [v],
                  mapValueToGlobal := (mapValueToGlobal shared)(addr v \<mapsto>
                     \<lparr>flavor = kBCConstFlavor_Constant, id_BCConst = 0\<rparr>)\<rparr>,
           context\<lparr>remappedGlobalSymbols := [\<lparr>flavor = kBCConstFlavor_Constant, id_BCConst = 0\<rparr>],
                   mapInstToLocalID := (mapInstToLocalID context)(addr v \<mapsto> NOT 0)\<rparr>)"
    by (simp add: getLocalID_def Let_def)
  show ?thesis
    unfolding encodeOperand_def l by (simp add: encodeSInt_minus_one)
qed

theorem encodeOperand_first_import_witness:
  "\<exists>shared' context'.
     encodeOperand
        \<lparr>bytecode = [], mapValueToGlobal = Map.empty, bcTypes = [], mapTypeToID = Map.empty, constants = []\<rparr>
        \<lparr>currentBytecode = [0x09, 0x00, 0x00], remappedGlobalSymbols = [], mapInstToLocalID = [3 \<mapsto> 0]\<rparr>
        (IRInst 9 kIROp_IntLit (Some (BasicExpressionType BaseType_Int)) [] 5) = Inr (shared', context') \<and>
     currentBytecode context' = [0x09, 0x00, 0x00, 0x01]"
  using encodeOperand_first_import
    [of "\<lparr>currentBytecode = [0x09, 0x00, 0x00], remappedGlobalSymbols = [], mapInstToLocalID = [3 \<mapsto> 0]\<rparr>"
        "IRInst 9 kIROp_IntLit (Some (BasicExpressionType BaseType_Int)) [] 5"
        "\<lparr>bytecode = [], mapValueToGlobal = Map.empty, bcTypes = [], mapTypeToID = Map.empty, constants = []\<rparr>"]
  by fastforce

section \<open>The arena: allocation and stores\<close>

lemma encodeLE_Suc: "encodeLE (Suc n) w = ucast w # encodeLE n (drop_bit 8 w)"
proof -
  have "[0..<Suc n] = 0 # [Suc 0..<Suc n]"
    by (rule upt_conv_Cons) simp
  then have "[0..<Suc n] = 0 # map Suc [0..<n]"
    by (simp only: map_Suc_upt)
  then show ?thesis
    by (simp add: encodeLE_def drop_bit_drop_bit comp_def add.commute del: upt_Suc)
qed

lemma length_encodeLE [simp]: "length (encodeLE n w) = n"
  by (simp add: encodeLE_def)

lemma decodeLE_encodeLE:
  "(decodeLE (encodeLE n w) :: 'a::len word) = take_bit (8 * n) (w :: 'a word)"
proof (induction n arbitrary: w)
  case 0
  show ?case by (simp add: encodeLE_def)
next
  case (Suc n)
  show ?case unfolding encodeLE_Suc decodeLE.simps Suc
    by (rule bit_word_eqI) (auto simp add: bit_simps)
qed

lemma decodeLE_encodeLE_u32 [simp]: "decodeLE (encodeLE 4 (w :: 32 word)) = w"
  by (simp add: decodeLE_encodeLE take_bit_word_eq_self)

lemma decodeLE_encodeLE_u64 [simp]: "decodeLE (encodeLE 8 (w :: 64 word)) = w"
  by (simp add: decodeLE_encodeLE take_bit_word_eq_self)

lemma and_not_mask_int: "(x::int) AND NOT (mask k) = x - take_bit k x"
proof -
  have "x AND NOT (mask k) = push_bit k (drop_bit k x)"
    by (rule bit_eqI) (auto simp add: bit_simps)
  also have "\<dots> = x - take_bit k x"
    using bits_ident [of k x] by simp
  finally show ?thesis .
qed

lemma align_pow2:
  "int c \<le> (int c + (int ((2::nat) ^ k) - 1)) AND NOT (int ((2::nat) ^ k) - 1) \<and>
   (int c + (int ((2::nat) ^ k) - 1)) AND NOT (int ((2::nat) ^ k) - 1) < int c + 2 ^ k"
proof -
  let ?x = "int c + (2 ^ k - 1)"
  have m: "int ((2::nat) ^ k) - 1 = mask k" by (simp add: mask_eq_exp_minus_1)
  have e: "?x AND NOT (mask k) = ?x - take_bit k ?x" by (rule and_not_mask_int)
  have "0 \<le> take_bit k ?x" by simp
  moreover have "take_bit k ?x < 2 ^ k" by simp
  ultimately have "int c \<le> ?x AND NOT (mask k) \<and> ?x AND NOT (mask k) < int c + 2 ^ k"
    unfolding e by linarith
  then show ?thesis unfolding m by (simp add: mask_eq_exp_minus_1)
qed

lemma alignof_pow2: "\<exists>k. alignof T = 2 ^ k"
proof -
  have "alignof T = 2 ^ 0 \<or> alignof T = 2 ^ 2 \<or> alignof T = 2 ^ 3"
    by (cases T) simp_all
  then show ?thesis by blast
qed

lemma keeps_refl:
  "L \<le> length (bytecode s) \<Longrightarrow> B \<le> L \<Longrightarrow> keeps L B (take B (bytecode s)) s"
  by (simp add: keeps_def)

lemma keeps_le: "keeps L B ref s \<Longrightarrow> L \<le> length (bytecode s) \<and> B \<le> L"
  by (simp add: keeps_def)

lemma keeps_take: "keeps L B ref s \<Longrightarrow> take B (bytecode s) = ref"
  by (simp add: keeps_def)

lemma keeps_bytecode_eq: "keeps L B ref s \<Longrightarrow> bytecode s' = bytecode s \<Longrightarrow> keeps L B ref s'"
  by (simp add: keeps_def)

lemma allocateRaw_pow2:
  assumes "allocateRaw s n (2 ^ k) = (b, s')"
  shows "length (bytecode s) \<le> b"
    and "bytecode s' = bytecode s @ replicate (b + n - length (bytecode s)) 0"
    and "length (bytecode s') = b + n"
    and "mapValueToGlobal s' = mapValueToGlobal s" and "bcTypes s' = bcTypes s"
    and "mapTypeToID s' = mapTypeToID s" and "constants s' = constants s"
proof -
  let ?c = "length (bytecode s)"
  have b: "b = nat ((int ?c + (int ((2::nat) ^ k) - 1)) AND NOT (int ((2::nat) ^ k) - 1))"
    using assms by (simp add: allocateRaw_def Let_def)
  from align_pow2 [of ?c k] show 1: "?c \<le> b"
    unfolding b by (simp add: le_nat_iff)
  show 3: "bytecode s' = bytecode s @ replicate (b + n - ?c) 0"
    using assms b by (auto simp add: allocateRaw_def Let_def)
  show "length (bytecode s') = b + n" unfolding 3 using 1 by simp
  show "mapValueToGlobal s' = mapValueToGlobal s" "bcTypes s' = bcTypes s"
    "mapTypeToID s' = mapTypeToID s" "constants s' = constants s"
    using assms by (auto simp add: allocateRaw_def Let_def)
qed

lemma allocate_props:
  assumes "allocate s T = (b, s')"
  shows "length (bytecode s) \<le> b"
    and "bytecode s' = bytecode s @ replicate (b + sizeof T - length (bytecode s)) 0"
    and "length (bytecode s') = b + sizeof T"
    and "mapValueToGlobal s' = mapValueToGlobal s" and "bcTypes s' = bcTypes s"
    and "mapTypeToID s' = mapTypeToID s" and "constants s' = constants s"
proof -
  obtain k where k: "alignof T = 2 ^ k" using alignof_pow2 by blast
  from assms have a: "allocateRaw s (sizeof T) (2 ^ k) = (b, s')"
    by (simp add: allocate_def k)
  note p = allocateRaw_pow2 [OF a]
  show "length (bytecode s) \<le> b"
    and "bytecode s' = bytecode s @ replicate (b + sizeof T - length (bytecode s)) 0"
    and "length (bytecode s') = b + sizeof T"
    and "mapValueToGlobal s' = mapValueToGlobal s" and "bcTypes s' = bcTypes s"
    and "mapTypeToID s' = mapTypeToID s" and "constants s' = constants s"
    by (rule p)+
qed

lemma allocateArray_props:
  assumes "allocateArray s T n = (b, s')"
  shows "length (bytecode s) \<le> b"
    and "bytecode s' = bytecode s @ replicate (b + n * sizeof T - length (bytecode s)) 0"
    and "length (bytecode s') = b + n * sizeof T"
    and "mapValueToGlobal s' = mapValueToGlobal s" and "bcTypes s' = bcTypes s"
    and "mapTypeToID s' = mapTypeToID s" and "constants s' = constants s"
proof -
  obtain k where k: "alignof T = 2 ^ k" using alignof_pow2 by blast
  from assms have a: "allocateRaw s (n * sizeof T) (2 ^ k) = (b, s')"
    by (simp add: allocateArray_def k)
  note p = allocateRaw_pow2 [OF a]
  show "length (bytecode s) \<le> b"
    and "bytecode s' = bytecode s @ replicate (b + n * sizeof T - length (bytecode s)) 0"
    and "length (bytecode s') = b + n * sizeof T"
    and "mapValueToGlobal s' = mapValueToGlobal s" and "bcTypes s' = bcTypes s"
    and "mapTypeToID s' = mapTypeToID s" and "constants s' = constants s"
    by (rule p)+
qed

lemma keeps_append: "keeps L B ref s \<Longrightarrow> bytecode s' = bytecode s @ zs \<Longrightarrow> keeps L B ref s'"
  by (auto simp add: keeps_def)

lemma keeps_allocateRaw:
  "keeps L B ref s \<Longrightarrow> allocateRaw s n (2 ^ k) = (b, s') \<Longrightarrow> keeps L B ref s' \<and> L \<le> b \<and> B \<le> b"
  using allocateRaw_pow2(1,2) [of s n k b s'] keeps_append [of L B ref s s'] keeps_le [of L B ref s]
  by fastforce

lemma keeps_allocate:
  "keeps L B ref s \<Longrightarrow> allocate s T = (b, s') \<Longrightarrow> keeps L B ref s' \<and> L \<le> b \<and> B \<le> b"
  using allocate_props(1,2) [of s T b s'] keeps_append [of L B ref s s'] keeps_le [of L B ref s]
  by fastforce

lemma keeps_allocateArray:
  "keeps L B ref s \<Longrightarrow> allocateArray s T n = (b, s') \<Longrightarrow> keeps L B ref s' \<and> L \<le> b \<and> B \<le> b"
  using allocateArray_props(1,2) [of s T n b s'] keeps_append [of L B ref s s'] keeps_le [of L B ref s]
  by fastforce

lemma store_bytes_Inr:
  assumes "store_bytes s off bs = Inr s'"
  shows "off + length bs \<le> length (bytecode s)"
    and "bytecode s' = take off (bytecode s) @ bs @ drop (off + length bs) (bytecode s)"
    and "length (bytecode s') = length (bytecode s)"
    and "mapValueToGlobal s' = mapValueToGlobal s" and "bcTypes s' = bcTypes s"
    and "mapTypeToID s' = mapTypeToID s" and "constants s' = constants s"
  using assms by (auto simp add: store_bytes_def split: if_splits)

lemma keeps_store_bytes:
  assumes "keeps L B ref s" and "store_bytes s off bs = Inr s'" and "B \<le> off"
  shows "keeps L B ref s'"
proof -
  note p = store_bytes_Inr [OF assms(2)]
  have "take B (bytecode s') = take B (take off (bytecode s))"
    unfolding p(2) using assms(3) p(1) by simp
  also have "\<dots> = take B (bytecode s)" using assms(3) by (simp add: min_def)
  finally show ?thesis using assms(1) p(3) by (simp add: keeps_def)
qed

lemma keeps_store_u32:
  "keeps L B ref s \<Longrightarrow> store_u32 s off v = Inr s' \<Longrightarrow> B \<le> off \<Longrightarrow> keeps L B ref s'"
  unfolding store_u32_def by (rule keeps_store_bytes)

lemma keeps_store_ptr:
  "keeps L B ref s \<Longrightarrow> store_ptr s off p = Inr s' \<Longrightarrow> B \<le> off \<Longrightarrow> keeps L B ref s'"
  unfolding store_ptr_def by (rule keeps_store_bytes)

lemma and_then_InrE:
  assumes "and_then m f = Inr y"
  obtains x where "m = Inr x" and "f x = Inr y"
  using assms by (cases m) (simp_all add: and_then_def)

lemma and_then_Inr [simp]: "and_then (Inr x) f = f x"
  by (simp add: and_then_def)

lemma and_then_Inl [simp]: "and_then (Inl e) f = Inl e"
  by (simp add: and_then_def)

section \<open>The type interner keeps what lies below\<close>

lemma keeps_storeArgs:
  "keeps L B ref s \<Longrightarrow> emitBCType_storeArgs s bcArgs args = Inr s' \<Longrightarrow> B \<le> bcArgs \<Longrightarrow> keeps L B ref s'"
proof (induction args arbitrary: s bcArgs)
  case Nil
  then show ?case by simp
next
  case (Cons a args)
  from Cons.prems(2) obtain s1 where 1: "store_ptr s bcArgs (Some a) = Inr s1"
    and 2: "emitBCType_storeArgs s1 (bcArgs + sizeof T_BCPtr) args = Inr s'"
    by (auto elim!: and_then_InrE)
  from keeps_store_ptr [OF Cons.prems(1) 1 Cons.prems(3)] have "keeps L B ref s1" .
  from Cons.IH [OF this 2] Cons.prems(3) show ?case by simp
qed

lemma keeps_emitBCType_args:
  assumes "keeps L B ref s" and "emitBCType_args opc s t op' args = Inr (h, s')"
  shows "keeps L B ref s'"
proof -
  obtain b s1 where a: "allocateRaw s (sizeof T_BCType + length args * sizeof T_BCPtr) (2 ^ 3) = (b, s1)"
    by (cases "allocateRaw s (sizeof T_BCType + length args * sizeof T_BCPtr) (2 ^ 3)") 
  from keeps_allocateRaw [OF assms(1) a] have k1: "keeps L B ref s1" and b: "B \<le> b" by simp_all
  from assms(2) a obtain s2 s3 s4 where
      2: "store_u32 s1 (b + offsetof BCType_op) (of_nat (opc op')) = Inr s2"
    and 3: "store_u32 s2 (b + offsetof BCType_argCount) (of_nat (length args)) = Inr s3"
    and 4: "emitBCType_storeArgs s3 (b + 1 * sizeof T_BCType) args = Inr s4"
    and 5: "store_u32 (s4\<lparr>mapTypeToID := (mapTypeToID s4)(t \<mapsto> length (bcTypes s4)),
                          bcTypes := bcTypes s4 @ [b]\<rparr>) (b + offsetof BCType_id) (of_nat (length (bcTypes s4))) = Inr s'"
    by (auto simp add: emitBCType_args_def Let_def elim!: and_then_InrE)
  from keeps_store_u32 [OF k1 2] b have k2: "keeps L B ref s2" by simp
  from keeps_store_u32 [OF k2 3] b have k3: "keeps L B ref s3" by simp
  from keeps_storeArgs [OF k3 4] b have k4: "keeps L B ref s4" by simp
  then have "keeps L B ref (s4\<lparr>mapTypeToID := (mapTypeToID s4)(t \<mapsto> length (bcTypes s4)),
                          bcTypes := bcTypes s4 @ [b]\<rparr>)" by (simp add: keeps_def)
  from keeps_store_u32 [OF this 5] b show ?thesis by simp
qed


text \<open>
  Whatever every single \<open>emitBCType_args\<close> preserves, interning preserves.
\<close>

lemma emitBCType_preserves:
  assumes step: "\<And>opc s t op' args h s'. Inv s \<Longrightarrow> emitBCType_args opc s t op' args = Inr (h, s') \<Longrightarrow> Inv s'"
  shows "\<forall>h s'. Inv s \<longrightarrow> emitBCType opc s t = Inr (h, s') \<longrightarrow> Inv s'"
    and "\<forall>h s'. Inv s \<longrightarrow> emitBCTypeImpl opc s t = Inr (h, s') \<longrightarrow> Inv s'"
    and "\<forall>hs s'. Inv s \<longrightarrow> emitBCTypeImpl_params opc s ps = Inr (hs, s') \<longrightarrow> Inv s'"
proof (induction opc s t and opc s t and opc s ps rule: emitBCType_emitBCTypeImpl_emitBCTypeImpl_params.induct)
  case (1 opc shared type')
  then show ?case
    by (auto simp add: Let_def split: option.splits if_splits)
next
  case (2 opc shared)
  then show ?case by (auto simp add: emitBCType_op_def dest: step)
next
  case (3 opc shared b)
  then show ?case by (auto simp add: emitBCType_op_def dest: step split: BaseType.splits)
next
  case (4 opc shared r ps)
  show ?case
  proof (intro allI impI)
    fix h s' assume i: "Inv shared" and e: "emitBCTypeImpl opc shared (Some (FuncType r ps)) = Inr (h, s')"
    from e obtain h1 s1 hs s2 where
        a: "emitBCType opc shared (Some r) = Inr (h1, s1)"
      and b: "emitBCTypeImpl_params opc s1 ps = Inr (hs, s2)"
      and c: "emitBCType_args opc s2 (Some (FuncType r ps)) kIROp_FuncType (h1 # hs) = Inr (h, s')"
      by (auto simp add: emitBCVarArgType_def elim!: and_then_InrE)
    from 4(1) i a have "Inv s1" by blast
    with 4(2) [OF a refl] b have "Inv s2" by blast
    then show "Inv s'" using c by (rule step)
  qed
next
  case (5 opc shared t)
  then show ?case
    by (auto simp add: emitBCVarArgType_def elim!: and_then_InrE dest: step)
next
  case (6 opc shared t)
  then show ?case
    by (auto simp add: emitBCVarArgType_def elim!: and_then_InrE dest: step)
next
  case (7 opc shared t)
  then show ?case
    by (auto simp add: emitBCVarArgType_def elim!: and_then_InrE dest: step)
next
  case (8 opc shared k)
  then show ?case by simp
next
  case (9 opc shared)
  then show ?case by simp
next
  case (10 opc shared p ps)
  show ?case
  proof (intro allI impI)
    fix hs s' assume i: "Inv shared" and e: "emitBCTypeImpl_params opc shared (p # ps) = Inr (hs, s')"
    from e obtain h1 s1 hs1 where
        a: "emitBCType opc shared (Some p) = Inr (h1, s1)"
      and b: "emitBCTypeImpl_params opc s1 ps = Inr (hs1, s')"
      by (auto elim!: and_then_InrE)
    from 10(1) i a have "Inv s1" by blast
    with 10(2) [OF a refl] b show "Inv s'" by blast
  qed
qed

lemma keeps_emitBCType:
  "keeps L B ref s \<Longrightarrow> emitBCType opc s t = Inr (h, s') \<Longrightarrow> keeps L B ref s'"
  using emitBCType_preserves(1) [of "keeps L B ref" s opc t] keeps_emitBCType_args by blast

lemma keeps_getTypeID:
  "keeps L B ref s \<Longrightarrow> getTypeID opc s t = Inr (i, s') \<Longrightarrow> keeps L B ref s'"
  by (auto simp add: getTypeID_def elim!: and_then_InrE split: if_splits dest: keeps_emitBCType)

lemma keeps_getTypeIDForGlobalSymbol:
  "keeps L B ref s \<Longrightarrow> getTypeIDForGlobalSymbol opc s inst = Inr (i, s') \<Longrightarrow> keeps L B ref s'"
  by (auto simp add: getTypeIDForGlobalSymbol_def split: option.splits dest: keeps_getTypeID)

section \<open>The instruction emitter keeps what lies below\<close>

lemma getGlobalValue_bytecode:
  "getGlobalValue s v = Inr (c, s') \<Longrightarrow> bytecode s' = bytecode s \<and> bcTypes s' = bcTypes s \<and> mapTypeToID s' = mapTypeToID s"
  by (cases "op v") (auto simp add: getGlobalValue_def Let_def split: option.splits)

lemma getLocalID_bytecode:
  "getLocalID s c v = Inr (i, s', c') \<Longrightarrow> bytecode s' = bytecode s \<and> bcTypes s' = bcTypes s \<and> mapTypeToID s' = mapTypeToID s"
  by (auto simp add: getLocalID_def Let_def split: option.splits sum.splits dest: getGlobalValue_bytecode)

lemma encodeOperand_bytecode:
  "encodeOperand s c v = Inr (s', c') \<Longrightarrow> bytecode s' = bytecode s \<and> bcTypes s' = bcTypes s \<and> mapTypeToID s' = mapTypeToID s"
  by (auto simp add: encodeOperand_def split: sum.splits dest: getLocalID_bytecode)

lemma keeps_encodeOperand:
  "keeps L B ref s \<Longrightarrow> encodeOperand s c v = Inr (s', c') \<Longrightarrow> keeps L B ref s'"
  using encodeOperand_bytecode [of s c v s' c'] by (simp add: keeps_def)

lemma keeps_encodeOperands:
  "keeps L B ref s \<Longrightarrow> encodeOperands s c vs = Inr (s', c') \<Longrightarrow> keeps L B ref s'"
proof (induction vs arbitrary: s c)
  case Nil
  then show ?case by simp
next
  case (Cons v vs)
  from Cons.prems(2) obtain s1 c1 where 1: "encodeOperand s c v = Inr (s1, c1)"
    and 2: "encodeOperands s1 c1 vs = Inr (s', c')"
    by (auto elim!: and_then_InrE)
  from keeps_encodeOperand [OF Cons.prems(1) 1] have "keeps L B ref s1" .
  from Cons.IH [OF this 2] show ?case .
qed

lemma keeps_encodeOperand_type:
  "keeps L B ref s \<Longrightarrow> encodeOperand_type opc s c t = Inr (s', c') \<Longrightarrow> keeps L B ref s'"
  by (auto simp add: encodeOperand_type_def elim!: and_then_InrE dest: keeps_getTypeID)

lemma keeps_generateBytecodeForInst:
  assumes "keeps L B ref s" and "generateBytecodeForInst opc s c inst = Inr (s', c')"
  shows "keeps L B ref s'"
  using assms unfolding generateBytecodeForInst_def Let_def
  by (auto elim!: and_then_InrE split: if_splits)
     (blast dest: keeps_encodeOperand_type keeps_encodeOperand keeps_encodeOperands)+

lemma keeps_emitInsts:
  "keeps L B ref s \<Longrightarrow> emitInsts opc s c insts = Inr (s', c') \<Longrightarrow> keeps L B ref s'"
proof (induction insts arbitrary: s c)
  case Nil
  then show ?case by simp
next
  case (Cons ii insts)
  show ?case
  proof (cases "op ii = kIROp_Param")
    case True
    with Cons.prems(2) have "emitInsts opc s c insts = Inr (s', c')" by simp
    from Cons.IH [OF Cons.prems(1) this] show ?thesis .
  next
    case False
    with Cons.prems(2) obtain s1 c1 where 1: "generateBytecodeForInst opc s c ii = Inr (s1, c1)"
      and 2: "emitInsts opc s1 c1 insts = Inr (s', c')"
      by (auto elim!: and_then_InrE)
    from keeps_generateBytecodeForInst [OF Cons.prems(1) 1] have "keeps L B ref s1" .
    from Cons.IH [OF this 2] show ?thesis .
  qed
qed

lemma keeps_emitBlocks:
  "keeps L B ref s \<Longrightarrow> emitBlocks opc s c blocks offs = Inr (offs', s', c') \<Longrightarrow> keeps L B ref s'"
proof (induction blocks arbitrary: s c offs)
  case Nil
  then show ?case by simp
next
  case (Cons bb blocks)
  from Cons.prems(2) obtain s1 c1 where 1: "emitInsts opc s c (getInsts bb) = Inr (s1, c1)"
    and 2: "emitBlocks opc s1 c1 blocks (offs @ [length (currentBytecode c)]) = Inr (offs', s', c')"
    by (auto simp add: Let_def elim!: and_then_InrE)
  from keeps_emitInsts [OF Cons.prems(1) 1] have "keeps L B ref s1" .
  from Cons.IH [OF this 2] show ?case .
qed

section \<open>The function encoder keeps what lies below\<close>

lemma keeps_countRegisters:
  "keeps L B ref s \<Longrightarrow> countRegisters s bcBlocks blocks bc rc = Inr (rc', s') \<Longrightarrow> B \<le> bcBlocks \<Longrightarrow>
   keeps L B ref s'"
proof (induction blocks arbitrary: s bc rc)
  case Nil
  then show ?case by simp
next
  case (Cons bb blocks)
  obtain r p where c: "countInsts (getInsts bb) (rc, 0) = (r, p)"
    by (cases "countInsts (getInsts bb) (rc, 0)")
  from Cons.prems(2) c obtain s1 where
      1: "store_u32 s (bcBlocks + bc * sizeof T_BCBlock + offsetof BCBlock_paramCount) (of_nat p) = Inr s1"
    and 2: "countRegisters s1 bcBlocks blocks (bc + 1) r = Inr (rc', s')"
    by (auto simp add: Let_def elim!: and_then_InrE)
  from keeps_store_u32 [OF Cons.prems(1) 1] Cons.prems(3) have "keeps L B ref s1" by simp
  from Cons.IH [OF this 2 Cons.prems(3)] show ?case .
qed

lemma keeps_fillReg:
  assumes "keeps L B ref s" and "fillReg opc s bcRegs localID ii = Inr s'" and "B \<le> bcRegs"
  shows "keeps L B ref s'"
proof -
  from assms(2) obtain s1 s2 s3 typeID where
      1: "store_u32 s (bcRegs + localID * sizeof T_BCReg + offsetof BCReg_op) (of_nat (opc (op ii))) = Inr s1"
    and 2: "store_u32 s1 (bcRegs + localID * sizeof T_BCReg + offsetof BCReg_previousVarIndexPlusOne)
              (of_nat localID) = Inr s2"
    and 3: "getTypeIDForGlobalSymbol opc s2 ii = Inr (typeID, s3)"
    and 4: "store_u32 s3 (bcRegs + localID * sizeof T_BCReg + offsetof BCReg_typeID) typeID = Inr s'"
    unfolding fillReg_def by (auto elim!: and_then_InrE)
  from keeps_store_u32 [OF assms(1) 1] assms(3) have k1: "keeps L B ref s1" by simp
  from keeps_store_u32 [OF k1 2] assms(3) have k2: "keeps L B ref s2" by simp
  from keeps_getTypeIDForGlobalSymbol [OF k2 3] have k3: "keeps L B ref s3" .
  from keeps_store_u32 [OF k3 4] assms(3) show ?thesis by simp
qed

lemma keeps_fillInsts:
  "keeps L B ref s \<Longrightarrow> fillInsts opc s c bcRegs insts rc = Inr (rc', s', c') \<Longrightarrow> B \<le> bcRegs \<Longrightarrow>
   keeps L B ref s'"
proof (induction insts arbitrary: s c rc)
  case Nil
  then show ?case by simp
next
  case (Cons ii insts)
  consider (var) "op ii = kIROp_Var" | (res) "op ii \<noteq> kIROp_Var" "opHasResult ii"
    | (none) "op ii \<noteq> kIROp_Var" "\<not> opHasResult ii" by blast
  then show ?case
  proof cases
    case var
    with Cons.prems(2) obtain s1 s2 s3 s4 s5 typeID c1 where
        1: "fillReg opc s bcRegs rc ii = Inr s1"
      and 2: "store_u32 s1 (bcRegs + (rc + 1) * sizeof T_BCReg + offsetof BCReg_op) (of_nat (opc (op ii))) = Inr s2"
      and 3: "store_u32 s2 (bcRegs + (rc + 1) * sizeof T_BCReg + offsetof BCReg_previousVarIndexPlusOne)
                (of_nat rc + 1) = Inr s3"
      and 4: "(case getDataType ii of Some (PtrType valueType) \<Rightarrow> getTypeID opc s3 (Some valueType)
               | _ \<Rightarrow> Inl NullDereference) = Inr (typeID, s4)"
      and 5: "store_u32 s4 (bcRegs + (rc + 1) * sizeof T_BCReg + offsetof BCReg_typeID) typeID = Inr s5"
      and 6: "fillInsts opc s5 c1 bcRegs insts (rc + 2) = Inr (rc', s', c')"
      by (auto simp add: Let_def elim!: and_then_InrE)
    from keeps_fillReg [OF Cons.prems(1) 1 Cons.prems(3)] have k1: "keeps L B ref s1" .
    from keeps_store_u32 [OF k1 2] Cons.prems(3) have k2: "keeps L B ref s2" by simp
    from keeps_store_u32 [OF k2 3] Cons.prems(3) have k3: "keeps L B ref s3" by simp
    from 4 obtain t where "getTypeID opc s3 (Some t) = Inr (typeID, s4)"
      by (auto split: option.splits Type.splits)
    from keeps_getTypeID [OF k3 this] have k4: "keeps L B ref s4" .
    from keeps_store_u32 [OF k4 5] Cons.prems(3) have k5: "keeps L B ref s5" by simp
    from Cons.IH [OF k5 6 Cons.prems(3)] show ?thesis .
  next
    case res
    with Cons.prems(2) obtain s1 c1 where
        1: "fillReg opc s bcRegs rc ii = Inr s1"
      and 6: "fillInsts opc s1 c1 bcRegs insts (rc + 1) = Inr (rc', s', c')"
      by (auto simp add: Let_def elim!: and_then_InrE)
    from keeps_fillReg [OF Cons.prems(1) 1 Cons.prems(3)] have k1: "keeps L B ref s1" .
    from Cons.IH [OF k1 6 Cons.prems(3)] show ?thesis .
  next
    case none
    with Cons.prems(2) have "fillInsts opc s c bcRegs insts rc = Inr (rc', s', c')" by simp
    from Cons.IH [OF Cons.prems(1) this Cons.prems(3)] show ?thesis .
  qed
qed

lemma keeps_fillRegisters:
  "keeps L B ref s \<Longrightarrow> fillRegisters opc s c bcBlocks bcRegs blocks bc rc = Inr (rc', s', c') \<Longrightarrow>
   B \<le> bcBlocks \<Longrightarrow> B \<le> bcRegs \<Longrightarrow> keeps L B ref s'"
proof (induction blocks arbitrary: s c bc rc)
  case Nil
  then show ?case by simp
next
  case (Cons bb blocks)
  from Cons.prems(2) obtain s1 s2 c2 r where
      1: "store_ptr s (bcBlocks + bc * sizeof T_BCBlock + offsetof BCBlock_params)
            (Some (bcRegs + rc * sizeof T_BCReg)) = Inr s1"
    and 2: "fillInsts opc s1 c bcRegs (getInsts bb) rc = Inr (r, s2, c2)"
    and 3: "fillRegisters opc s2 c2 bcBlocks bcRegs blocks (bc + 1) r = Inr (rc', s', c')"
    by (auto simp add: Let_def elim!: and_then_InrE)
  from keeps_store_ptr [OF Cons.prems(1) 1] Cons.prems(3) have k1: "keeps L B ref s1" by simp
  from keeps_fillInsts [OF k1 2 Cons.prems(4)] have k2: "keeps L B ref s2" .
  from Cons.IH [OF k2 3 Cons.prems(3,4)] show ?case .
qed

lemma keeps_storeBlockCode:
  "keeps L B ref s \<Longrightarrow> storeBlockCode s bcBlocks bytes offs blocks bc = Inr s' \<Longrightarrow> B \<le> bcBlocks \<Longrightarrow>
   keeps L B ref s'"
proof (induction blocks arbitrary: s bc)
  case Nil
  then show ?case by simp
next
  case (Cons bb blocks)
  from Cons.prems(2) obtain s1 where
      1: "store_ptr s (bcBlocks + bc * sizeof T_BCBlock + offsetof BCBlock_code)
            (Some (bytes + (offs ! bc) * sizeof T_uint8_t)) = Inr s1"
    and 2: "storeBlockCode s1 bcBlocks bytes offs blocks (bc + 1) = Inr s'"
    by (auto simp add: Let_def elim!: and_then_InrE split: if_splits)
  from keeps_store_ptr [OF Cons.prems(1) 1] Cons.prems(3) have k1: "keeps L B ref s1" by simp
  from Cons.IH [OF k1 2 Cons.prems(3)] show ?case .
qed

lemma keeps_storeConsts:
  "keeps L B ref s \<Longrightarrow> storeConsts s bcConsts cs cc = Inr s' \<Longrightarrow> B \<le> bcConsts \<Longrightarrow> keeps L B ref s'"
proof (induction cs arbitrary: s cc)
  case Nil
  then show ?case by simp
next
  case (Cons c cs)
  from Cons.prems(2) obtain s1 s2 where
      1: "store_bytes s (bcConsts + cc * sizeof T_BCConst + offsetof BCConst_flavor) [flavorByte (flavor c)] = Inr s1"
    and 2: "store_u32 s1 (bcConsts + cc * sizeof T_BCConst + offsetof BCConst_id) (id_BCConst c) = Inr s2"
    and 3: "storeConsts s2 bcConsts cs (cc + 1) = Inr s'"
    by (auto elim!: and_then_InrE)
  from keeps_store_bytes [OF Cons.prems(1) 1] Cons.prems(3) have k1: "keeps L B ref s1" by simp
  from keeps_store_u32 [OF k1 2] Cons.prems(3) have k2: "keeps L B ref s2" by simp
  from Cons.IH [OF k2 3 Cons.prems(3)] show ?case .
qed

lemma funcRegistersE:
  assumes "funcRegisters opc s inst = Inr (bcFunc, bcBlocks, s', c')"
  obtains s1 s2 typeID s3 s4 s5 s6 s7 regCount s8 bcRegs s9 s10 s11 where
    "allocate s T_BCFunc = (bcFunc, s1)"
    "store_u32 s1 (bcFunc + offsetof BCSymbol_op) (of_nat (opc (op (asInst inst)))) = Inr s2"
    "getTypeIDForGlobalSymbol opc s2 (asInst inst) = Inr (typeID, s3)"
    "store_u32 s3 (bcFunc + offsetof BCSymbol_typeID) typeID = Inr s4"
    "allocateArray s4 T_BCBlock (length (getBlocks inst)) = (bcBlocks, s5)"
    "store_u32 s5 (bcFunc + offsetof BCFunc_blockCount) (of_nat (length (getBlocks inst))) = Inr s6"
    "store_ptr s6 (bcFunc + offsetof BCFunc_blocks) (Some bcBlocks) = Inr s7"
    "countRegisters s7 bcBlocks (getBlocks inst) 0 0 = Inr (regCount, s8)"
    "allocateArray s8 T_BCReg regCount = (bcRegs, s9)"
    "store_u32 s9 (bcFunc + offsetof BCFunc_regCount) (of_nat regCount) = Inr s10"
    "store_ptr s10 (bcFunc + offsetof BCFunc_regs) (Some bcRegs) = Inr s11"
    "fillRegisters opc s11
       (enumerateBlocks \<lparr>currentBytecode = [], remappedGlobalSymbols = [], mapInstToLocalID = Map.empty\<rparr>
          (getBlocks inst) 0)
       bcBlocks bcRegs (getBlocks inst) 0 0 = Inr (regCount, s', c')"
proof -
  obtain b s1 where a1: "allocate s T_BCFunc = (b, s1)" by (cases "allocate s T_BCFunc")
  from assms a1 obtain s2 typeID s3 s4 where
      2: "store_u32 s1 (b + offsetof BCSymbol_op) (of_nat (opc (op (asInst inst)))) = Inr s2"
    and 3: "getTypeIDForGlobalSymbol opc s2 (asInst inst) = Inr (typeID, s3)"
    and 4: "store_u32 s3 (b + offsetof BCSymbol_typeID) typeID = Inr s4"
    and r4: "(let subContext0 = \<lparr>currentBytecode = [], remappedGlobalSymbols = [],
                               mapInstToLocalID = Map.empty\<rparr>;
               subContext1 = enumerateBlocks subContext0 (getBlocks inst) 0;
               blockCount = length (getBlocks inst);
               (bcBlocks, shared5) = allocateArray s4 T_BCBlock blockCount
           in and_then (store_u32 shared5 (b + offsetof BCFunc_blockCount) (of_nat blockCount))
             (\<lambda>shared6. and_then (store_ptr shared6 (b + offsetof BCFunc_blocks) (Some bcBlocks))
             (\<lambda>shared7. and_then (countRegisters shared7 bcBlocks (getBlocks inst) 0 0)
             (\<lambda>(regCounter, shared8).
                let regCount = regCounter;
                    (bcRegs, shared9) = allocateArray shared8 T_BCReg regCount
                in and_then (store_u32 shared9 (b + offsetof BCFunc_regCount) (of_nat regCount))
                  (\<lambda>shared10. and_then (store_ptr shared10 (b + offsetof BCFunc_regs) (Some bcRegs))
                  (\<lambda>shared11. and_then
                     (fillRegisters opc shared11 subContext1 bcBlocks bcRegs (getBlocks inst) 0 0)
                  (\<lambda>(regCounter', shared12, subContext2).
                     if regCounter' \<noteq> regCount then Inl AssertionFailed
                     else Inr (b, bcBlocks, shared12, subContext2)))))))) = Inr (bcFunc, bcBlocks, s', c')"
    unfolding funcRegisters_def Let_def
    by (simp only: prod.case) (erule and_then_InrE, (simp only: prod.case split: prod.splits)?)+
  obtain bb s5 where a5: "allocateArray s4 T_BCBlock (length (getBlocks inst)) = (bb, s5)"
    by (cases "allocateArray s4 T_BCBlock (length (getBlocks inst))")
  from r4 a5 obtain s6 s7 regCount s8 where
      6: "store_u32 s5 (b + offsetof BCFunc_blockCount) (of_nat (length (getBlocks inst))) = Inr s6"
    and 7: "store_ptr s6 (b + offsetof BCFunc_blocks) (Some bb) = Inr s7"
    and 8: "countRegisters s7 bb (getBlocks inst) 0 0 = Inr (regCount, s8)"
    and r8: "(let (bcRegs, shared9) = allocateArray s8 T_BCReg regCount
                in and_then (store_u32 shared9 (b + offsetof BCFunc_regCount) (of_nat regCount))
                  (\<lambda>shared10. and_then (store_ptr shared10 (b + offsetof BCFunc_regs) (Some bcRegs))
                  (\<lambda>shared11. and_then
                     (fillRegisters opc shared11 (enumerateBlocks \<lparr>currentBytecode = [], remappedGlobalSymbols = [],
                               mapInstToLocalID = Map.empty\<rparr> (getBlocks inst) 0) bb bcRegs (getBlocks inst) 0 0)
                  (\<lambda>(regCounter', shared12, subContext2).
                     if regCounter' \<noteq> regCount then Inl AssertionFailed
                     else Inr (b, bb, shared12, subContext2))))) = Inr (bcFunc, bcBlocks, s', c')"
    unfolding Let_def
    by (simp only: prod.case) (erule and_then_InrE, (simp only: prod.case split: prod.splits)?)+
  obtain br s9 where a9: "allocateArray s8 T_BCReg regCount = (br, s9)"
    by (cases "allocateArray s8 T_BCReg regCount")
  from r8 a9 obtain s10 s11 rc' s12 c12 where
      10: "store_u32 s9 (b + offsetof BCFunc_regCount) (of_nat regCount) = Inr s10"
    and 11: "store_ptr s10 (b + offsetof BCFunc_regs) (Some br) = Inr s11"
    and 12: "fillRegisters opc s11 (enumerateBlocks \<lparr>currentBytecode = [], remappedGlobalSymbols = [],
                               mapInstToLocalID = Map.empty\<rparr> (getBlocks inst) 0) bb br (getBlocks inst) 0 0
             = Inr (rc', s12, c12)"
    and r12: "(if rc' \<noteq> regCount then Inl AssertionFailed else Inr (b, bb, s12, c12))
                = Inr (bcFunc, bcBlocks, s', c')"
    by (auto elim!: and_then_InrE)
  from r12 have e: "rc' = regCount" "b = bcFunc" "bb = bcBlocks" "s12 = s'" "c12 = c'"
    by (auto split: if_splits)
  show ?thesis
    using that [OF a1 [unfolded e] 2 [unfolded e] 3 4 [unfolded e] a5 [unfolded e] 6 [unfolded e]
        7 [unfolded e] 8 [unfolded e] a9 10 [unfolded e] 11 [unfolded e] 12 [unfolded e]] .
qed

lemma load_bytes_take: "o' + n \<le> B \<Longrightarrow> load_bytes (take B a) o' n = load_bytes a o' n"
  by (simp add: load_bytes_def drop_take min_def)

lemma keeps_load_u32:
  "keeps L B ref s \<Longrightarrow> keeps L B ref s' \<Longrightarrow> o' + 4 \<le> B \<Longrightarrow>
   load_u32 (bytecode s') o' = load_u32 (bytecode s) o'"
proof -
  assume a: "keeps L B ref s" "keeps L B ref s'" "o' + 4 \<le> B"
  have "load_bytes (bytecode s') o' 4 = load_bytes (take B (bytecode s')) o' 4"
    using a(3) by (simp add: load_bytes_take)
  also have "\<dots> = load_bytes (take B (bytecode s)) o' 4"
    using a(1,2) by (simp add: keeps_def)
  also have "\<dots> = load_bytes (bytecode s) o' 4"
    using a(3) by (simp add: load_bytes_take)
  finally show ?thesis by (simp add: load_u32_def)
qed

lemma keeps_load_ptr:
  "keeps L B ref s \<Longrightarrow> keeps L B ref s' \<Longrightarrow> o' + 8 \<le> B \<Longrightarrow>
   load_ptr (bytecode s') o' = load_ptr (bytecode s) o'"
proof -
  assume a: "keeps L B ref s" "keeps L B ref s'" "o' + 8 \<le> B"
  have "load_bytes (bytecode s') o' 8 = load_bytes (take B (bytecode s')) o' 8"
    using a(3) by (simp add: load_bytes_take)
  also have "\<dots> = load_bytes (take B (bytecode s)) o' 8"
    using a(1,2) by (simp add: keeps_def)
  also have "\<dots> = load_bytes (bytecode s) o' 8"
    using a(3) by (simp add: load_bytes_take)
  finally show ?thesis by (simp add: load_ptr_def)
qed

lemma load_bytes_store_bytes:
  assumes "store_bytes s off bs = Inr s'"
  shows "load_bytes (bytecode s') off (length bs) = bs"
  using store_bytes_Inr(1,2) [OF assms] by (simp add: load_bytes_def min_def)

lemma load_u32_store_u32:
  "store_u32 s off v = Inr s' \<Longrightarrow> load_u32 (bytecode s') off = v"
  unfolding store_u32_def load_u32_def
  using load_bytes_store_bytes [of s off "encodeLE 4 v" s'] by simp

lemma load_ptr_store_ptr:
  "store_ptr s off p = Inr s' \<Longrightarrow>
   load_ptr (bytecode s') off = (case p of None \<Rightarrow> 0 | Some target \<Rightarrow> of_nat target)"
  unfolding store_ptr_def load_ptr_def
  using load_bytes_store_bytes
    [of s off "encodeLE 8 (case p of None \<Rightarrow> 0 | Some target \<Rightarrow> (of_nat target :: 64 word))" s']
  by simp

section \<open>Counting registers\<close>

lemma opHasResult_iff:
  "opHasResult ii \<longleftrightarrow>
     getDataType ii \<noteq> None \<and> getDataType ii \<noteq> Some (BasicExpressionType BaseType_Void)"
  by (auto simp add: opHasResult_def split: option.splits Type.splits BaseType.splits)

lemma countInsts_eq:
  "countInsts insts (rc, pc) =
     (rc + resultRegisters insts, pc + length (filter (\<lambda>ii. op ii = kIROp_Param) insts))"
proof (induction insts arbitrary: rc pc)
  case Nil
  show ?case by (simp add: resultRegisters_def)
next
  case (Cons ii insts)
  show ?case
    using Cons.IH by (simp add: resultRegisters_def opHasResult_iff)
qed

lemma countRegisters_eq:
  "countRegisters s bcBlocks blocks bc rc = Inr (rc', s') \<Longrightarrow> rc' = rc + functionRegisters blocks"
proof (induction blocks arbitrary: s bc rc)
  case Nil
  then show ?case by (simp add: functionRegisters_def)
next
  case (Cons bb blocks)
  from Cons.prems obtain s1 where
    2: "countRegisters s1 bcBlocks blocks (bc + 1) (rc + resultRegisters (getInsts bb)) = Inr (rc', s')"
    by (auto simp add: Let_def countInsts_eq elim!: and_then_InrE)
  from Cons.IH [OF 2] show ?case by (simp add: functionRegisters_def)
qed

lemma keeps_funcRegisters:
  assumes k: "keeps L B ref s" and f: "funcRegisters opc s inst = Inr (bcFunc, bcBlocks, s', c')"
  shows "keeps L B ref s' \<and> L \<le> bcFunc \<and> L \<le> bcBlocks"
proof -
  from f obtain s1 s2 typeID s3 s4 s5 s6 s7 regCount s8 bcRegs s9 s10 s11 where
      1: "allocate s T_BCFunc = (bcFunc, s1)"
    and 2: "store_u32 s1 (bcFunc + offsetof BCSymbol_op) (of_nat (opc (op (asInst inst)))) = Inr s2"
    and 3: "getTypeIDForGlobalSymbol opc s2 (asInst inst) = Inr (typeID, s3)"
    and 4: "store_u32 s3 (bcFunc + offsetof BCSymbol_typeID) typeID = Inr s4"
    and 5: "allocateArray s4 T_BCBlock (length (getBlocks inst)) = (bcBlocks, s5)"
    and 6: "store_u32 s5 (bcFunc + offsetof BCFunc_blockCount) (of_nat (length (getBlocks inst))) = Inr s6"
    and 7: "store_ptr s6 (bcFunc + offsetof BCFunc_blocks) (Some bcBlocks) = Inr s7"
    and 8: "countRegisters s7 bcBlocks (getBlocks inst) 0 0 = Inr (regCount, s8)"
    and 9: "allocateArray s8 T_BCReg regCount = (bcRegs, s9)"
    and 10: "store_u32 s9 (bcFunc + offsetof BCFunc_regCount) (of_nat regCount) = Inr s10"
    and 11: "store_ptr s10 (bcFunc + offsetof BCFunc_regs) (Some bcRegs) = Inr s11"
    and 12: "fillRegisters opc s11
       (enumerateBlocks \<lparr>currentBytecode = [], remappedGlobalSymbols = [], mapInstToLocalID = Map.empty\<rparr>
          (getBlocks inst) 0)
       bcBlocks bcRegs (getBlocks inst) 0 0 = Inr (regCount, s', c')"
    by (rule funcRegistersE)
  from keeps_allocate [OF k 1] have k1: "keeps L B ref s1" and b: "L \<le> bcFunc" "B \<le> bcFunc" by simp_all
  from keeps_store_u32 [OF k1 2] b have k2: "keeps L B ref s2" by simp
  from keeps_getTypeIDForGlobalSymbol [OF k2 3] have k3: "keeps L B ref s3" .
  from keeps_store_u32 [OF k3 4] b have k4: "keeps L B ref s4" by simp
  from keeps_allocateArray [OF k4 5] have k5: "keeps L B ref s5" and bb: "L \<le> bcBlocks" "B \<le> bcBlocks"
    by simp_all
  from keeps_store_u32 [OF k5 6] b have k6: "keeps L B ref s6" by simp
  from keeps_store_ptr [OF k6 7] b have k7: "keeps L B ref s7" by simp
  from keeps_countRegisters [OF k7 8 bb(2)] have k8: "keeps L B ref s8" .
  from keeps_allocateArray [OF k8 9] have k9: "keeps L B ref s9" and br: "B \<le> bcRegs" by simp_all
  from keeps_store_u32 [OF k9 10] b have k10: "keeps L B ref s10" by simp
  from keeps_store_ptr [OF k10 11] b have k11: "keeps L B ref s11" by simp
  from keeps_fillRegisters [OF k11 12 bb(2) br] have "keeps L B ref s'" .
  with b bb show ?thesis by simp
qed

text \<open>After the register stage the function record holds the count of the counting pass.\<close>

lemma funcRegisters_regCount:
  assumes f: "funcRegisters opc s inst = Inr (bcFunc, bcBlocks, s', c')"
  shows "length (bytecode s) \<le> bcFunc"
    and "keeps (bcFunc + sizeof T_BCFunc) (bcFunc + 20) (take (bcFunc + 20) (bytecode s')) s'"
    and "bcFunc + sizeof T_BCFunc \<le> bcBlocks"
    and "load_u32 (bytecode s') (bcFunc + offsetof BCFunc_regCount) = of_nat (functionRegisters (getBlocks inst))"
proof -
  from f obtain s1 s2 typeID s3 s4 s5 s6 s7 regCount s8 bcRegs s9 s10 s11 where
      1: "allocate s T_BCFunc = (bcFunc, s1)"
    and 2: "store_u32 s1 (bcFunc + offsetof BCSymbol_op) (of_nat (opc (op (asInst inst)))) = Inr s2"
    and 3: "getTypeIDForGlobalSymbol opc s2 (asInst inst) = Inr (typeID, s3)"
    and 4: "store_u32 s3 (bcFunc + offsetof BCSymbol_typeID) typeID = Inr s4"
    and 5: "allocateArray s4 T_BCBlock (length (getBlocks inst)) = (bcBlocks, s5)"
    and 6: "store_u32 s5 (bcFunc + offsetof BCFunc_blockCount) (of_nat (length (getBlocks inst))) = Inr s6"
    and 7: "store_ptr s6 (bcFunc + offsetof BCFunc_blocks) (Some bcBlocks) = Inr s7"
    and 8: "countRegisters s7 bcBlocks (getBlocks inst) 0 0 = Inr (regCount, s8)"
    and 9: "allocateArray s8 T_BCReg regCount = (bcRegs, s9)"
    and 10: "store_u32 s9 (bcFunc + offsetof BCFunc_regCount) (of_nat regCount) = Inr s10"
    and 11: "store_ptr s10 (bcFunc + offsetof BCFunc_regs) (Some bcRegs) = Inr s11"
    and 12: "fillRegisters opc s11
       (enumerateBlocks \<lparr>currentBytecode = [], remappedGlobalSymbols = [], mapInstToLocalID = Map.empty\<rparr>
          (getBlocks inst) 0)
       bcBlocks bcRegs (getBlocks inst) 0 0 = Inr (regCount, s', c')"
    by (rule funcRegistersE)
  let ?L = "bcFunc + sizeof T_BCFunc"
  let ?B = "bcFunc + 20"
  from allocate_props(1) [OF 1] show "length (bytecode s) \<le> bcFunc" .
  from allocate_props(3) [OF 1] have l1: "length (bytecode s1) = ?L" .
  txt \<open>Lengths only grow: the prefix of length 0 is kept trivially.\<close>
  from l1 have k1: "keeps ?L 0 [] s1" by (simp add: keeps_def)
  from keeps_store_u32 [OF k1 2] have k2: "keeps ?L 0 [] s2" by simp
  from keeps_getTypeIDForGlobalSymbol [OF k2 3] have k3: "keeps ?L 0 [] s3" .
  from keeps_store_u32 [OF k3 4] have k4: "keeps ?L 0 [] s4" by simp
  from keeps_allocateArray [OF k4 5] have k5: "keeps ?L 0 [] s5" and bb: "?L \<le> bcBlocks" by simp_all
  from keeps_store_u32 [OF k5 6] have k6: "keeps ?L 0 [] s6" by simp
  from keeps_store_ptr [OF k6 7] have k7: "keeps ?L 0 [] s7" by simp
  from keeps_countRegisters [OF k7 8] have k8: "keeps ?L 0 [] s8" by simp
  from keeps_allocateArray [OF k8 9] have k9: "keeps ?L 0 [] s9" and br: "?L \<le> bcRegs" by simp_all
  from keeps_store_u32 [OF k9 10] have k10: "keeps ?L 0 [] s10" by simp
  from bb show "?L \<le> bcBlocks" .
  txt \<open>From the store of the count on, nothing below the end of that field is written.\<close>
  from k10 have "?L \<le> length (bytecode s10)" by (simp add: keeps_def)
  then have r10: "keeps ?L ?B (take ?B (bytecode s10)) s10" by (intro keeps_refl) simp_all
  from keeps_store_ptr [OF r10 11] have r11: "keeps ?L ?B (take ?B (bytecode s10)) s11" by simp
  from bb br have "?B \<le> bcBlocks" "?B \<le> bcRegs" by simp_all
  from keeps_fillRegisters [OF r11 12 this] have r12: "keeps ?L ?B (take ?B (bytecode s10)) s'" .
  then have "take ?B (bytecode s') = take ?B (bytecode s10)" by (simp add: keeps_def)
  with r12 show "keeps ?L ?B (take ?B (bytecode s')) s'" by simp
  have "load_u32 (bytecode s') (bcFunc + offsetof BCFunc_regCount)
      = load_u32 (bytecode s10) (bcFunc + offsetof BCFunc_regCount)"
    by (rule keeps_load_u32 [OF r10 r12]) simp
  also have "\<dots> = of_nat regCount" by (rule load_u32_store_u32 [OF 10])
  also have "regCount = functionRegisters (getBlocks inst)"
    using countRegisters_eq [OF 8] by simp
  finally show "load_u32 (bytecode s') (bcFunc + offsetof BCFunc_regCount)
      = of_nat (functionRegisters (getBlocks inst))" .
qed

lemma funcCodeE:
  assumes "funcCode s bcFunc bcBlocks blocks offs c = Inr s'"
  obtains bytes s1 s2 s3 bcConsts s4 s5 s6 where
    "allocateArray s T_uint8_t (length (currentBytecode c)) = (bytes, s1)"
    "store_bytes s1 bytes (currentBytecode c) = Inr s2"
    "storeBlockCode s2 bcBlocks bytes offs blocks 0 = Inr s3"
    "allocateArray s3 T_BCConst (length (remappedGlobalSymbols c)) = (bcConsts, s4)"
    "store_u32 s4 (bcFunc + offsetof BCFunc_constCount) (of_nat (length (remappedGlobalSymbols c))) = Inr s5"
    "store_ptr s5 (bcFunc + offsetof BCFunc_consts) (Some bcConsts) = Inr s6"
    "storeConsts s6 bcConsts (remappedGlobalSymbols c) 0 = Inr s'"
proof -
  obtain bytes s1 where 1: "allocateArray s T_uint8_t (length (currentBytecode c)) = (bytes, s1)"
    by (cases "allocateArray s T_uint8_t (length (currentBytecode c))")
  from assms 1 obtain s2 s3 where 2: "store_bytes s1 bytes (currentBytecode c) = Inr s2"
    and 3: "storeBlockCode s2 bcBlocks bytes offs blocks 0 = Inr s3"
    and r3: "(let constCount = length (remappedGlobalSymbols c);
               (bcConsts, shared4) = allocateArray s3 T_BCConst constCount
           in and_then (store_u32 shared4 (bcFunc + offsetof BCFunc_constCount) (of_nat constCount))
             (\<lambda>shared5. and_then (store_ptr shared5 (bcFunc + offsetof BCFunc_consts) (Some bcConsts))
             (\<lambda>shared6. storeConsts shared6 bcConsts (remappedGlobalSymbols c) 0))) = Inr s'"
    unfolding funcCode_def Let_def
    by (simp only: prod.case) (erule and_then_InrE, (simp only: prod.case split: prod.splits)?)+
  obtain bcConsts s4 where 4: "allocateArray s3 T_BCConst (length (remappedGlobalSymbols c)) = (bcConsts, s4)"
    by (cases "allocateArray s3 T_BCConst (length (remappedGlobalSymbols c))")
  from r3 4 obtain s5 s6 where
      5: "store_u32 s4 (bcFunc + offsetof BCFunc_constCount) (of_nat (length (remappedGlobalSymbols c))) = Inr s5"
    and 6: "store_ptr s5 (bcFunc + offsetof BCFunc_consts) (Some bcConsts) = Inr s6"
    and 7: "storeConsts s6 bcConsts (remappedGlobalSymbols c) 0 = Inr s'"
    by (auto simp add: Let_def elim!: and_then_InrE)
  from that [OF 1 2 3 4 5 6 7] show ?thesis .
qed

lemma keeps_funcCode:
  assumes k: "keeps L B ref s" and f: "funcCode s bcFunc bcBlocks blocks offs c = Inr s'"
    and b: "B \<le> bcFunc + offsetof BCFunc_constCount" "B \<le> bcBlocks"
  shows "keeps L B ref s'"
proof -
  from f obtain bytes s1 s2 s3 bcConsts s4 s5 s6 where
      1: "allocateArray s T_uint8_t (length (currentBytecode c)) = (bytes, s1)"
    and 2: "store_bytes s1 bytes (currentBytecode c) = Inr s2"
    and 3: "storeBlockCode s2 bcBlocks bytes offs blocks 0 = Inr s3"
    and 4: "allocateArray s3 T_BCConst (length (remappedGlobalSymbols c)) = (bcConsts, s4)"
    and 5: "store_u32 s4 (bcFunc + offsetof BCFunc_constCount) (of_nat (length (remappedGlobalSymbols c))) = Inr s5"
    and 6: "store_ptr s5 (bcFunc + offsetof BCFunc_consts) (Some bcConsts) = Inr s6"
    and 7: "storeConsts s6 bcConsts (remappedGlobalSymbols c) 0 = Inr s'"
    by (rule funcCodeE)
  from keeps_allocateArray [OF k 1] have k1: "keeps L B ref s1" and bby: "B \<le> bytes" by simp_all
  from keeps_store_bytes [OF k1 2 bby] have k2: "keeps L B ref s2" .
  from keeps_storeBlockCode [OF k2 3 b(2)] have k3: "keeps L B ref s3" .
  from keeps_allocateArray [OF k3 4] have k4: "keeps L B ref s4" and bc: "B \<le> bcConsts" by simp_all
  from keeps_store_u32 [OF k4 5 b(1)] have k5: "keeps L B ref s5" .
  from keeps_store_ptr [OF k5 6] b(1) have k6: "keeps L B ref s6" by simp
  from keeps_storeConsts [OF k6 7 bc] show ?thesis .
qed

lemma generateBytecodeSymbolForInst_FuncE:
  assumes "generateBytecodeSymbolForInst opc s inst = Inr (h, s')" and "op (asInst inst) = kIROp_Func"
  obtains bcFunc bcBlocks s1 c1 offs s2 c2 where
    "h = Some bcFunc"
    "funcRegisters opc s inst = Inr (bcFunc, bcBlocks, s1, c1)"
    "emitBlocks opc s1 c1 (getBlocks inst) [] = Inr (offs, s2, c2)"
    "funcCode s2 bcFunc bcBlocks (getBlocks inst) offs c2 = Inr s'"
  using assms unfolding generateBytecodeSymbolForInst_def
  by (auto elim!: and_then_InrE)

lemma keeps_generateBytecodeSymbolForInst:
  assumes k: "keeps L B ref s" and g: "generateBytecodeSymbolForInst opc s inst = Inr (h, s')"
  shows "keeps L B ref s' \<and> (\<forall>b. h = Some b \<longrightarrow> L \<le> b)"
proof (cases "op (asInst inst) = kIROp_Func")
  case True
  from g True obtain bcFunc bcBlocks s1 c1 offs s2 c2 where
      h: "h = Some bcFunc"
    and 1: "funcRegisters opc s inst = Inr (bcFunc, bcBlocks, s1, c1)"
    and 2: "emitBlocks opc s1 c1 (getBlocks inst) [] = Inr (offs, s2, c2)"
    and 3: "funcCode s2 bcFunc bcBlocks (getBlocks inst) offs c2 = Inr s'"
    by (rule generateBytecodeSymbolForInst_FuncE)
  from keeps_funcRegisters [OF k 1] have k1: "keeps L B ref s1" and b: "L \<le> bcFunc" "L \<le> bcBlocks"
    by simp_all
  from k have bl: "B \<le> L" by (simp add: keeps_def)
  from keeps_emitBlocks [OF k1 2] have k2: "keeps L B ref s2" .
  from keeps_funcCode [OF k2 3] b bl have "keeps L B ref s'" by simp
  with h b show ?thesis by simp
next
  case False
  show ?thesis
  proof (cases "op (asInst inst) = kIROp_global_var \<or> op (asInst inst) = kIROp_global_constant")
    case True
    obtain bcVar s1 where 1: "allocate s T_BCSymbol = (bcVar, s1)" by (cases "allocate s T_BCSymbol")
    from g False True 1 obtain s2 typeID s3 where
        2: "store_u32 s1 (bcVar + offsetof BCSymbol_op) (of_nat (opc (op (asInst inst)))) = Inr s2"
      and 3: "getTypeID opc s2 (getDataType (asInst inst)) = Inr (typeID, s3)"
      and 4: "store_u32 s3 (bcVar + offsetof BCSymbol_typeID) typeID = Inr s'"
      and h: "h = Some bcVar"
      unfolding generateBytecodeSymbolForInst_def by (auto elim!: and_then_InrE)
    from keeps_allocate [OF k 1] have k1: "keeps L B ref s1" and b: "L \<le> bcVar" "B \<le> bcVar" by simp_all
    from keeps_store_u32 [OF k1 2] b have k2: "keeps L B ref s2" by simp
    from keeps_getTypeID [OF k2 3] have k3: "keeps L B ref s3" .
    from keeps_store_u32 [OF k3 4] b have "keeps L B ref s'" by simp
    with h b show ?thesis by simp
  next
    case f2: False
    with g False k show ?thesis unfolding generateBytecodeSymbolForInst_def by auto
  qed
qed

text \<open>
  C7. When the symbol of a function has been generated, the \<open>regCount\<close> field of its
  \<open>BCFunc\<close> record in the arena is the sum over its blocks of the number of \<open>Param\<close>
  instructions, twice the number of \<open>Var\<close> instructions, and the number of other
  instructions whose result type is present and not void (the count fits the 32-bit
  field).
\<close>

theorem regCount_accounting:
  assumes "op (asInst f) = kIROp_Func"
    and "generateBytecodeSymbolForInst opc s f = Inr (h, s')"
    and "functionRegisters (getBlocks f) < 2 ^ 32"
  shows "\<exists>bcFunc. h = Some bcFunc \<and> length (bytecode s) \<le> bcFunc \<and>
           bcFunc + sizeof T_BCFunc \<le> length (bytecode s') \<and>
           unat (load_u32 (bytecode s') (bcFunc + offsetof BCFunc_regCount))
             = functionRegisters (getBlocks f)"
proof -
  from assms(2,1) obtain bcFunc bcBlocks s1 c1 offs s2 c2 where
      h: "h = Some bcFunc"
    and 1: "funcRegisters opc s f = Inr (bcFunc, bcBlocks, s1, c1)"
    and 2: "emitBlocks opc s1 c1 (getBlocks f) [] = Inr (offs, s2, c2)"
    and 3: "funcCode s2 bcFunc bcBlocks (getBlocks f) offs c2 = Inr s'"
    by (rule generateBytecodeSymbolForInst_FuncE)
  note r = funcRegisters_regCount [OF 1]
  let ?ref = "take (bcFunc + 20) (bytecode s1)"
  from keeps_emitBlocks [OF r(2) 2] have k2: "keeps (bcFunc + sizeof T_BCFunc) (bcFunc + 20) ?ref s2" .
  from r(3) have "bcFunc + 20 \<le> bcFunc + offsetof BCFunc_constCount" "bcFunc + 20 \<le> bcBlocks"
    by simp_all
  from keeps_funcCode [OF k2 3 this] have k3: "keeps (bcFunc + sizeof T_BCFunc) (bcFunc + 20) ?ref s'" .
  have "load_u32 (bytecode s') (bcFunc + offsetof BCFunc_regCount)
      = load_u32 (bytecode s1) (bcFunc + offsetof BCFunc_regCount)"
    by (rule keeps_load_u32 [OF r(2) k3]) simp
  also note r(4)
  finally have "unat (load_u32 (bytecode s') (bcFunc + offsetof BCFunc_regCount))
      = unat (of_nat (functionRegisters (getBlocks f)) :: 32 word)" by simp
  also have "\<dots> = functionRegisters (getBlocks f)"
    using assms(3) by (simp add: unat_of_nat)
  finally have u: "unat (load_u32 (bytecode s') (bcFunc + offsetof BCFunc_regCount))
      = functionRegisters (getBlocks f)" .
  from k3 have "bcFunc + sizeof T_BCFunc \<le> length (bytecode s')" by (simp add: keeps_def)
  with h r(1) u show ?thesis by simp
qed

theorem regCount_accounting_witness:
  "(case generateBytecodeSymbolForInst scenarioOpcodes freshShared scenarioVarStore of
      Inr (Some bcFunc, s') \<Rightarrow>
        unat (load_u32 (bytecode s') (bcFunc + offsetof BCFunc_regCount)) = 4
    | _ \<Rightarrow> False) \<and>
   functionRegisters (getBlocks scenarioVarStore) = 4"
proof -
  have f: "op (asInst scenarioVarStore) = kIROp_Func" by (simp add: scenarioVarStore_def)
  have n: "functionRegisters (getBlocks scenarioVarStore) = 4"
    by (simp add: scenarioVarStore_def functionRegisters_def resultRegisters_def int32_def)
  have "case generateBytecodeSymbolForInst scenarioOpcodes freshShared scenarioVarStore of
          Inr r \<Rightarrow> True | Inl e \<Rightarrow> False"
    by code_simp
  then obtain h s' where g: "generateBytecodeSymbolForInst scenarioOpcodes freshShared scenarioVarStore = Inr (h, s')"
    by (cases "generateBytecodeSymbolForInst scenarioOpcodes freshShared scenarioVarStore") auto
  from regCount_accounting [OF f g] n obtain bcFunc where "h = Some bcFunc"
    and "unat (load_u32 (bytecode s') (bcFunc + offsetof BCFunc_regCount)) = 4"
    by auto
  with g n show ?thesis by simp
qed

section \<open>Modules keep what lies below\<close>

lemma keeps_allocateString:
  assumes k: "keeps L B ref s" and a: "allocateString s data = Inr (h, s')"
  shows "keeps L B ref s' \<and> (\<forall>b. h = Some b \<longrightarrow> L \<le> b)"
proof -
  obtain p s1 where 1: "allocateArray s T_uint8_t (length data + 1) = (p, s1)"
    by (cases "allocateArray s T_uint8_t (length data + 1)")
  from a 1 have 2: "store_bytes s1 p data = Inr s'" and h: "h = Some p"
    unfolding allocateString_def by (auto elim!: and_then_InrE)
  from keeps_allocateArray [OF k 1] have k1: "keeps L B ref s1" and b: "L \<le> p" "B \<le> p" by simp_all
  from keeps_store_bytes [OF k1 2 b(2)] h b(1) show ?thesis by simp
qed

lemma keeps_tryGenerateNameForSymbol:
  assumes k: "keeps L B ref s" and a: "tryGenerateNameForSymbol s gv = Inr (h, s')"
  shows "keeps L B ref s' \<and> (\<forall>b. h = Some b \<longrightarrow> L \<le> b)"
  using a k keeps_allocateString [OF k] unfolding tryGenerateNameForSymbol_def
  by (auto split: option.splits)

lemma assignGlobalIDs_fields:
  "assignGlobalIDs s c gis n = (n', s', c') \<Longrightarrow>
   bytecode s' = bytecode s \<and> bcTypes s' = bcTypes s \<and> mapTypeToID s' = mapTypeToID s \<and>
   constants s' = constants s"
proof (induction s c gis n rule: assignGlobalIDs.induct)
  case (1 shared ctx symbolCount)
  then show ?case by simp
next
  case (2 shared ctx ii rest symbolCount)
  then show ?case by simp
next
  case (3 shared ctx gv rest symbolCount)
  then show ?case by (simp add: Let_def)
qed

lemma keeps_generateSymbols:
  "keeps L B ref s \<Longrightarrow> generateSymbols opc s c bcSymbols gis = Inr s' \<Longrightarrow> B \<le> bcSymbols \<Longrightarrow>
   keeps L B ref s'"
proof (induction opc s c bcSymbols gis rule: generateSymbols.induct)
  case (1 opc shared ctx bcSymbols)
  then show ?case by simp
next
  case (2 opc shared ctx bcSymbols ii rest)
  then show ?case by simp
next
  case (3 opc shared ctx bcSymbols gv rest)
  from "3.prems"(2) obtain localID where l: "mapInstToLocalID ctx (addr (asInst gv)) = Some localID"
    by (auto split: option.splits)
  from "3.prems"(2) l obtain bcSymbol s1 where
      g: "generateBytecodeSymbolForInst opc shared gv = Inr (bcSymbol, s1)"
    and r: "(case bcSymbol of
               None \<Rightarrow> generateSymbols opc s1 ctx bcSymbols rest
             | Some symbolOffset \<Rightarrow>
                 and_then (tryGenerateNameForSymbol s1 gv)
                   (\<lambda>(name, shared2). and_then
                      (store_ptr shared2 (symbolOffset + offsetof BCSymbol_name) name)
                   (\<lambda>shared3. and_then
                      (store_ptr shared3 (bcSymbols + unat localID * sizeof T_BCPtr) bcSymbol)
                   (\<lambda>shared4. generateSymbols opc shared4 ctx bcSymbols rest)))) = Inr s'"
    by (auto simp add: Let_def elim!: and_then_InrE)
  from keeps_generateBytecodeSymbolForInst [OF "3.prems"(1) g]
  have k1: "keeps L B ref s1" and hb: "\<forall>b. bcSymbol = Some b \<longrightarrow> L \<le> b" by simp_all
  from k1 have bl: "B \<le> L" by (simp add: keeps_def)
  show ?case
  proof (cases bcSymbol)
    case None
    with r have "generateSymbols opc s1 ctx bcSymbols rest = Inr s'" by simp
    from "3.IH"(1) [OF l refl g refl None k1 this "3.prems"(3)] show ?thesis .
  next
    case (Some symbolOffset)
    with r obtain name s2 s3 s4 where
        n: "tryGenerateNameForSymbol s1 gv = Inr (name, s2)"
      and 3: "store_ptr s2 (symbolOffset + offsetof BCSymbol_name) name = Inr s3"
      and 4: "store_ptr s3 (bcSymbols + unat localID * sizeof T_BCPtr) bcSymbol = Inr s4"
      and 5: "generateSymbols opc s4 ctx bcSymbols rest = Inr s'"
      by (auto elim!: and_then_InrE)
    from keeps_tryGenerateNameForSymbol [OF k1 n] have k2: "keeps L B ref s2" by simp
    from hb Some bl have "B \<le> symbolOffset + offsetof BCSymbol_name" by simp
    from keeps_store_ptr [OF k2 3 this] have k3: "keeps L B ref s3" .
    from keeps_store_ptr [OF k3 4] "3.prems"(3) have k4: "keeps L B ref s4" by simp
    show ?thesis
      using "3.IH"(2) l g Some n 3 4 k4 5 "3.prems"(3) by blast
  qed
qed

lemma keeps_storeConstants:
  "keeps L B ref s \<Longrightarrow> storeConstants opc s bcConstants cs cc = Inr s' \<Longrightarrow> B \<le> bcConstants \<Longrightarrow>
   keeps L B ref s'"
proof (induction cs arbitrary: s cc)
  case Nil
  then show ?case by simp
next
  case (Cons irConstant cs)
  from Cons.prems(2) obtain s1 typeID s2 s3 where
      1: "store_u32 s (bcConstants + cc * sizeof T_BCConstant + offsetof BCConstant_op)
            (of_nat (opc (op irConstant))) = Inr s1"
    and 2: "getTypeID opc s1 (getDataType irConstant) = Inr (typeID, s2)"
    and 3: "store_u32 s2 (bcConstants + cc * sizeof T_BCConstant + offsetof BCConstant_typeID) typeID = Inr s3"
    and r: "(if op irConstant = kIROp_IntLit then
            (let (ptr, shared4) = allocate s3 T_IRIntegerValue
             in and_then (store_bytes shared4 ptr (encodeLE 8 (u_intVal irConstant)))
               (\<lambda>shared5. and_then
                  (store_ptr shared5 (bcConstants + cc * sizeof T_BCConstant + offsetof BCConstant_ptr)
                     (Some ptr))
               (\<lambda>shared6. storeConstants opc shared6 bcConstants cs (cc + 1))))
          else storeConstants opc s3 bcConstants cs (cc + 1)) = Inr s'"
    by (auto elim!: and_then_InrE)
  from keeps_store_u32 [OF Cons.prems(1) 1] Cons.prems(3) have k1: "keeps L B ref s1" by simp
  from keeps_getTypeID [OF k1 2] have k2: "keeps L B ref s2" .
  from keeps_store_u32 [OF k2 3] Cons.prems(3) have k3: "keeps L B ref s3" by simp
  show ?case
  proof (cases "op irConstant = kIROp_IntLit")
    case True
    obtain p s4 where 4: "allocate s3 T_IRIntegerValue = (p, s4)" by (cases "allocate s3 T_IRIntegerValue")
    from r True 4 obtain s5 s6 where
        5: "store_bytes s4 p (encodeLE 8 (u_intVal irConstant)) = Inr s5"
      and 6: "store_ptr s5 (bcConstants + cc * sizeof T_BCConstant + offsetof BCConstant_ptr) (Some p) = Inr s6"
      and 7: "storeConstants opc s6 bcConstants cs (cc + 1) = Inr s'"
      by (auto elim!: and_then_InrE)
    from keeps_allocate [OF k3 4] have k4: "keeps L B ref s4" and b: "B \<le> p" by simp_all
    from keeps_store_bytes [OF k4 5 b] have k5: "keeps L B ref s5" .
    from keeps_store_ptr [OF k5 6] Cons.prems(3) have k6: "keeps L B ref s6" by simp
    from Cons.IH [OF k6 7 Cons.prems(3)] show ?thesis .
  next
    case False
    with r have "storeConstants opc s3 bcConstants cs (cc + 1) = Inr s'" by simp
    from Cons.IH [OF k3 this Cons.prems(3)] show ?thesis .
  qed
qed

lemma keeps_storeTypes:
  "keeps L B ref s \<Longrightarrow> storeTypes s arr ts tt = Inr s' \<Longrightarrow> B \<le> arr \<Longrightarrow> keeps L B ref s'"
proof (induction ts arbitrary: s tt)
  case Nil
  then show ?case by simp
next
  case (Cons t ts)
  from Cons.prems(2) obtain s1 where 1: "store_ptr s (arr + tt * sizeof T_BCPtr) (Some t) = Inr s1"
    and 2: "storeTypes s1 arr ts (tt + 1) = Inr s'"
    by (auto elim!: and_then_InrE)
  from keeps_store_ptr [OF Cons.prems(1) 1] Cons.prems(3) have "keeps L B ref s1" by simp
  from Cons.IH [OF this 2 Cons.prems(3)] show ?case .
qed

lemma generateBytecodeForModuleE:
  assumes "generateBytecodeForModule opc s c (Some m) = Inr (h, s', c')"
  obtains bcModule s1 symbolCount s2 bcSymbols s3 s4 s5 s6 bcConstants s7 s8 s9 s10 arr s11 s12 s13 where
    "h = Some bcModule"
    "allocate s T_BCModule = (bcModule, s1)"
    "assignGlobalIDs s1 c (getGlobalInsts m) 0 = (symbolCount, s2, c')"
    "allocateArray s2 T_BCPtr symbolCount = (bcSymbols, s3)"
    "store_u32 s3 (bcModule + offsetof BCModule_symbolCount) (of_nat symbolCount) = Inr s4"
    "store_ptr s4 (bcModule + offsetof BCModule_symbols) (Some bcSymbols) = Inr s5"
    "generateSymbols opc s5 c' bcSymbols (getGlobalInsts m) = Inr s6"
    "allocateArray s6 T_BCConstant (length (constants s6)) = (bcConstants, s7)"
    "store_u32 s7 (bcModule + offsetof BCModule_constantCount) (of_nat (length (constants s6))) = Inr s8"
    "store_ptr s8 (bcModule + offsetof BCModule_constants) (Some bcConstants) = Inr s9"
    "storeConstants opc s9 bcConstants (constants s9) 0 = Inr s10"
    "allocateArray s10 T_BCPtr (length (bcTypes s10)) = (arr, s11)"
    "store_u32 s11 (bcModule + offsetof BCModule_typeCount) (of_nat (length (bcTypes s10))) = Inr s12"
    "store_ptr s12 (bcModule + offsetof BCModule_types) (Some arr) = Inr s13"
    "storeTypes s13 arr (bcTypes s13) 0 = Inr s'"
proof -
  obtain bm s1 where 1: "allocate s T_BCModule = (bm, s1)" by (cases "allocate s T_BCModule")
  obtain n s2 c2 where 2: "assignGlobalIDs s1 c (getGlobalInsts m) 0 = (n, s2, c2)"
    by (cases "assignGlobalIDs s1 c (getGlobalInsts m) 0")
  obtain bs s3 where 3: "allocateArray s2 T_BCPtr n = (bs, s3)" by (cases "allocateArray s2 T_BCPtr n")
  from assms 1 2 3 obtain s4 s5 s6 where
      4: "store_u32 s3 (bm + offsetof BCModule_symbolCount) (of_nat n) = Inr s4"
    and 5: "store_ptr s4 (bm + offsetof BCModule_symbols) (Some bs) = Inr s5"
    and 6: "generateSymbols opc s5 c2 bs (getGlobalInsts m) = Inr s6"
    and r6: "(let constantCount = length (constants s6);
                    (bcConstants, shared7) = allocateArray s6 T_BCConstant constantCount
                in and_then
                     (store_u32 shared7 (bm + offsetof BCModule_constantCount) (of_nat constantCount))
                  (\<lambda>shared8. and_then
                     (store_ptr shared8 (bm + offsetof BCModule_constants) (Some bcConstants))
                  (\<lambda>shared9. and_then (storeConstants opc shared9 bcConstants (constants shared9) 0)
                  (\<lambda>shared10.
                     let typeCount = length (bcTypes shared10);
                         (bcTypesArray, shared11) = allocateArray shared10 T_BCPtr typeCount
                     in and_then
                          (store_u32 shared11 (bm + offsetof BCModule_typeCount) (of_nat typeCount))
                       (\<lambda>shared12. and_then
                          (store_ptr shared12 (bm + offsetof BCModule_types) (Some bcTypesArray))
                       (\<lambda>shared13. and_then (storeTypes shared13 bcTypesArray (bcTypes shared13) 0)
                       (\<lambda>shared14. Inr (Some bm, shared14, c2)))))))) = Inr (h, s', c')"
    unfolding generateBytecodeForModule_def Let_def
    by (simp only: option.case prod.case) (erule and_then_InrE, (simp only: prod.case split: prod.splits)?)+
  obtain bc s7 where 7: "allocateArray s6 T_BCConstant (length (constants s6)) = (bc, s7)"
    by (cases "allocateArray s6 T_BCConstant (length (constants s6))")
  from r6 7 obtain s8 s9 s10 where
      8: "store_u32 s7 (bm + offsetof BCModule_constantCount) (of_nat (length (constants s6))) = Inr s8"
    and 9: "store_ptr s8 (bm + offsetof BCModule_constants) (Some bc) = Inr s9"
    and 10: "storeConstants opc s9 bc (constants s9) 0 = Inr s10"
    and r10: "(let typeCount = length (bcTypes s10);
                         (bcTypesArray, shared11) = allocateArray s10 T_BCPtr typeCount
                     in and_then
                          (store_u32 shared11 (bm + offsetof BCModule_typeCount) (of_nat typeCount))
                       (\<lambda>shared12. and_then
                          (store_ptr shared12 (bm + offsetof BCModule_types) (Some bcTypesArray))
                       (\<lambda>shared13. and_then (storeTypes shared13 bcTypesArray (bcTypes shared13) 0)
                       (\<lambda>shared14. Inr (Some bm, shared14, c2))))) = Inr (h, s', c')"
    unfolding Let_def
    by (simp only: prod.case) (erule and_then_InrE, (simp only: prod.case split: prod.splits)?)+
  obtain ar s11 where 11: "allocateArray s10 T_BCPtr (length (bcTypes s10)) = (ar, s11)"
    by (cases "allocateArray s10 T_BCPtr (length (bcTypes s10))")
  from r10 11 obtain s12 s13 s14 where
      12: "store_u32 s11 (bm + offsetof BCModule_typeCount) (of_nat (length (bcTypes s10))) = Inr s12"
    and 13: "store_ptr s12 (bm + offsetof BCModule_types) (Some ar) = Inr s13"
    and 14: "storeTypes s13 ar (bcTypes s13) 0 = Inr s14"
    and e: "h = Some bm" "s' = s14" "c' = c2"
    by (auto simp add: Let_def elim!: and_then_InrE)
  show ?thesis
    using that [OF e(1) 1 2 [folded e] 3 4 5 6 [folded e] 7 8 9 10 11 12 13 14 [folded e]] .
qed

lemma keeps_generateBytecodeForModule:
  assumes k: "keeps L B ref s" and g: "generateBytecodeForModule opc s c irModule = Inr (h, s', c')"
  shows "keeps L B ref s' \<and> (\<forall>b. h = Some b \<longrightarrow> L \<le> b) \<and> (h = None \<longleftrightarrow> irModule = None)"
proof (cases irModule)
  case None
  with g k show ?thesis by (simp add: generateBytecodeForModule_def)
next
  case (Some m)
  from g [unfolded Some] obtain bcModule s1 symbolCount s2 bcSymbols s3 s4 s5 s6 bcConstants s7 s8 s9 s10
      arr s11 s12 s13 where
      h: "h = Some bcModule"
    and 1: "allocate s T_BCModule = (bcModule, s1)"
    and 2: "assignGlobalIDs s1 c (getGlobalInsts m) 0 = (symbolCount, s2, c')"
    and 3: "allocateArray s2 T_BCPtr symbolCount = (bcSymbols, s3)"
    and 4: "store_u32 s3 (bcModule + offsetof BCModule_symbolCount) (of_nat symbolCount) = Inr s4"
    and 5: "store_ptr s4 (bcModule + offsetof BCModule_symbols) (Some bcSymbols) = Inr s5"
    and 6: "generateSymbols opc s5 c' bcSymbols (getGlobalInsts m) = Inr s6"
    and 7: "allocateArray s6 T_BCConstant (length (constants s6)) = (bcConstants, s7)"
    and 8: "store_u32 s7 (bcModule + offsetof BCModule_constantCount) (of_nat (length (constants s6))) = Inr s8"
    and 9: "store_ptr s8 (bcModule + offsetof BCModule_constants) (Some bcConstants) = Inr s9"
    and 10: "storeConstants opc s9 bcConstants (constants s9) 0 = Inr s10"
    and 11: "allocateArray s10 T_BCPtr (length (bcTypes s10)) = (arr, s11)"
    and 12: "store_u32 s11 (bcModule + offsetof BCModule_typeCount) (of_nat (length (bcTypes s10))) = Inr s12"
    and 13: "store_ptr s12 (bcModule + offsetof BCModule_types) (Some arr) = Inr s13"
    and 14: "storeTypes s13 arr (bcTypes s13) 0 = Inr s'"
    by (rule generateBytecodeForModuleE)
  from keeps_allocate [OF k 1] have k1: "keeps L B ref s1" and b: "L \<le> bcModule" "B \<le> bcModule" by simp_all
  from assignGlobalIDs_fields [OF 2] k1 have k2: "keeps L B ref s2" by (simp add: keeps_def)
  from keeps_allocateArray [OF k2 3] have k3: "keeps L B ref s3" and bs: "B \<le> bcSymbols" by simp_all
  from keeps_store_u32 [OF k3 4] b have k4: "keeps L B ref s4" by simp
  from keeps_store_ptr [OF k4 5] b have k5: "keeps L B ref s5" by simp
  from keeps_generateSymbols [OF k5 6 bs] have k6: "keeps L B ref s6" .
  from keeps_allocateArray [OF k6 7] have k7: "keeps L B ref s7" and bc: "B \<le> bcConstants" by simp_all
  from keeps_store_u32 [OF k7 8] b have k8: "keeps L B ref s8" by simp
  from keeps_store_ptr [OF k8 9] b have k9: "keeps L B ref s9" by simp
  from keeps_storeConstants [OF k9 10 bc] have k10: "keeps L B ref s10" .
  from keeps_allocateArray [OF k10 11] have k11: "keeps L B ref s11" and ba: "B \<le> arr" by simp_all
  from keeps_store_u32 [OF k11 12] b have k12: "keeps L B ref s12" by simp
  from keeps_store_ptr [OF k12 13] b have k13: "keeps L B ref s13" by simp
  from keeps_storeTypes [OF k13 14 ba] have "keeps L B ref s'" .
  with h b Some show ?thesis by simp
qed

lemma keeps_generateModules:
  "keeps L B ref s \<Longrightarrow> generateModules opc s c tus acc = Inr (ms, s', c') \<Longrightarrow>
   keeps L B ref s' \<and> length ms = length acc + length tus \<and> take (length acc) ms = acc \<and>
   (\<forall>i < length tus. (ms ! (length acc + i) = None \<longleftrightarrow> tus ! i = None) \<and>
      (\<forall>b. ms ! (length acc + i) = Some b \<longrightarrow> L \<le> b))"
proof (induction tus arbitrary: s c acc)
  case Nil
  then show ?case by simp
next
  case (Cons irModule tus)
  from Cons.prems(2) obtain bcModule s1 c1 where
      1: "generateBytecodeForModule opc s c irModule = Inr (bcModule, s1, c1)"
    and 2: "generateModules opc s1 c1 tus (acc @ [bcModule]) = Inr (ms, s', c')"
    by (auto elim!: and_then_InrE)
  from keeps_generateBytecodeForModule [OF Cons.prems(1) 1]
  have k1: "keeps L B ref s1" and hb: "\<forall>b. bcModule = Some b \<longrightarrow> L \<le> b"
    and hn: "bcModule = None \<longleftrightarrow> irModule = None" by simp_all
  from Cons.IH [OF k1 2]
  have k: "keeps L B ref s'" and len: "length ms = length (acc @ [bcModule]) + length tus"
    and tk: "take (length (acc @ [bcModule])) ms = acc @ [bcModule]"
    and ih: "\<forall>i < length tus. (ms ! (length (acc @ [bcModule]) + i) = None \<longleftrightarrow> tus ! i = None) \<and>
      (\<forall>b. ms ! (length (acc @ [bcModule]) + i) = Some b \<longrightarrow> L \<le> b)"
    by simp_all
  from tk have tk': "take (length acc) ms = acc"
  proof -
    have "take (length acc) ms = take (length acc) (take (length (acc @ [bcModule])) ms)"
      by (simp add: min_def)
    also have "\<dots> = take (length acc) (acc @ [bcModule])" by (simp only: tk)
    also have "\<dots> = acc" by simp
    finally show ?thesis .
  qed
  have m0: "ms ! length acc = bcModule"
  proof -
    have "ms ! length acc = take (length (acc @ [bcModule])) ms ! length acc" by simp
    also have "\<dots> = (acc @ [bcModule]) ! length acc" by (simp only: tk)
    also have "\<dots> = bcModule" by simp
    finally show ?thesis .
  qed
  have "\<forall>i < length (irModule # tus). (ms ! (length acc + i) = None \<longleftrightarrow> (irModule # tus) ! i = None) \<and>
      (\<forall>b. ms ! (length acc + i) = Some b \<longrightarrow> L \<le> b)"
  proof (intro allI impI)
    fix i assume "i < length (irModule # tus)"
    show "(ms ! (length acc + i) = None \<longleftrightarrow> (irModule # tus) ! i = None) \<and>
      (\<forall>b. ms ! (length acc + i) = Some b \<longrightarrow> L \<le> b)"
    proof (cases i)
      case 0
      with m0 hb hn show ?thesis by simp
    next
      case (Suc j)
      with \<open>i < length (irModule # tus)\<close> have "j < length tus" by simp
      with ih have "(ms ! (length (acc @ [bcModule]) + j) = None \<longleftrightarrow> tus ! j = None) \<and>
        (\<forall>b. ms ! (length (acc @ [bcModule]) + j) = Some b \<longrightarrow> L \<le> b)" by blast
      with Suc show ?thesis by simp
    qed
  qed
  with k len tk' show ?case by simp
qed

lemma keeps_storeModules:
  "keeps L B ref s \<Longrightarrow> storeModules s base ms ii = Inr s' \<Longrightarrow> B \<le> base \<Longrightarrow> keeps L B ref s'"
proof (induction ms arbitrary: s ii)
  case Nil
  then show ?case by simp
next
  case (Cons m ms)
  from Cons.prems(2) obtain s1 where 1: "store_ptr s (base + ii * sizeof T_BCPtr) m = Inr s1"
    and 2: "storeModules s1 base ms (ii + 1) = Inr s'"
    by (auto elim!: and_then_InrE)
  from keeps_store_ptr [OF Cons.prems(1) 1] Cons.prems(3) have "keeps L B ref s1" by simp
  from Cons.IH [OF this 2 Cons.prems(3)] show ?case .
qed

text \<open>Each entry of the module array reads back as the handle stored there.\<close>

lemma storeModules_entries:
  "storeModules s base ms ii = Inr s' \<Longrightarrow>
   length (bytecode s') = length (bytecode s) \<and>
   (\<forall>j < length ms. load_ptr (bytecode s') (base + (ii + j) * sizeof T_BCPtr)
       = (case ms ! j of None \<Rightarrow> 0 | Some target \<Rightarrow> of_nat target))"
proof (induction ms arbitrary: s ii)
  case Nil
  then show ?case by simp
next
  case (Cons m ms)
  from Cons.prems obtain s1 where 1: "store_ptr s (base + ii * sizeof T_BCPtr) m = Inr s1"
    and 2: "storeModules s1 base ms (ii + 1) = Inr s'"
    by (auto elim!: and_then_InrE)
  note ih = Cons.IH [OF 2]
  from 1 have in_bounds: "base + ii * sizeof T_BCPtr + 8 \<le> length (bytecode s)"
    and l1: "length (bytecode s1) = length (bytecode s)"
    unfolding store_ptr_def using store_bytes_Inr(1,3) by fastforce+
  let ?B = "base + ii * sizeof T_BCPtr + 8"
  from in_bounds l1 have "keeps (length (bytecode s1)) ?B (take ?B (bytecode s1)) s1"
    by (intro keeps_refl) simp_all
  moreover have "keeps (length (bytecode s1)) ?B (take ?B (bytecode s1)) s'"
  proof -
    have "?B \<le> length (bytecode s1)" using in_bounds l1 by simp
    then have k1: "keeps (length (bytecode s1)) ?B (take ?B (bytecode s1)) s1"
      by (intro keeps_refl) simp_all
    have "\<And>t jj u. keeps (length (bytecode s1)) ?B (take ?B (bytecode s1)) t \<Longrightarrow>
        storeModules t base ms jj = Inr u \<Longrightarrow> ii < jj \<Longrightarrow>
        keeps (length (bytecode s1)) ?B (take ?B (bytecode s1)) u"
    proof (induction ms)
      case Nil
      then show ?case by simp
    next
      case (Cons x xs)
      from Cons.prems(2) obtain t1 where a: "store_ptr t (base + jj * sizeof T_BCPtr) x = Inr t1"
        and b: "storeModules t1 base xs (jj + 1) = Inr u"
        by (auto elim!: and_then_InrE)
      from Cons.prems(3) have "ii + 1 \<le> jj" by simp
      then have "(ii + 1) * 8 \<le> jj * 8" by (rule mult_le_mono1)
      then have "?B \<le> base + jj * sizeof T_BCPtr" by simp
      from keeps_store_ptr [OF Cons.prems(1) a this]
      have "keeps (length (bytecode s1)) ?B (take ?B (bytecode s1)) t1" .
      from Cons.IH [OF this b] Cons.prems(3) show ?case by simp
    qed
    from this [OF k1 2] show ?thesis by simp
  qed
  ultimately have "load_ptr (bytecode s') (base + ii * sizeof T_BCPtr)
      = load_ptr (bytecode s1) (base + ii * sizeof T_BCPtr)"
    by (rule keeps_load_ptr) simp
  also have "\<dots> = (case m of None \<Rightarrow> 0 | Some target \<Rightarrow> of_nat target)"
    by (rule load_ptr_store_ptr [OF 1])
  finally have first: "load_ptr (bytecode s') (base + ii * sizeof T_BCPtr)
      = (case m of None \<Rightarrow> 0 | Some target \<Rightarrow> of_nat target)" .
  have "\<forall>j < length (m # ms). load_ptr (bytecode s') (base + (ii + j) * sizeof T_BCPtr)
       = (case (m # ms) ! j of None \<Rightarrow> 0 | Some target \<Rightarrow> of_nat target)"
  proof (intro allI impI)
    fix j assume j: "j < length (m # ms)"
    show "load_ptr (bytecode s') (base + (ii + j) * sizeof T_BCPtr)
       = (case (m # ms) ! j of None \<Rightarrow> 0 | Some target \<Rightarrow> of_nat target)"
    proof (cases j)
      case 0
      with first show ?thesis by simp
    next
      case (Suc k)
      with j have "k < length ms" by simp
      with ih have "load_ptr (bytecode s') (base + (ii + 1 + k) * sizeof T_BCPtr)
          = (case ms ! k of None \<Rightarrow> 0 | Some target \<Rightarrow> of_nat target)" by blast
      with Suc show ?thesis by simp
    qed
  qed
  with ih l1 show ?case by simp
qed

lemma keeps_load_bytes:
  "keeps L B ref s \<Longrightarrow> keeps L B ref s' \<Longrightarrow> o' + n \<le> B \<Longrightarrow>
   load_bytes (bytecode s') o' n = load_bytes (bytecode s) o' n"
proof -
  assume a: "keeps L B ref s" "keeps L B ref s'" "o' + n \<le> B"
  have "load_bytes (bytecode s') o' n = load_bytes (take B (bytecode s')) o' n"
    using a(3) by (simp add: load_bytes_take)
  also have "\<dots> = load_bytes (take B (bytecode s)) o' n"
    using a(1,2) by (simp add: keeps_def)
  also have "\<dots> = load_bytes (bytecode s) o' n"
    using a(3) by (simp add: load_bytes_take)
  finally show ?thesis .
qed

lemma keeps_length: "keeps L B ref s \<Longrightarrow> L \<le> length (bytecode s)"
  by (simp add: keeps_def)

text \<open>A module record lies wholly inside the arena, and the arena only grows.\<close>

lemma generateBytecodeForModule_length:
  assumes g: "generateBytecodeForModule opc s c irModule = Inr (h, s', c')"
  shows "length (bytecode s) \<le> length (bytecode s')"
    and "\<forall>b. h = Some b \<longrightarrow> b + sizeof T_BCModule \<le> length (bytecode s')"
proof -
  have "keeps (length (bytecode s)) 0 [] s" by (simp add: keeps_def)
  from keeps_generateBytecodeForModule [OF this g]
  show "length (bytecode s) \<le> length (bytecode s')" by (simp add: keeps_def)
  show "\<forall>b. h = Some b \<longrightarrow> b + sizeof T_BCModule \<le> length (bytecode s')"
  proof (intro allI impI)
    fix b assume h: "h = Some b"
    with g obtain m where m: "irModule = Some m" by (cases irModule) (auto simp add: generateBytecodeForModule_def)
    from g [unfolded m] obtain bcModule s1 symbolCount s2 bcSymbols s3 s4 s5 s6 bcConstants s7 s8 s9 s10
        arr s11 s12 s13 where
        h': "h = Some bcModule"
      and 1: "allocate s T_BCModule = (bcModule, s1)"
      and 2: "assignGlobalIDs s1 c (getGlobalInsts m) 0 = (symbolCount, s2, c')"
      and 3: "allocateArray s2 T_BCPtr symbolCount = (bcSymbols, s3)"
      and 4: "store_u32 s3 (bcModule + offsetof BCModule_symbolCount) (of_nat symbolCount) = Inr s4"
      and 5: "store_ptr s4 (bcModule + offsetof BCModule_symbols) (Some bcSymbols) = Inr s5"
      and 6: "generateSymbols opc s5 c' bcSymbols (getGlobalInsts m) = Inr s6"
      and 7: "allocateArray s6 T_BCConstant (length (constants s6)) = (bcConstants, s7)"
      and 8: "store_u32 s7 (bcModule + offsetof BCModule_constantCount) (of_nat (length (constants s6))) = Inr s8"
      and 9: "store_ptr s8 (bcModule + offsetof BCModule_constants) (Some bcConstants) = Inr s9"
      and 10: "storeConstants opc s9 bcConstants (constants s9) 0 = Inr s10"
      and 11: "allocateArray s10 T_BCPtr (length (bcTypes s10)) = (arr, s11)"
      and 12: "store_u32 s11 (bcModule + offsetof BCModule_typeCount) (of_nat (length (bcTypes s10))) = Inr s12"
      and 13: "store_ptr s12 (bcModule + offsetof BCModule_types) (Some arr) = Inr s13"
      and 14: "storeTypes s13 arr (bcTypes s13) 0 = Inr s'"
      by (rule generateBytecodeForModuleE)
    let ?L = "bcModule + sizeof T_BCModule"
    from allocate_props(3) [OF 1] have k1: "keeps ?L 0 [] s1" by (simp add: keeps_def)
    from assignGlobalIDs_fields [OF 2] k1 have k2: "keeps ?L 0 [] s2" by (simp add: keeps_def)
    from keeps_allocateArray [OF k2 3] have k3: "keeps ?L 0 [] s3" by simp
    from keeps_store_u32 [OF k3 4] have k4: "keeps ?L 0 [] s4" by simp
    from keeps_store_ptr [OF k4 5] have k5: "keeps ?L 0 [] s5" by simp
    from keeps_generateSymbols [OF k5 6] have k6: "keeps ?L 0 [] s6" by simp
    from keeps_allocateArray [OF k6 7] have k7: "keeps ?L 0 [] s7" by simp
    from keeps_store_u32 [OF k7 8] have k8: "keeps ?L 0 [] s8" by simp
    from keeps_store_ptr [OF k8 9] have k9: "keeps ?L 0 [] s9" by simp
    from keeps_storeConstants [OF k9 10] have k10: "keeps ?L 0 [] s10" by simp
    from keeps_allocateArray [OF k10 11] have k11: "keeps ?L 0 [] s11" by simp
    from keeps_store_u32 [OF k11 12] have k12: "keeps ?L 0 [] s12" by simp
    from keeps_store_ptr [OF k12 13] have k13: "keeps ?L 0 [] s13" by simp
    from keeps_storeTypes [OF k13 14] have "keeps ?L 0 [] s'" by simp
    with h h' show "b + sizeof T_BCModule \<le> length (bytecode s')" by (simp add: keeps_def)
  qed
qed

lemma generateModules_handles:
  "generateModules opc s c tus acc = Inr (ms, s', c') \<Longrightarrow>
   (\<forall>b \<in> set acc. b \<noteq> None \<longrightarrow> the b + sizeof T_BCModule \<le> length (bytecode s)) \<Longrightarrow>
   length (bytecode s) \<le> length (bytecode s') \<and>
   (\<forall>b \<in> set ms. b \<noteq> None \<longrightarrow> the b + sizeof T_BCModule \<le> length (bytecode s'))"
proof (induction tus arbitrary: s c acc)
  case Nil
  then show ?case by simp
next
  case (Cons irModule tus)
  from Cons.prems(1) obtain bcModule s1 c1 where
      1: "generateBytecodeForModule opc s c irModule = Inr (bcModule, s1, c1)"
    and 2: "generateModules opc s1 c1 tus (acc @ [bcModule]) = Inr (ms, s', c')"
    by (auto elim!: and_then_InrE)
  note l = generateBytecodeForModule_length [OF 1]
  have "\<forall>b \<in> set (acc @ [bcModule]). b \<noteq> None \<longrightarrow> the b + sizeof T_BCModule \<le> length (bytecode s1)"
    using Cons.prems(2) l by fastforce
  from Cons.IH [OF 2 this] l(1) show ?case by simp
qed

lemma generateBytecodeContainerE:
  assumes "generateBytecodeContainer opc s c req = Inr (s', c')"
  obtains header s1 s2 s3 ms s4 s5 bcModules s6 s7 where
    "allocate s T_BCHeader = (header, s1)"
    "store_bytes s1 (header + offsetof BCHeader_magic) magic = Inr s2"
    "store_u32 s2 (header + offsetof BCHeader_version) 0 = Inr s3"
    "generateModules opc s3 c (translationUnits req) [] = Inr (ms, s4, c')"
    "store_u32 s4 (header + offsetof BCHeader_moduleCount) (of_nat (length ms)) = Inr s5"
    "allocateArray s5 T_BCPtr (length ms) = (bcModules, s6)"
    "store_ptr s6 (header + offsetof BCHeader_modules) (Some bcModules) = Inr s7"
    "storeModules s7 bcModules ms 0 = Inr s'"
proof -
  obtain header s1 where 1: "allocate s T_BCHeader = (header, s1)" by (cases "allocate s T_BCHeader")
  from assms 1 obtain s2 s3 ms s4 c4 s5 where
      2: "store_bytes s1 (header + offsetof BCHeader_magic) magic = Inr s2"
    and 3: "store_u32 s2 (header + offsetof BCHeader_version) 0 = Inr s3"
    and 4: "generateModules opc s3 c (translationUnits req) [] = Inr (ms, s4, c4)"
    and 5: "store_u32 s4 (header + offsetof BCHeader_moduleCount) (of_nat (length ms)) = Inr s5"
    and r5: "(let (bcModules, shared6) = allocateArray s5 T_BCPtr (length ms)
                in and_then (store_ptr shared6 (header + offsetof BCHeader_modules) (Some bcModules))
                  (\<lambda>shared7. and_then (storeModules shared7 bcModules ms 0)
                  (\<lambda>shared8. Inr (shared8, c4)))) = Inr (s', c')"
    unfolding generateBytecodeContainer_def Let_def
    by (simp only: prod.case) (erule and_then_InrE, (simp only: prod.case split: prod.splits)?)+
  obtain bcModules s6 where 6: "allocateArray s5 T_BCPtr (length ms) = (bcModules, s6)"
    by (cases "allocateArray s5 T_BCPtr (length ms)")
  from r5 6 obtain s7 where 7: "store_ptr s6 (header + offsetof BCHeader_modules) (Some bcModules) = Inr s7"
    and 8: "storeModules s7 bcModules ms 0 = Inr s'" and e: "c4 = c'"
    by (auto elim!: and_then_InrE)
  from that [OF 1 2 3 4 [unfolded e] 5 6 7 8] show ?thesis .
qed

text \<open>What the finished container holds, relative to the offset of its header.\<close>

lemma generateBytecodeContainer_header:
  assumes g: "generateBytecodeContainer opc s c req = Inr (s', c')"
  obtains header bcModules where
    "header = fst (allocate s T_BCHeader)"
    "load_bytes (bytecode s') (header + offsetof BCHeader_magic) 8 = magic"
    "load_u32 (bytecode s') (header + offsetof BCHeader_version) = 0"
    "load_u32 (bytecode s') (header + offsetof BCHeader_moduleCount) = of_nat (length (translationUnits req))"
    "load_ptr (bytecode s') (header + offsetof BCHeader_modules) = of_nat bcModules"
    "bcModules + length (translationUnits req) * sizeof T_BCPtr \<le> length (bytecode s')"
    "\<forall>i < length (translationUnits req).
       (translationUnits req ! i = None \<longrightarrow>
          load_ptr (bytecode s') (bcModules + i * sizeof T_BCPtr) = 0) \<and>
       (translationUnits req ! i \<noteq> None \<longrightarrow>
          (\<exists>b. load_ptr (bytecode s') (bcModules + i * sizeof T_BCPtr) = of_nat b \<and>
               header + sizeof T_BCHeader \<le> b \<and> b + sizeof T_BCModule \<le> length (bytecode s')))"
proof -
  from g obtain header s1 s2 s3 ms s4 s5 bcModules s6 s7 where
      1: "allocate s T_BCHeader = (header, s1)"
    and 2: "store_bytes s1 (header + offsetof BCHeader_magic) magic = Inr s2"
    and 3: "store_u32 s2 (header + offsetof BCHeader_version) 0 = Inr s3"
    and 4: "generateModules opc s3 c (translationUnits req) [] = Inr (ms, s4, c')"
    and 5: "store_u32 s4 (header + offsetof BCHeader_moduleCount) (of_nat (length ms)) = Inr s5"
    and 6: "allocateArray s5 T_BCPtr (length ms) = (bcModules, s6)"
    and 7: "store_ptr s6 (header + offsetof BCHeader_modules) (Some bcModules) = Inr s7"
    and 8: "storeModules s7 bcModules ms 0 = Inr s'"
    by (rule generateBytecodeContainerE)
  let ?L = "header + sizeof T_BCHeader"
  let ?tus = "translationUnits req"
  from allocate_props(3) [OF 1] have l1: "length (bytecode s1) = ?L" .
  txt \<open>The magic, and everything below offset 8 of the header, from the second state on.\<close>
  from store_bytes_Inr(3) [OF 2] l1 have l2: "length (bytecode s2) = ?L" by simp
  have lm: "length magic = 8" by (simp add: magic_def)
  have m2: "load_bytes (bytecode s2) (header + offsetof BCHeader_magic) 8 = magic"
    using load_bytes_store_bytes [OF 2] unfolding lm .
  from l2 have a2: "keeps ?L (header + 8) (take (header + 8) (bytecode s2)) s2"
    by (intro keeps_refl) simp_all
  from keeps_store_u32 [OF a2 3] have a3: "keeps ?L (header + 8) (take (header + 8) (bytecode s2)) s3" by simp
  from keeps_generateModules [OF a3 4] have a4: "keeps ?L (header + 8) (take (header + 8) (bytecode s2)) s4"
    by simp
  from keeps_store_u32 [OF a4 5] have a5: "keeps ?L (header + 8) (take (header + 8) (bytecode s2)) s5" by simp
  from keeps_allocateArray [OF a5 6] have a6: "keeps ?L (header + 8) (take (header + 8) (bytecode s2)) s6"
    and bm: "?L \<le> bcModules" by simp_all
  from keeps_store_ptr [OF a6 7] have a7: "keeps ?L (header + 8) (take (header + 8) (bytecode s2)) s7" by simp
  from keeps_storeModules [OF a7 8] bm have a8: "keeps ?L (header + 8) (take (header + 8) (bytecode s2)) s'"
    by simp
  have magic: "load_bytes (bytecode s') (header + offsetof BCHeader_magic) 8 = magic"
    using keeps_load_bytes [OF a2 a8, of "header + offsetof BCHeader_magic" 8] m2 by simp
  txt \<open>The version, from the third state on.\<close>
  have v3: "load_u32 (bytecode s3) (header + offsetof BCHeader_version) = 0"
    by (rule load_u32_store_u32 [OF 3])
  from a3 have "?L \<le> length (bytecode s3)" by (rule keeps_length)
  then have b3: "keeps ?L (header + 12) (take (header + 12) (bytecode s3)) s3"
    by (intro keeps_refl) simp_all
  from keeps_generateModules [OF b3 4] have b4: "keeps ?L (header + 12) (take (header + 12) (bytecode s3)) s4"
    and len: "length ms = length ?tus"
    and nul: "\<forall>i < length ?tus. (ms ! i = None \<longleftrightarrow> ?tus ! i = None) \<and> (\<forall>b. ms ! i = Some b \<longrightarrow> ?L \<le> b)"
    by simp_all
  from keeps_store_u32 [OF b4 5] have b5: "keeps ?L (header + 12) (take (header + 12) (bytecode s3)) s5" by simp
  from keeps_allocateArray [OF b5 6] have b6: "keeps ?L (header + 12) (take (header + 12) (bytecode s3)) s6"
    by simp
  from keeps_store_ptr [OF b6 7] have b7: "keeps ?L (header + 12) (take (header + 12) (bytecode s3)) s7" by simp
  from keeps_storeModules [OF b7 8] bm have b8: "keeps ?L (header + 12) (take (header + 12) (bytecode s3)) s'"
    by simp
  have version: "load_u32 (bytecode s') (header + offsetof BCHeader_version) = 0"
    using keeps_load_u32 [OF b3 b8, of "header + offsetof BCHeader_version"] v3 by simp
  txt \<open>The module count, from the fifth state on.\<close>
  have c5: "load_u32 (bytecode s5) (header + offsetof BCHeader_moduleCount) = of_nat (length ms)"
    by (rule load_u32_store_u32 [OF 5])
  from b5 have "?L \<le> length (bytecode s5)" by (rule keeps_length)
  then have d5: "keeps ?L (header + 16) (take (header + 16) (bytecode s5)) s5"
    by (intro keeps_refl) simp_all
  from keeps_allocateArray [OF d5 6] have d6: "keeps ?L (header + 16) (take (header + 16) (bytecode s5)) s6"
    by simp
  from keeps_store_ptr [OF d6 7] have d7: "keeps ?L (header + 16) (take (header + 16) (bytecode s5)) s7" by simp
  from keeps_storeModules [OF d7 8] bm have d8: "keeps ?L (header + 16) (take (header + 16) (bytecode s5)) s'"
    by simp
  have count: "load_u32 (bytecode s') (header + offsetof BCHeader_moduleCount) = of_nat (length ?tus)"
    using keeps_load_u32 [OF d5 d8, of "header + offsetof BCHeader_moduleCount"] c5 len by simp
  txt \<open>The pointer to the module array, from the seventh state on.\<close>
  have p7: "load_ptr (bytecode s7) (header + offsetof BCHeader_modules) = of_nat bcModules"
    using load_ptr_store_ptr [OF 7] by simp
  from d7 have "?L \<le> length (bytecode s7)" by (rule keeps_length)
  then have e7: "keeps ?L ?L (take ?L (bytecode s7)) s7"
    by (intro keeps_refl) simp_all
  from keeps_storeModules [OF e7 8 bm] have e8: "keeps ?L ?L (take ?L (bytecode s7)) s'" .
  have modules: "load_ptr (bytecode s') (header + offsetof BCHeader_modules) = of_nat bcModules"
    using keeps_load_ptr [OF e7 e8, of "header + offsetof BCHeader_modules"] p7 by simp
  txt \<open>The entries of the module array.\<close>
  note ent = storeModules_entries [OF 8]
  from allocateArray_props(3) [OF 6] store_bytes_Inr(3) [OF 7 [unfolded store_ptr_def]] ent
  have l8: "length (bytecode s') = bcModules + length ms * sizeof T_BCPtr" by simp
  have "length (bytecode s3) \<le> length (bytecode s4) \<and>
      (\<forall>b \<in> set ms. b \<noteq> None \<longrightarrow> the b + sizeof T_BCModule \<le> length (bytecode s4))"
    by (rule generateModules_handles [OF 4]) simp
  then have hb: "\<forall>b \<in> set ms. b \<noteq> None \<longrightarrow> the b + sizeof T_BCModule \<le> length (bytecode s4)" by simp
  from store_bytes_Inr(3) [OF 5 [unfolded store_u32_def]] allocateArray_props(1) [OF 6] l8
  have l48: "length (bytecode s4) \<le> length (bytecode s')" by simp
  have entries: "\<forall>i < length ?tus.
       (?tus ! i = None \<longrightarrow> load_ptr (bytecode s') (bcModules + i * sizeof T_BCPtr) = 0) \<and>
       (?tus ! i \<noteq> None \<longrightarrow>
          (\<exists>b. load_ptr (bytecode s') (bcModules + i * sizeof T_BCPtr) = of_nat b \<and>
               ?L \<le> b \<and> b + sizeof T_BCModule \<le> length (bytecode s')))"
  proof (intro allI impI)
    fix i assume i: "i < length ?tus"
    with len have i': "i < length ms" by simp
    with ent have e: "load_ptr (bytecode s') (bcModules + i * sizeof T_BCPtr)
        = (case ms ! i of None \<Rightarrow> 0 | Some target \<Rightarrow> of_nat target)" by simp
    from nul i have n: "ms ! i = None \<longleftrightarrow> ?tus ! i = None" and lb: "\<forall>b. ms ! i = Some b \<longrightarrow> ?L \<le> b"
      by blast+
    show "(?tus ! i = None \<longrightarrow> load_ptr (bytecode s') (bcModules + i * sizeof T_BCPtr) = 0) \<and>
       (?tus ! i \<noteq> None \<longrightarrow>
          (\<exists>b. load_ptr (bytecode s') (bcModules + i * sizeof T_BCPtr) = of_nat b \<and>
               ?L \<le> b \<and> b + sizeof T_BCModule \<le> length (bytecode s')))"
    proof (cases "ms ! i")
      case None
      with e n show ?thesis by simp
    next
      case (Some b)
      from i' have "ms ! i \<in> set ms" by simp
      with hb Some have "b + sizeof T_BCModule \<le> length (bytecode s4)" by fastforce
      with l48 have "b + sizeof T_BCModule \<le> length (bytecode s')" by simp
      with e n lb Some show ?thesis by auto
    qed
  qed
  from l8 len have fits: "bcModules + length ?tus * sizeof T_BCPtr \<le> length (bytecode s')" by simp
  have "header = fst (allocate s T_BCHeader)"
    using 1 by simp
  from that [OF this magic version count modules fits entries] show ?thesis .
qed

section \<open>The container\<close>

lemma generateBytecodeForCompileRequestE:
  assumes "generateBytecodeForCompileRequest opc compileReq = Inr a"
  obtains s' c' where
    "generateBytecodeContainer opc
       \<lparr>bytecode = [], mapValueToGlobal = Map.empty, bcTypes = [], mapTypeToID = Map.empty, constants = []\<rparr>
       \<lparr>currentBytecode = [], remappedGlobalSymbols = [], mapInstToLocalID = Map.empty\<rparr> compileReq
       = Inr (s', c')"
    and "a = bytecode s'"
  using assms unfolding generateBytecodeForCompileRequest_def Let_def
  by (auto elim!: and_then_InrE)

lemma allocate_header_fresh:
  "fst (allocate \<lparr>bytecode = [], mapValueToGlobal = Map.empty, bcTypes = [], mapTypeToID = Map.empty,
                  constants = []\<rparr> T_BCHeader) = 0"
  by (simp add: allocate_def allocateRaw_def)

text \<open>
  C6. In the byte vector of every compile request the header lies at offset 0: bytes
  0..7 are 73 6C 61 6E 67 00 62 63 and the version at bytes 8..11 is 0.
\<close>

theorem header_at_offset_zero:
  assumes "generateBytecodeForCompileRequest opc compileReq = Inr generatedBytecode"
  shows "fst (allocate \<lparr>bytecode = [], mapValueToGlobal = Map.empty, bcTypes = [],
                         mapTypeToID = Map.empty, constants = []\<rparr> T_BCHeader) = 0 \<and>
         sizeof T_BCHeader \<le> length generatedBytecode \<and>
         take 8 generatedBytecode = [0x73, 0x6C, 0x61, 0x6E, 0x67, 0x00, 0x62, 0x63] \<and>
         load_u32 generatedBytecode 8 = 0"
proof -
  from assms obtain s' c' where
      g: "generateBytecodeContainer opc
       \<lparr>bytecode = [], mapValueToGlobal = Map.empty, bcTypes = [], mapTypeToID = Map.empty, constants = []\<rparr>
       \<lparr>currentBytecode = [], remappedGlobalSymbols = [], mapInstToLocalID = Map.empty\<rparr> compileReq
       = Inr (s', c')"
    and a: "generatedBytecode = bytecode s'"
    by (rule generateBytecodeForCompileRequestE)
  from g obtain header bcModules where
      h: "header = fst (allocate \<lparr>bytecode = [], mapValueToGlobal = Map.empty, bcTypes = [],
                         mapTypeToID = Map.empty, constants = []\<rparr> T_BCHeader)"
    and m: "load_bytes (bytecode s') (header + offsetof BCHeader_magic) 8 = magic"
    and v: "load_u32 (bytecode s') (header + offsetof BCHeader_version) = 0"
    and p: "load_ptr (bytecode s') (header + offsetof BCHeader_modules) = of_nat bcModules"
    and l: "bcModules + length (translationUnits compileReq) * sizeof T_BCPtr \<le> length (bytecode s')"
    and e: "\<forall>i < length (translationUnits compileReq).
       (translationUnits compileReq ! i = None \<longrightarrow>
          load_ptr (bytecode s') (bcModules + i * sizeof T_BCPtr) = 0) \<and>
       (translationUnits compileReq ! i \<noteq> None \<longrightarrow>
          (\<exists>b. load_ptr (bytecode s') (bcModules + i * sizeof T_BCPtr) = of_nat b \<and>
               header + sizeof T_BCHeader \<le> b \<and> b + sizeof T_BCModule \<le> length (bytecode s')))"
    by (rule generateBytecodeContainer_header)
  from h have h0: "header = 0" by (simp only: allocate_header_fresh)
  from g have len: "sizeof T_BCHeader \<le> length (bytecode s')"
  proof -
    from g obtain header' s1 s2 s3 ms s4 s5 bm s6 s7 where
        1: "allocate \<lparr>bytecode = [], mapValueToGlobal = Map.empty, bcTypes = [], mapTypeToID = Map.empty,
                      constants = []\<rparr> T_BCHeader = (header', s1)"
      and 2: "store_bytes s1 (header' + offsetof BCHeader_magic) magic = Inr s2"
      and 3: "store_u32 s2 (header' + offsetof BCHeader_version) 0 = Inr s3"
      and 4: "generateModules opc s3 \<lparr>currentBytecode = [], remappedGlobalSymbols = [],
                 mapInstToLocalID = Map.empty\<rparr> (translationUnits compileReq) [] = Inr (ms, s4, c')"
      and 5: "store_u32 s4 (header' + offsetof BCHeader_moduleCount) (of_nat (length ms)) = Inr s5"
      and 6: "allocateArray s5 T_BCPtr (length ms) = (bm, s6)"
      and 7: "store_ptr s6 (header' + offsetof BCHeader_modules) (Some bm) = Inr s7"
      and 8: "storeModules s7 bm ms 0 = Inr s'"
      by (rule generateBytecodeContainerE)
    from allocate_props(3) [OF 1] have "keeps (sizeof T_BCHeader) 0 [] s1" by (simp add: keeps_def)
    from keeps_store_bytes [OF this 2] have "keeps (sizeof T_BCHeader) 0 [] s2" by simp
    from keeps_store_u32 [OF this 3] have "keeps (sizeof T_BCHeader) 0 [] s3" by simp
    from keeps_generateModules [OF this 4] have "keeps (sizeof T_BCHeader) 0 [] s4" by simp
    from keeps_store_u32 [OF this 5] have "keeps (sizeof T_BCHeader) 0 [] s5" by simp
    from keeps_allocateArray [OF this 6] have "keeps (sizeof T_BCHeader) 0 [] s6" by simp
    from keeps_store_ptr [OF this 7] have "keeps (sizeof T_BCHeader) 0 [] s7" by simp
    from keeps_storeModules [OF this 8] have "keeps (sizeof T_BCHeader) 0 [] s'" by simp
    then show ?thesis by (rule keeps_length)
  qed
  from m h0 have "take 8 (bytecode s') = magic" by (simp add: load_bytes_def)
  with v h0 a len show ?thesis by (simp add: magic_def allocate_header_fresh)
qed

theorem header_at_offset_zero_witness:
  "(case generateBytecodeForCompileRequest scenarioOpcodes emptyAndNullRequest of
      Inr generatedBytecode \<Rightarrow>
        take 8 generatedBytecode = [0x73, 0x6C, 0x61, 0x6E, 0x67, 0x00, 0x62, 0x63] \<and>
        load_u32 generatedBytecode 8 = 0
    | Inl e \<Rightarrow> False)"
proof -
  have "case generateBytecodeForCompileRequest scenarioOpcodes emptyAndNullRequest of
          Inr r \<Rightarrow> True | Inl e \<Rightarrow> False"
    by code_simp
  then obtain a where g: "generateBytecodeForCompileRequest scenarioOpcodes emptyAndNullRequest = Inr a"
    by (cases "generateBytecodeForCompileRequest scenarioOpcodes emptyAndNullRequest") auto
  from header_at_offset_zero [OF g]
  have "take 8 a = [0x73, 0x6C, 0x61, 0x6E, 0x67, 0x00, 0x62, 0x63]" and "load_u32 a 8 = 0"
    by blast+
  then show ?thesis unfolding g by simp
qed

text \<open>
  C10. A translation unit without IR module gets the null handle, and the arena is left
  as it is. In the finished container such a unit is counted in \<open>moduleCount\<close>, and
  its entry in the module array of the header is the null pointer, while the entry of
  a unit with a module is not null (the arena fitting the 64-bit address space).
\<close>

theorem null_module_entry:
  assumes "generateBytecodeForCompileRequest opc compileReq = Inr generatedBytecode"
    and "length generatedBytecode < 2 ^ 64"
  shows "generateBytecodeForModule opc shared context' None = Inr (None, shared, context') \<and>
         load_u32 generatedBytecode (offsetof BCHeader_moduleCount)
           = of_nat (length (translationUnits compileReq)) \<and>
         (\<forall>i < length (translationUnits compileReq).
            (translationUnits compileReq ! i = None \<longrightarrow>
               load_ptr generatedBytecode
                 (unat (load_ptr generatedBytecode (offsetof BCHeader_modules)) + i * sizeof T_BCPtr) = 0) \<and>
            (translationUnits compileReq ! i \<noteq> None \<longrightarrow>
               load_ptr generatedBytecode
                 (unat (load_ptr generatedBytecode (offsetof BCHeader_modules)) + i * sizeof T_BCPtr) \<noteq> 0))"
proof -
  from assms(1) obtain s' c' where
      g: "generateBytecodeContainer opc
       \<lparr>bytecode = [], mapValueToGlobal = Map.empty, bcTypes = [], mapTypeToID = Map.empty, constants = []\<rparr>
       \<lparr>currentBytecode = [], remappedGlobalSymbols = [], mapInstToLocalID = Map.empty\<rparr> compileReq
       = Inr (s', c')"
    and a: "generatedBytecode = bytecode s'"
    by (rule generateBytecodeForCompileRequestE)
  from g obtain header bcModules where
      h: "header = fst (allocate \<lparr>bytecode = [], mapValueToGlobal = Map.empty, bcTypes = [],
                         mapTypeToID = Map.empty, constants = []\<rparr> T_BCHeader)"
    and n: "load_u32 (bytecode s') (header + offsetof BCHeader_moduleCount)
              = of_nat (length (translationUnits compileReq))"
    and p: "load_ptr (bytecode s') (header + offsetof BCHeader_modules) = of_nat bcModules"
    and l: "bcModules + length (translationUnits compileReq) * sizeof T_BCPtr \<le> length (bytecode s')"
    and e: "\<forall>i < length (translationUnits compileReq).
       (translationUnits compileReq ! i = None \<longrightarrow>
          load_ptr (bytecode s') (bcModules + i * sizeof T_BCPtr) = 0) \<and>
       (translationUnits compileReq ! i \<noteq> None \<longrightarrow>
          (\<exists>b. load_ptr (bytecode s') (bcModules + i * sizeof T_BCPtr) = of_nat b \<and>
               header + sizeof T_BCHeader \<le> b \<and> b + sizeof T_BCModule \<le> length (bytecode s')))"
    by (rule generateBytecodeContainer_header)
  from h have h0: "header = 0" by (simp only: allocate_header_fresh)
  from l assms(2) a have "bcModules < 2 ^ 64" by simp
  then have u: "unat (of_nat bcModules :: 64 word) = bcModules" by (simp add: unat_of_nat)
  have entries: "\<forall>i < length (translationUnits compileReq).
            (translationUnits compileReq ! i = None \<longrightarrow>
               load_ptr (bytecode s') (bcModules + i * sizeof T_BCPtr) = 0) \<and>
            (translationUnits compileReq ! i \<noteq> None \<longrightarrow>
               load_ptr (bytecode s') (bcModules + i * sizeof T_BCPtr) \<noteq> 0)"
  proof (intro allI impI conjI)
    fix i assume i: "i < length (translationUnits compileReq)" and "translationUnits compileReq ! i = None"
    with e show "load_ptr (bytecode s') (bcModules + i * sizeof T_BCPtr) = 0" by blast
  next
    fix i assume i: "i < length (translationUnits compileReq)" and "translationUnits compileReq ! i \<noteq> None"
    with e obtain b where b: "load_ptr (bytecode s') (bcModules + i * sizeof T_BCPtr) = of_nat b"
      and lo: "header + sizeof T_BCHeader \<le> b" and hi: "b + sizeof T_BCModule \<le> length (bytecode s')"
      by blast
    from hi assms(2) a have "b < 2 ^ 64" by simp
    then have "unat (of_nat b :: 64 word) = b" by (simp add: unat_of_nat)
    moreover from lo have "0 < b" by simp
    ultimately have "(of_nat b :: 64 word) \<noteq> 0" by auto
    with b show "load_ptr (bytecode s') (bcModules + i * sizeof T_BCPtr) \<noteq> 0" by simp
  qed
  have "generateBytecodeForModule opc shared context' None = Inr (None, shared, context')"
    by (simp add: generateBytecodeForModule_def)
  with n p entries h0 u a show ?thesis by simp
qed

theorem null_module_entry_witness:
  "(case generateBytecodeForCompileRequest scenarioOpcodes emptyAndNullRequest of
      Inr generatedBytecode \<Rightarrow>
        length generatedBytecode < 2 ^ 64 \<and>
        translationUnits emptyAndNullRequest ! 1 = None \<and>
        load_u32 generatedBytecode (offsetof BCHeader_moduleCount) = 2 \<and>
        load_ptr generatedBytecode
          (unat (load_ptr generatedBytecode (offsetof BCHeader_modules)) + 1 * sizeof T_BCPtr) = 0 \<and>
        load_ptr generatedBytecode
          (unat (load_ptr generatedBytecode (offsetof BCHeader_modules)) + 0 * sizeof T_BCPtr) \<noteq> 0
    | Inl e \<Rightarrow> False)"
proof -
  have "case generateBytecodeForCompileRequest scenarioOpcodes emptyAndNullRequest of
          Inr r \<Rightarrow> length r = 88 | Inl e \<Rightarrow> False"
    by code_simp
  then obtain a where g: "generateBytecodeForCompileRequest scenarioOpcodes emptyAndNullRequest = Inr a"
    and l: "length a = 88"
    by (cases "generateBytecodeForCompileRequest scenarioOpcodes emptyAndNullRequest") auto
  from l have l64: "length a < 2 ^ 64" by simp
  have t: "translationUnits emptyAndNullRequest ! 1 = None"
    "translationUnits emptyAndNullRequest ! 0 \<noteq> None"
    "length (translationUnits emptyAndNullRequest) = 2"
    by (simp_all add: emptyAndNullRequest_def)
  note n = null_module_entry [OF g l64, of "freshShared"
      "\<lparr>currentBytecode = [], remappedGlobalSymbols = [], mapInstToLocalID = Map.empty\<rparr>"]
  from n have c: "load_u32 a (offsetof BCHeader_moduleCount) = of_nat (length (translationUnits emptyAndNullRequest))"
    by blast
  from n have all: "\<forall>i < length (translationUnits emptyAndNullRequest).
            (translationUnits emptyAndNullRequest ! i = None \<longrightarrow>
               load_ptr a (unat (load_ptr a (offsetof BCHeader_modules)) + i * sizeof T_BCPtr) = 0) \<and>
            (translationUnits emptyAndNullRequest ! i \<noteq> None \<longrightarrow>
               load_ptr a (unat (load_ptr a (offsetof BCHeader_modules)) + i * sizeof T_BCPtr) \<noteq> 0)"
    by blast
  have "(1::nat) < length (translationUnits emptyAndNullRequest)" using t(3) by simp
  with all t(1) have e1: "load_ptr a (unat (load_ptr a (offsetof BCHeader_modules)) + 1 * sizeof T_BCPtr) = 0"
    by blast
  have "(0::nat) < length (translationUnits emptyAndNullRequest)" using t(3) by simp
  with all t(2) have e0: "load_ptr a (unat (load_ptr a (offsetof BCHeader_modules)) + 0 * sizeof T_BCPtr) \<noteq> 0"
    by blast
  from c e1 e0 t l64 show ?thesis unfolding g by simp
qed

section \<open>The report of a missing identifier\<close>

text \<open>A result is silent when it is not the report "no ID for inst".\<close>

definition silent :: "error + 'a \<Rightarrow> bool" where
  "silent m = (m \<noteq> Inl (Unexpected ''no ID for inst''))"

lemma then_calls_simps [simp]: "then_calls (Inl e) f = []" "then_calls (Inr x) f = f x"
  by (simp_all add: then_calls_def)

lemma silent_Inr [simp]: "silent (Inr x)"
  by (simp add: silent_def)

lemma silent_Inl [simp]: "silent (Inl e) \<longleftrightarrow> e \<noteq> Unexpected ''no ID for inst''"
  by (auto simp add: silent_def)

lemma silent_and_then:
  "silent m \<Longrightarrow> (\<And>x. m = Inr x \<Longrightarrow> silent (f x)) \<Longrightarrow> silent (and_then m f)"
  by (cases m) (simp_all add: silent_def)

lemma silent_store_bytes [simp]: "silent (store_bytes s off bs)"
  by (simp add: store_bytes_def)

lemma silent_store_u32 [simp]: "silent (store_u32 s off v)"
  by (simp add: store_u32_def)

lemma silent_store_ptr [simp]: "silent (store_ptr s off p)"
  by (simp add: store_ptr_def)

lemma silent_getOperand [simp]: "silent (getOperand inst i)"
  by (simp add: getOperand_def)

lemma silent_storeArgs [simp]: "silent (emitBCType_storeArgs s bcArgs args)"
  by (induction args arbitrary: s bcArgs) (auto intro!: silent_and_then)

lemma silent_emitBCType_args [simp]: "silent (emitBCType_args opc s t op' args)"
  by (auto simp add: emitBCType_args_def Let_def split: prod.splits intro!: silent_and_then)

lemma silent_emitBCType:
  shows "silent (emitBCType opc s t)"
    and "silent (emitBCTypeImpl opc s t)"
    and "silent (emitBCTypeImpl_params opc s ps)"
proof (induction opc s t and opc s t and opc s ps rule: emitBCType_emitBCTypeImpl_emitBCTypeImpl_params.induct)
  case (1 opc shared type')
  then show ?case by (auto simp add: Let_def split: option.splits)
next
  case (2 opc shared)
  then show ?case by (simp add: emitBCType_op_def)
next
  case (3 opc shared b)
  then show ?case by (cases b) (simp_all add: emitBCType_op_def)
next
  case (4 opc shared r ps)
  then show ?case by (auto simp add: emitBCVarArgType_def intro!: silent_and_then)
next
  case (5 opc shared t)
  then show ?case by (auto simp add: emitBCVarArgType_def intro!: silent_and_then)
next
  case (6 opc shared t)
  then show ?case by (auto simp add: emitBCVarArgType_def intro!: silent_and_then)
next
  case (7 opc shared t)
  then show ?case by (auto simp add: emitBCVarArgType_def intro!: silent_and_then)
next
  case (8 opc shared k)
  then show ?case by simp
next
  case (9 opc shared)
  then show ?case by simp
next
  case (10 opc shared p ps)
  then show ?case by (auto intro!: silent_and_then)
qed

lemma silent_getTypeID [simp]: "silent (getTypeID opc s t)"
  unfolding getTypeID_def
proof (rule silent_and_then)
  show "silent (emitBCType opc s t)" by (rule silent_emitBCType(1))
next
  fix x
  show "silent (case x of (bcType, shared') \<Rightarrow>
          if bcType + offsetof BCType_id + 4 \<le> length (bytecode shared')
          then Inr (load_u32 (bytecode shared') (bcType + offsetof BCType_id), shared')
          else Inl OutOfBounds)"
    by (cases x) simp
qed

lemma silent_getTypeIDForGlobalSymbol [simp]: "silent (getTypeIDForGlobalSymbol opc s inst)"
  by (simp add: getTypeIDForGlobalSymbol_def split: option.splits)

lemma silent_encodeOperand_type [simp]: "silent (encodeOperand_type opc s c t)"
  unfolding encodeOperand_type_def by (rule silent_and_then) auto

lemma silent_countRegisters [simp]: "silent (countRegisters s bcBlocks blocks blockCounter regCounter)"
  by (induction s bcBlocks blocks blockCounter regCounter rule: countRegisters.induct)
    (auto simp add: Let_def split: prod.splits intro!: silent_and_then)

lemma silent_fillReg [simp]: "silent (fillReg opc s bcRegs localID ii)"
  unfolding fillReg_def by (auto intro!: silent_and_then)

lemma silent_fillInsts [simp]: "silent (fillInsts opc s c bcRegs insts regCounter)"
proof (induction opc s c bcRegs insts regCounter rule: fillInsts.induct)
  case (1 opc shared subContext bcRegs regCounter)
  then show ?case by simp
next
  case (2 opc shared subContext bcRegs ii rest regCounter)
  then show ?case
    by (auto simp add: Let_def
        split: option.splits Type.splits intro!: silent_and_then)
qed

lemma silent_fillRegisters [simp]:
  "silent (fillRegisters opc s c bcBlocks bcRegs blocks blockCounter regCounter)"
  by (induction opc s c bcBlocks bcRegs blocks blockCounter regCounter rule: fillRegisters.induct)
    (auto simp add: Let_def intro!: silent_and_then)

lemma silent_funcRegisters [simp]: "silent (funcRegisters opc s inst)"
  unfolding funcRegisters_def
  by (auto simp add: Let_def split: prod.splits
      intro!: silent_and_then)

lemma silent_storeBlockCode [simp]: "silent (storeBlockCode s bcBlocks bytes blockOffsets blocks blockCounter)"
  by (induction s bcBlocks bytes blockOffsets blocks blockCounter rule: storeBlockCode.induct)
    (auto simp add: Let_def intro!: silent_and_then)

lemma silent_storeConsts [simp]: "silent (storeConsts s bcConsts cs cc)"
  by (induction s bcConsts cs cc rule: storeConsts.induct) (auto intro!: silent_and_then)

lemma silent_funcCode [simp]: "silent (funcCode s bcFunc bcBlocks blocks blockOffsets c)"
  unfolding funcCode_def
  by (auto simp add: Let_def split: prod.splits intro!: silent_and_then)

lemma silent_allocateString [simp]: "silent (allocateString s data)"
  unfolding allocateString_def
  by (auto simp add: Let_def split: prod.splits intro!: silent_and_then)

lemma silent_tryGenerateNameForSymbol [simp]: "silent (tryGenerateNameForSymbol s gv)"
  by (simp add: tryGenerateNameForSymbol_def split: option.splits)

lemma silent_storeConstants [simp]: "silent (storeConstants opc s bcConstants cs cc)"
  by (induction opc s bcConstants cs cc rule: storeConstants.induct)
    (auto simp add: Let_def split: prod.splits intro!: silent_and_then)

lemma silent_storeTypes [simp]: "silent (storeTypes s arr ts tt)"
  by (induction s arr ts tt rule: storeTypes.induct) (auto intro!: silent_and_then)

lemma silent_storeModules [simp]: "silent (storeModules s arr ms ii)"
  by (induction s arr ms ii rule: storeModules.induct) (auto intro!: silent_and_then)

text \<open>
  A result and a list of calls agree when no call but the last is unresolvable, and the
  result is the report exactly when the last call is.
\<close>

definition reports :: "error + 'a \<Rightarrow> OperandCall list \<Rightarrow> bool" where
  "reports m calls =
     ((\<forall>c \<in> set (butlast calls). \<not> unresolvable c) \<and>
      (m = Inl (Unexpected ''no ID for inst'') \<longleftrightarrow> calls \<noteq> [] \<and> unresolvable (last calls)))"

lemma reports_silent: "silent m \<Longrightarrow> reports m []"
  by (simp add: reports_def silent_def)

lemma set_butlast_last: "cs \<noteq> [] \<Longrightarrow> set cs = insert (last cs) (set (butlast cs))"
  by (induction cs) auto

lemma reports_all_resolved:
  assumes "reports m cs" and "silent m"
  shows "\<forall>c \<in> set cs. \<not> unresolvable c"
proof (cases "cs = []")
  case True
  then show ?thesis by simp
next
  case False
  from assms False have l: "\<not> unresolvable (last cs)"
    and b: "\<forall>c \<in> set (butlast cs). \<not> unresolvable c"
    by (simp_all add: reports_def silent_def)
  show ?thesis unfolding set_butlast_last [OF False] using l b by simp
qed

lemma reports_bind:
  assumes m: "reports m cs" and f: "\<And>x. m = Inr x \<Longrightarrow> reports (f x) (g x)"
  shows "reports (and_then m f) (cs @ then_calls m g)"
proof (cases m)
  case (Inl e)
  with m show ?thesis by (simp add: reports_def)
next
  case (Inr x)
  then have "silent m" by simp
  from reports_all_resolved [OF m this] have r: "\<forall>c \<in> set cs. \<not> unresolvable c" .
  from f [OF Inr] have fx: "reports (f x) (g x)" .
  show ?thesis
  proof (cases "g x = []")
    case True
    with fx have "f x \<noteq> Inl (Unexpected ''no ID for inst'')" by (simp add: reports_def)
    with Inr True r m show ?thesis by (simp add: reports_def)
  next
    case False
    with Inr r fx show ?thesis by (auto simp add: reports_def butlast_append)
  qed
qed

lemma reports_bind_silent:
  assumes "silent m" and "\<And>x. m = Inr x \<Longrightarrow> reports (f x) (g x)"
  shows "reports (and_then m f) (then_calls m g)"
  using reports_bind [OF reports_silent [OF assms(1)], of f g] assms(2) by simp

lemma reports_then_silent:
  assumes "reports m cs" and "\<And>x. m = Inr x \<Longrightarrow> silent (f x)"
  shows "reports (and_then m f) cs"
proof -
  have "reports (and_then m f) (cs @ then_calls m (\<lambda>x. []))"
    using assms by (intro reports_bind reports_silent)
  moreover have "then_calls m (\<lambda>x. []) = []" by (cases m) simp_all
  ultimately show ?thesis by simp
qed

lemma encodeOperand_Inl_iff:
  "encodeOperand shared context v = Inl e \<longleftrightarrow>
     e = Unexpected ''no ID for inst'' \<and> unresolvable (shared, context, v)"
  by (auto simp add: encodeOperand_def getLocalID_def getGlobalValue_cases unresolvable_def Let_def
      split: option.splits)

lemma reports_encodeOperand: "reports (encodeOperand s c v) [(s, c, v)]"
  by (simp add: reports_def encodeOperand_Inl_iff)

lemma reports_bind_operand:
  assumes "\<And>x. encodeOperand s c v = Inr x \<Longrightarrow> reports (f x) (g x)"
  shows "reports (and_then (encodeOperand s c v) f) ((s, c, v) # then_calls (encodeOperand s c v) g)"
  using reports_bind [OF reports_encodeOperand, of s c v f g] assms by simp

lemma reports_encodeOperands:
  "reports (encodeOperands s c vs) (encodeOperands_calls s c vs)"
proof (induction vs arbitrary: s c)
  case Nil
  show ?case by (simp add: reports_silent)
next
  case (Cons v vs)
  show ?case
    unfolding encodeOperands.simps encodeOperands_calls.simps
    by (rule reports_bind_operand) (auto simp add: Cons.IH)
qed

lemma reports_generateBytecodeForInst:
  "reports (generateBytecodeForInst opc s c inst) (generateBytecodeForInst_calls opc s c inst)"
proof -
  note intros = reports_bind_silent reports_bind_operand reports_encodeOperand reports_silent
  consider "op inst = kIROp_ReturnVoid" | "op inst = kIROp_IntLit" | "op inst = kIROp_FloatLit"
    | "op inst = kIROp_boolConst" | "op inst = kIROp_Store" | "op inst = kIROp_Load"
    | "op inst \<noteq> kIROp_ReturnVoid" "op inst \<noteq> kIROp_IntLit" "op inst \<noteq> kIROp_FloatLit"
      "op inst \<noteq> kIROp_boolConst" "op inst \<noteq> kIROp_Store" "op inst \<noteq> kIROp_Load"
    by blast
  then show ?thesis
  proof cases
    case 1
    then show ?thesis
      by (simp add: generateBytecodeForInst_def generateBytecodeForInst_calls_def reports_silent)
  next
    case 2
    then show ?thesis
      by (auto simp add: generateBytecodeForInst_def generateBytecodeForInst_calls_def Let_def
          intro!: intros)
  next
    case 3
    then show ?thesis
      by (auto simp add: generateBytecodeForInst_def generateBytecodeForInst_calls_def Let_def
          intro!: intros)
  next
    case 4
    then show ?thesis
      by (auto simp add: generateBytecodeForInst_def generateBytecodeForInst_calls_def Let_def
          intro!: intros)
  next
    case 5
    then show ?thesis
      by (auto simp add: generateBytecodeForInst_def generateBytecodeForInst_calls_def Let_def
          intro!: intros)
  next
    case 6
    then show ?thesis
      by (auto simp add: generateBytecodeForInst_def generateBytecodeForInst_calls_def Let_def
          intro!: intros)
  next
    case 7
    have "reports
        (and_then (encodeOperand_type opc s (encodeUInt c (of_nat (opc (op inst)))) (getDataType inst))
           (\<lambda>(shared2, context2).
              and_then (encodeOperands shared2 (encodeUInt context2 (of_nat (length (getOperands inst))))
                          (getOperands inst))
                (\<lambda>(shared4, context4).
                   if \<not> opHasResult inst then Inr (shared4, context4)
                   else encodeOperand shared4 context4 inst)))
        (then_calls (encodeOperand_type opc s (encodeUInt c (of_nat (opc (op inst)))) (getDataType inst))
           (\<lambda>(shared2, context2).
              encodeOperands_calls shared2 (encodeUInt context2 (of_nat (length (getOperands inst))))
                (getOperands inst) @
              then_calls (encodeOperands shared2 (encodeUInt context2 (of_nat (length (getOperands inst))))
                            (getOperands inst))
                (\<lambda>(shared4, context4).
                   if \<not> opHasResult inst then [] else [(shared4, context4, inst)])))"
    proof (rule reports_bind_silent)
      show "silent (encodeOperand_type opc s (encodeUInt c (of_nat (opc (op inst)))) (getDataType inst))"
        by simp
    next
      fix x :: "SharedBytecodeGenerationContext \<times> BytecodeGenerationContext"
      obtain s2 c2 where x: "x = (s2, c2)" by (cases x)
      have "reports
          (and_then (encodeOperands s2 (encodeUInt c2 (of_nat (length (getOperands inst)))) (getOperands inst))
             (\<lambda>(shared4, context4).
                if \<not> opHasResult inst then Inr (shared4, context4)
                else encodeOperand shared4 context4 inst))
          (encodeOperands_calls s2 (encodeUInt c2 (of_nat (length (getOperands inst)))) (getOperands inst) @
           then_calls (encodeOperands s2 (encodeUInt c2 (of_nat (length (getOperands inst)))) (getOperands inst))
             (\<lambda>(shared4, context4).
                if \<not> opHasResult inst then [] else [(shared4, context4, inst)]))"
        by (rule reports_bind [OF reports_encodeOperands])
          (auto simp add: reports_silent reports_encodeOperand)
      then show "reports
          (case x of (shared2, context2) \<Rightarrow>
             and_then (encodeOperands shared2 (encodeUInt context2 (of_nat (length (getOperands inst))))
                          (getOperands inst))
                (\<lambda>(shared4, context4).
                   if \<not> opHasResult inst then Inr (shared4, context4)
                   else encodeOperand shared4 context4 inst))
          (case x of (shared2, context2) \<Rightarrow>
              encodeOperands_calls shared2 (encodeUInt context2 (of_nat (length (getOperands inst))))
                (getOperands inst) @
              then_calls (encodeOperands shared2 (encodeUInt context2 (of_nat (length (getOperands inst))))
                            (getOperands inst))
                (\<lambda>(shared4, context4).
                   if \<not> opHasResult inst then [] else [(shared4, context4, inst)]))"
        by (simp add: x)
    qed
    with 7 show ?thesis
      by (simp add: generateBytecodeForInst_def generateBytecodeForInst_calls_def Let_def)
  qed
qed

lemma reports_emitInsts:
  "reports (emitInsts opc s c insts) (emitInsts_calls opc s c insts)"
proof (induction insts arbitrary: s c)
  case Nil
  show ?case by (simp add: reports_silent)
next
  case (Cons ii rest)
  show ?case
  proof (cases "op ii = kIROp_Param")
    case True
    then show ?thesis by (simp add: Cons.IH)
  next
    case False
    have "reports
        (and_then (generateBytecodeForInst opc s c ii)
           (\<lambda>(shared', subContext'). emitInsts opc shared' subContext' rest))
        (generateBytecodeForInst_calls opc s c ii @
         then_calls (generateBytecodeForInst opc s c ii)
           (\<lambda>(shared', subContext'). emitInsts_calls opc shared' subContext' rest))"
      by (rule reports_bind [OF reports_generateBytecodeForInst]) (auto simp add: Cons.IH)
    with False show ?thesis by simp
  qed
qed

lemma reports_emitBlocks:
  "reports (emitBlocks opc s c blocks blockOffsets) (emitBlocks_calls opc s c blocks)"
proof (induction blocks arbitrary: s c blockOffsets)
  case Nil
  show ?case by (simp add: reports_silent)
next
  case (Cons bb rest)
  have "reports
      (and_then (emitInsts opc s c (getInsts bb))
         (\<lambda>(shared', subContext').
            emitBlocks opc shared' subContext' rest (blockOffsets @ [length (currentBytecode c)])))
      (emitInsts_calls opc s c (getInsts bb) @
       then_calls (emitInsts opc s c (getInsts bb))
         (\<lambda>(shared', subContext'). emitBlocks_calls opc shared' subContext' rest))"
    by (rule reports_bind [OF reports_emitInsts]) (auto simp add: Cons.IH)
  then show ?case by (simp add: Let_def)
qed

lemma reports_generateBytecodeSymbolForInst:
  "reports (generateBytecodeSymbolForInst opc s gv) (generateBytecodeSymbolForInst_calls opc s gv)"
proof (cases "op (asInst gv) = kIROp_Func")
  case True
  have "reports
      (and_then (funcRegisters opc s gv)
         (\<lambda>(bcFunc, bcBlocks, shared1, subContext1). and_then
            (emitBlocks opc shared1 subContext1 (getBlocks gv) [])
         (\<lambda>(blockOffsets, shared2, subContext2). and_then
            (funcCode shared2 bcFunc bcBlocks (getBlocks gv) blockOffsets subContext2)
         (\<lambda>shared3. Inr (Some bcFunc, shared3)))))
      (then_calls (funcRegisters opc s gv)
         (\<lambda>(bcFunc, bcBlocks, shared1, subContext1).
            emitBlocks_calls opc shared1 subContext1 (getBlocks gv)))"
  proof (rule reports_bind_silent)
    show "silent (funcRegisters opc s gv)" by simp
  next
    fix x :: "nat \<times> nat \<times> SharedBytecodeGenerationContext \<times> BytecodeGenerationContext"
    obtain bcFunc bcBlocks s1 c1 where x: "x = (bcFunc, bcBlocks, s1, c1)" by (cases x)
    have "reports
        (and_then (emitBlocks opc s1 c1 (getBlocks gv) [])
           (\<lambda>(blockOffsets, shared2, subContext2). and_then
              (funcCode shared2 bcFunc bcBlocks (getBlocks gv) blockOffsets subContext2)
           (\<lambda>shared3. Inr (Some bcFunc, shared3))))
        (emitBlocks_calls opc s1 c1 (getBlocks gv))"
      by (rule reports_then_silent [OF reports_emitBlocks]) (auto intro!: silent_and_then)
    then show "reports
        (case x of (bcFunc, bcBlocks, shared1, subContext1) \<Rightarrow> and_then
            (emitBlocks opc shared1 subContext1 (getBlocks gv) [])
         (\<lambda>(blockOffsets, shared2, subContext2). and_then
            (funcCode shared2 bcFunc bcBlocks (getBlocks gv) blockOffsets subContext2)
         (\<lambda>shared3. Inr (Some bcFunc, shared3))))
        (case x of (bcFunc, bcBlocks, shared1, subContext1) \<Rightarrow>
            emitBlocks_calls opc shared1 subContext1 (getBlocks gv))"
      by (simp add: x)
  qed
  with True show ?thesis
    by (simp add: generateBytecodeSymbolForInst_def generateBytecodeSymbolForInst_calls_def)
next
  case False
  have "silent (generateBytecodeSymbolForInst opc s gv)"
    using False
    by (auto simp add: generateBytecodeSymbolForInst_def Let_def split: prod.splits
        intro!: silent_and_then)
  with False show ?thesis
    by (simp add: generateBytecodeSymbolForInst_calls_def reports_silent)
qed

lemma reports_generateSymbols:
  "reports (generateSymbols opc s c bcSymbols gis) (generateSymbols_calls opc s c bcSymbols gis)"
proof (induction gis arbitrary: s)
  case Nil
  show ?case by (simp add: reports_silent)
next
  case (Cons gi rest)
  show ?case
  proof (cases gi)
    case (OtherInst ii)
    then show ?thesis by (simp add: Cons.IH)
  next
    case (GlobalValue gv)
    show ?thesis
    proof (cases "mapInstToLocalID c (addr (asInst gv))")
      case None
      with GlobalValue show ?thesis by (simp add: reports_silent)
    next
      case (Some localID)
      let ?k = "\<lambda>bcSymbol symbolOffset shared1.
         and_then (tryGenerateNameForSymbol shared1 gv)
           (\<lambda>(name, shared2). and_then
              (store_ptr shared2 (symbolOffset + offsetof BCSymbol_name) name)
           (\<lambda>shared3. and_then
              (store_ptr shared3 (bcSymbols + unat localID * sizeof T_BCPtr) bcSymbol)
           (\<lambda>shared4. generateSymbols opc shared4 c bcSymbols rest)))"
      let ?kc = "\<lambda>bcSymbol symbolOffset shared1.
         then_calls (tryGenerateNameForSymbol shared1 gv)
           (\<lambda>(name, shared2). then_calls
              (store_ptr shared2 (symbolOffset + offsetof BCSymbol_name) name)
           (\<lambda>shared3. then_calls
              (store_ptr shared3 (bcSymbols + unat localID * sizeof T_BCPtr) bcSymbol)
           (\<lambda>shared4. generateSymbols_calls opc shared4 c bcSymbols rest)))"
      have k: "reports (?k bcSymbol symbolOffset shared1) (?kc bcSymbol symbolOffset shared1)"
        for bcSymbol symbolOffset shared1
      proof (rule reports_bind_silent)
        show "silent (tryGenerateNameForSymbol shared1 gv)" by simp
      next
        fix x :: "BytecodeGenerationPtr \<times> SharedBytecodeGenerationContext"
        obtain name shared2 where x: "x = (name, shared2)" by (cases x)
        have "reports
            (and_then (store_ptr shared2 (symbolOffset + offsetof BCSymbol_name) name)
               (\<lambda>shared3. and_then
                  (store_ptr shared3 (bcSymbols + unat localID * sizeof T_BCPtr) bcSymbol)
               (\<lambda>shared4. generateSymbols opc shared4 c bcSymbols rest)))
            (then_calls (store_ptr shared2 (symbolOffset + offsetof BCSymbol_name) name)
               (\<lambda>shared3. then_calls
                  (store_ptr shared3 (bcSymbols + unat localID * sizeof T_BCPtr) bcSymbol)
               (\<lambda>shared4. generateSymbols_calls opc shared4 c bcSymbols rest)))"
          by (intro reports_bind_silent silent_store_ptr Cons.IH)
        then show "reports
            (case x of (name, shared2) \<Rightarrow>
               and_then (store_ptr shared2 (symbolOffset + offsetof BCSymbol_name) name)
               (\<lambda>shared3. and_then
                  (store_ptr shared3 (bcSymbols + unat localID * sizeof T_BCPtr) bcSymbol)
               (\<lambda>shared4. generateSymbols opc shared4 c bcSymbols rest)))
            (case x of (name, shared2) \<Rightarrow>
               then_calls (store_ptr shared2 (symbolOffset + offsetof BCSymbol_name) name)
               (\<lambda>shared3. then_calls
                  (store_ptr shared3 (bcSymbols + unat localID * sizeof T_BCPtr) bcSymbol)
               (\<lambda>shared4. generateSymbols_calls opc shared4 c bcSymbols rest)))"
          by (simp add: x)
      qed
      have "reports
          (and_then (generateBytecodeSymbolForInst opc s gv)
             (\<lambda>(bcSymbol, shared1).
                case bcSymbol of
                  None \<Rightarrow> generateSymbols opc shared1 c bcSymbols rest
                | Some symbolOffset \<Rightarrow> ?k bcSymbol symbolOffset shared1))
          (generateBytecodeSymbolForInst_calls opc s gv @
           then_calls (generateBytecodeSymbolForInst opc s gv)
             (\<lambda>(bcSymbol, shared1).
                case bcSymbol of
                  None \<Rightarrow> generateSymbols_calls opc shared1 c bcSymbols rest
                | Some symbolOffset \<Rightarrow> ?kc bcSymbol symbolOffset shared1))"
      proof (rule reports_bind [OF reports_generateBytecodeSymbolForInst])
        fix x :: "BytecodeGenerationPtr \<times> SharedBytecodeGenerationContext"
        obtain bcSymbol shared1 where x: "x = (bcSymbol, shared1)" by (cases x)
        show "reports
            (case x of (bcSymbol, shared1) \<Rightarrow>
                case bcSymbol of
                  None \<Rightarrow> generateSymbols opc shared1 c bcSymbols rest
                | Some symbolOffset \<Rightarrow> ?k bcSymbol symbolOffset shared1)
            (case x of (bcSymbol, shared1) \<Rightarrow>
                case bcSymbol of
                  None \<Rightarrow> generateSymbols_calls opc shared1 c bcSymbols rest
                | Some symbolOffset \<Rightarrow> ?kc bcSymbol symbolOffset shared1)"
        proof (cases bcSymbol)
          case None
          then show ?thesis by (simp add: x Cons.IH)
        next
          case (Some symbolOffset)
          with k show ?thesis by (simp add: x)
        qed
      qed
      with GlobalValue Some show ?thesis by (simp add: Let_def)
    qed
  qed
qed

lemma silent_moduleTail:
  "silent
     (let constantCount = length (constants shared6);
          (bcConstants, shared7) = allocateArray shared6 T_BCConstant constantCount
      in and_then
           (store_u32 shared7 (bcModule + offsetof BCModule_constantCount) (of_nat constantCount))
        (\<lambda>shared8. and_then
           (store_ptr shared8 (bcModule + offsetof BCModule_constants) (Some bcConstants))
        (\<lambda>shared9. and_then (storeConstants opc shared9 bcConstants (constants shared9) 0)
        (\<lambda>shared10.
           let typeCount = length (bcTypes shared10);
               (bcTypesArray, shared11) = allocateArray shared10 T_BCPtr typeCount
           in and_then
                (store_u32 shared11 (bcModule + offsetof BCModule_typeCount) (of_nat typeCount))
             (\<lambda>shared12. and_then
                (store_ptr shared12 (bcModule + offsetof BCModule_types) (Some bcTypesArray))
             (\<lambda>shared13. and_then (storeTypes shared13 bcTypesArray (bcTypes shared13) 0)
             (\<lambda>shared14. Inr (Some bcModule, shared14, context'))))))))"
  by (auto simp add: Let_def split: prod.splits intro!: silent_and_then)

lemma reports_generateBytecodeForModule:
  "reports (generateBytecodeForModule opc s c irModule) (generateBytecodeForModule_calls opc s c irModule)"
proof (cases irModule)
  case None
  then show ?thesis
    by (simp add: generateBytecodeForModule_def generateBytecodeForModule_calls_def reports_silent)
next
  case (Some m)
  obtain bcModule s1 where 1: "allocate s T_BCModule = (bcModule, s1)"
    by (cases "allocate s T_BCModule")
  obtain symbolCount s2 c' where 2: "assignGlobalIDs s1 c (getGlobalInsts m) 0 = (symbolCount, s2, c')"
    by (cases "assignGlobalIDs s1 c (getGlobalInsts m) 0")
  obtain bcSymbols s3 where 3: "allocateArray s2 T_BCPtr symbolCount = (bcSymbols, s3)"
    by (cases "allocateArray s2 T_BCPtr symbolCount")
  let ?tail = "\<lambda>shared6.
      let constantCount = length (constants shared6);
          (bcConstants, shared7) = allocateArray shared6 T_BCConstant constantCount
      in and_then
           (store_u32 shared7 (bcModule + offsetof BCModule_constantCount) (of_nat constantCount))
        (\<lambda>shared8. and_then
           (store_ptr shared8 (bcModule + offsetof BCModule_constants) (Some bcConstants))
        (\<lambda>shared9. and_then (storeConstants opc shared9 bcConstants (constants shared9) 0)
        (\<lambda>shared10.
           let typeCount = length (bcTypes shared10);
               (bcTypesArray, shared11) = allocateArray shared10 T_BCPtr typeCount
           in and_then
                (store_u32 shared11 (bcModule + offsetof BCModule_typeCount) (of_nat typeCount))
             (\<lambda>shared12. and_then
                (store_ptr shared12 (bcModule + offsetof BCModule_types) (Some bcTypesArray))
             (\<lambda>shared13. and_then (storeTypes shared13 bcTypesArray (bcTypes shared13) 0)
             (\<lambda>shared14. Inr (Some bcModule, shared14, c')))))))"
  have "reports
      (and_then (store_u32 s3 (bcModule + offsetof BCModule_symbolCount) (of_nat symbolCount))
         (\<lambda>shared4. and_then (store_ptr shared4 (bcModule + offsetof BCModule_symbols) (Some bcSymbols))
         (\<lambda>shared5. and_then (generateSymbols opc shared5 c' bcSymbols (getGlobalInsts m)) ?tail)))
      (then_calls (store_u32 s3 (bcModule + offsetof BCModule_symbolCount) (of_nat symbolCount))
         (\<lambda>shared4. then_calls (store_ptr shared4 (bcModule + offsetof BCModule_symbols) (Some bcSymbols))
         (\<lambda>shared5. generateSymbols_calls opc shared5 c' bcSymbols (getGlobalInsts m))))"
    by (intro reports_bind_silent silent_store_u32 silent_store_ptr
        reports_then_silent [OF reports_generateSymbols] silent_moduleTail)
  with Some 1 2 3 show ?thesis
    by (simp add: generateBytecodeForModule_def generateBytecodeForModule_calls_def)
qed

lemma reports_generateModules:
  "reports (generateModules opc s c ms bcModulesList) (generateModules_calls opc s c ms)"
proof (induction ms arbitrary: s c bcModulesList)
  case Nil
  show ?case by (simp add: reports_silent)
next
  case (Cons irModule rest)
  have "reports
      (and_then (generateBytecodeForModule opc s c irModule)
         (\<lambda>(bcModule, shared', context').
            generateModules opc shared' context' rest (bcModulesList @ [bcModule])))
      (generateBytecodeForModule_calls opc s c irModule @
       then_calls (generateBytecodeForModule opc s c irModule)
         (\<lambda>(bcModule, shared', context'). generateModules_calls opc shared' context' rest))"
    by (rule reports_bind [OF reports_generateBytecodeForModule]) (auto simp add: Cons.IH)
  then show ?case by simp
qed

lemma reports_generateBytecodeContainer:
  "reports (generateBytecodeContainer opc s c compileReq) (generateBytecodeContainer_calls opc s c compileReq)"
proof -
  obtain header s1 where 1: "allocate s T_BCHeader = (header, s1)"
    by (cases "allocate s T_BCHeader")
  let ?tail = "\<lambda>(bcModulesList, shared4, context').
           let bcModuleCount = length bcModulesList
           in and_then
                (store_u32 shared4 (header + offsetof BCHeader_moduleCount) (of_nat bcModuleCount))
             (\<lambda>shared5.
                let (bcModules, shared6) = allocateArray shared5 T_BCPtr bcModuleCount
                in and_then (store_ptr shared6 (header + offsetof BCHeader_modules) (Some bcModules))
                  (\<lambda>shared7. and_then (storeModules shared7 bcModules bcModulesList 0)
                  (\<lambda>shared8. Inr (shared8, context'))))"
  have t: "silent (?tail x)" for x
    by (cases x) (auto simp add: Let_def split: prod.splits intro!: silent_and_then)
  have "reports
      (and_then (store_bytes s1 (header + offsetof BCHeader_magic) magic)
         (\<lambda>shared2. and_then (store_u32 shared2 (header + offsetof BCHeader_version) 0)
         (\<lambda>shared3. and_then (generateModules opc shared3 c (translationUnits compileReq) []) ?tail)))
      (then_calls (store_bytes s1 (header + offsetof BCHeader_magic) magic)
         (\<lambda>shared2. then_calls (store_u32 shared2 (header + offsetof BCHeader_version) 0)
         (\<lambda>shared3. generateModules_calls opc shared3 c (translationUnits compileReq))))"
    by (intro reports_bind_silent silent_store_u32 silent_store_bytes
        reports_then_silent [OF reports_generateModules] t)
  with 1 show ?thesis
    by (simp add: generateBytecodeContainer_def generateBytecodeContainer_calls_def)
qed

lemma reports_generateBytecodeForCompileRequest:
  "reports (generateBytecodeForCompileRequest opc compileReq)
     (generateBytecodeForCompileRequest_calls opc compileReq)"
  unfolding generateBytecodeForCompileRequest_def generateBytecodeForCompileRequest_calls_def Let_def
  by (rule reports_then_silent [OF reports_generateBytecodeContainer]) auto

lemma getLocalID_resolves:
  assumes "\<not> unresolvable (shared, context, v)"
  shows "\<exists>id' shared' context'.
     getLocalID shared context v = Inr (id', shared', context') \<and>
     encodeOperand shared context v = Inr (shared', encodeSInt context' id') \<and>
     (mapInstToLocalID context (addr v) = Some id' \<and> shared' = shared \<and> context' = context \<or>
      mapInstToLocalID context (addr v) = None \<and>
        id' = NOT (of_nat (length (remappedGlobalSymbols context))) \<and>
        (\<exists>g. mapValueToGlobal shared (addr v) = Some g \<and> shared' = shared \<and>
           remappedGlobalSymbols context' = remappedGlobalSymbols context @ [g]) \<or>
      mapInstToLocalID context (addr v) = None \<and>
        id' = NOT (of_nat (length (remappedGlobalSymbols context))) \<and>
        mapValueToGlobal shared (addr v) = None \<and> op v = kIROp_IntLit \<and>
        constants shared' = constants shared @ [v] \<and>
        remappedGlobalSymbols context' = remappedGlobalSymbols context @
          [\<lparr>flavor = kBCConstFlavor_Constant, id_BCConst = of_nat (length (constants shared))\<rparr>])"
proof (cases "mapInstToLocalID context (addr v)")
  case (Some l)
  from getLocalID_local [OF Some] show ?thesis by (simp add: encodeOperand_def Some)
next
  case None
  show ?thesis
  proof (cases "mapValueToGlobal shared (addr v)")
    case (Some g)
    from getLocalID_global [OF None Some] show ?thesis by (simp add: encodeOperand_def None Some)
  next
    case g: None
    with None assms have l: "op v = kIROp_IntLit" by (simp add: unresolvable_def)
    from getLocalID_literal [OF None g l] show ?thesis by (simp add: encodeOperand_def None g l)
  qed
qed

text \<open>
  C8. The generator fails with the report "no ID for inst" exactly when one of the
  operands it encodes, in the state in which it encodes it, has no local id in the
  function's map, no entry in the value-to-global map of the shared context, and is not
  an \<open>IntLit\<close>. The failure is fatal: such an operand is the last one encoded. Every
  other operand the generator encodes resolves without error: to its local id, or to
  the next negative id bound to its global entry, or to the next negative id bound to a
  fresh slot of the constant pool.
\<close>

theorem missing_identifier_report:
  "(generateBytecodeForCompileRequest opc compileReq = Inl (Unexpected ''no ID for inst'') \<longleftrightarrow>
      (\<exists>call \<in> set (generateBytecodeForCompileRequest_calls opc compileReq). unresolvable call)) \<and>
   (\<forall>call \<in> set (butlast (generateBytecodeForCompileRequest_calls opc compileReq)).
      \<not> unresolvable call) \<and>
   (\<forall>(shared, context, v) \<in> set (generateBytecodeForCompileRequest_calls opc compileReq).
      \<not> unresolvable (shared, context, v) \<longrightarrow>
      (\<exists>id' shared' context'.
         getLocalID shared context v = Inr (id', shared', context') \<and>
         encodeOperand shared context v = Inr (shared', encodeSInt context' id') \<and>
         (mapInstToLocalID context (addr v) = Some id' \<and> shared' = shared \<and> context' = context \<or>
          mapInstToLocalID context (addr v) = None \<and>
            id' = NOT (of_nat (length (remappedGlobalSymbols context))) \<and>
            (\<exists>g. mapValueToGlobal shared (addr v) = Some g \<and> shared' = shared \<and>
               remappedGlobalSymbols context' = remappedGlobalSymbols context @ [g]) \<or>
          mapInstToLocalID context (addr v) = None \<and>
            id' = NOT (of_nat (length (remappedGlobalSymbols context))) \<and>
            mapValueToGlobal shared (addr v) = None \<and> op v = kIROp_IntLit \<and>
            constants shared' = constants shared @ [v] \<and>
            remappedGlobalSymbols context' = remappedGlobalSymbols context @
              [\<lparr>flavor = kBCConstFlavor_Constant,
                id_BCConst = of_nat (length (constants shared))\<rparr>])))"
proof -
  let ?cs = "generateBytecodeForCompileRequest_calls opc compileReq"
  note r = reports_generateBytecodeForCompileRequest [of opc compileReq, unfolded reports_def]
  from r have b: "\<forall>call \<in> set (butlast ?cs). \<not> unresolvable call" by simp
  have "(\<exists>call \<in> set ?cs. unresolvable call) \<longleftrightarrow> ?cs \<noteq> [] \<and> unresolvable (last ?cs)"
  proof (cases "?cs = []")
    case True
    then show ?thesis by simp
  next
    case False
    show ?thesis unfolding set_butlast_last [OF False] using b False by auto
  qed
  with r have a: "generateBytecodeForCompileRequest opc compileReq = Inl (Unexpected ''no ID for inst'')
      \<longleftrightarrow> (\<exists>call \<in> set ?cs. unresolvable call)"
    by simp
  from a b getLocalID_resolves show ?thesis by (intro conjI) auto
qed

theorem missing_identifier_report_witness:
  "generateBytecodeForCompileRequest scenarioOpcodes untypedConstantRequest
     = Inl (Unexpected ''no ID for inst'') \<and>
   map (\<lambda>(shared, context, v). (addr v, unresolvable (shared, context, v)))
     (generateBytecodeForCompileRequest_calls scenarioOpcodes untypedConstantRequest)
     = [(4, False), (6, True)] \<and>
   (\<exists>call \<in> set (generateBytecodeForCompileRequest_calls scenarioOpcodes untypedConstantRequest).
      unresolvable call)"
proof -
  have 1: "generateBytecodeForCompileRequest scenarioOpcodes untypedConstantRequest
     = Inl (Unexpected ''no ID for inst'')"
    by code_simp
  have 2: "map (\<lambda>(shared, context, v). (addr v, unresolvable (shared, context, v)))
     (generateBytecodeForCompileRequest_calls scenarioOpcodes untypedConstantRequest)
     = [(4, False), (6, True)]"
    by code_simp
  from missing_identifier_report [of scenarioOpcodes untypedConstantRequest, THEN conjunct1] 1
  have "\<exists>call \<in> set (generateBytecodeForCompileRequest_calls scenarioOpcodes untypedConstantRequest).
      unresolvable call"
    by simp
  with 1 2 show ?thesis by simp
qed

section \<open>The pools of an empty module\<close>

lemma store_u32_fields:
  assumes "store_u32 s off v = Inr s'"
  shows "constants s' = constants s" and "bcTypes s' = bcTypes s"
    and "length (bytecode s') = length (bytecode s)"
  using store_bytes_Inr(3,5,7) [OF assms [unfolded store_u32_def]] by simp_all

lemma store_ptr_fields:
  assumes "store_ptr s off p = Inr s'"
  shows "constants s' = constants s" and "bcTypes s' = bcTypes s"
    and "length (bytecode s') = length (bytecode s)"
  using store_bytes_Inr(3,5,7) [OF assms [unfolded store_ptr_def]] by simp_all

lemma emitBCType_storeArgs_fields:
  "emitBCType_storeArgs s bcArgs args = Inr s' \<Longrightarrow>
   constants s' = constants s \<and> bcTypes s' = bcTypes s"
proof (induction args arbitrary: s bcArgs)
  case Nil
  then show ?case by simp
next
  case (Cons a args)
  from Cons.prems obtain s1 where 1: "store_ptr s bcArgs (Some a) = Inr s1"
    and 2: "emitBCType_storeArgs s1 (bcArgs + sizeof T_BCPtr) args = Inr s'"
    by (auto elim!: and_then_InrE)
  from Cons.IH [OF 2] store_ptr_fields(1,2) [OF 1] show ?case by simp
qed

lemma emitBCType_args_fields:
  assumes "emitBCType_args opc s t op' args = Inr (h, s')"
  shows "constants s' = constants s" and "bcTypes s' = bcTypes s @ [h]"
proof -
  obtain b s1 where a: "allocateRaw s (sizeof T_BCType + length args * sizeof T_BCPtr) (2 ^ 3) = (b, s1)"
    by (cases "allocateRaw s (sizeof T_BCType + length args * sizeof T_BCPtr) (2 ^ 3)")
  from assms a obtain s2 s3 s4 where
      2: "store_u32 s1 (b + offsetof BCType_op) (of_nat (opc op')) = Inr s2"
    and 3: "store_u32 s2 (b + offsetof BCType_argCount) (of_nat (length args)) = Inr s3"
    and 4: "emitBCType_storeArgs s3 (b + 1 * sizeof T_BCType) args = Inr s4"
    and 5: "store_u32 (s4\<lparr>mapTypeToID := (mapTypeToID s4)(t \<mapsto> length (bcTypes s4)),
                          bcTypes := bcTypes s4 @ [b]\<rparr>) (b + offsetof BCType_id) (of_nat (length (bcTypes s4))) = Inr s'"
    and h: "h = b"
    by (auto simp add: emitBCType_args_def Let_def elim!: and_then_InrE)
  note p = allocateRaw_pow2(5,7) [OF a] store_u32_fields(1,2) [OF 2] store_u32_fields(1,2) [OF 3]
    emitBCType_storeArgs_fields [OF 4] store_u32_fields(1,2) [OF 5]
  from p show "constants s' = constants s" by simp
  from p h show "bcTypes s' = bcTypes s @ [h]" by simp
qed

lemma getTypeID_constants:
  assumes "getTypeID opc s t = Inr (i, s')"
  shows "constants s' = constants s" and "length (bcTypes s) \<le> length (bcTypes s')"
proof -
  from assms obtain h where e: "emitBCType opc s t = Inr (h, s')"
    by (auto simp add: getTypeID_def elim!: and_then_InrE split: if_splits)
  have "\<forall>h s'. constants s = constants s \<longrightarrow> emitBCType opc s t = Inr (h, s') \<longrightarrow> constants s' = constants s"
    by (rule emitBCType_preserves(1) [of "\<lambda>x. constants x = constants s"])
       (simp add: emitBCType_args_fields(1))
  with e show "constants s' = constants s" by blast
  have "\<forall>h s'. length (bcTypes s) \<le> length (bcTypes s) \<longrightarrow> emitBCType opc s t = Inr (h, s')
      \<longrightarrow> length (bcTypes s) \<le> length (bcTypes s')"
    by (rule emitBCType_preserves(1) [of "\<lambda>x. length (bcTypes s) \<le> length (bcTypes x)"])
       (simp add: emitBCType_args_fields(2))
  with e show "length (bcTypes s) \<le> length (bcTypes s')" by blast
qed

lemma storeConstants_constants:
  "storeConstants opc s bcConstants cs cc = Inr s' \<Longrightarrow>
   constants s' = constants s \<and> length (bcTypes s) \<le> length (bcTypes s')"
proof (induction cs arbitrary: s cc)
  case Nil
  then show ?case by simp
next
  case (Cons irConstant cs)
  from Cons.prems obtain s1 typeID s2 s3 where
      1: "store_u32 s (bcConstants + cc * sizeof T_BCConstant + offsetof BCConstant_op)
            (of_nat (opc (op irConstant))) = Inr s1"
    and 2: "getTypeID opc s1 (getDataType irConstant) = Inr (typeID, s2)"
    and 3: "store_u32 s2 (bcConstants + cc * sizeof T_BCConstant + offsetof BCConstant_typeID) typeID = Inr s3"
    and r: "(if op irConstant = kIROp_IntLit then
            (let (ptr, shared4) = allocate s3 T_IRIntegerValue
             in and_then (store_bytes shared4 ptr (encodeLE 8 (u_intVal irConstant)))
               (\<lambda>shared5. and_then
                  (store_ptr shared5 (bcConstants + cc * sizeof T_BCConstant + offsetof BCConstant_ptr)
                     (Some ptr))
               (\<lambda>shared6. storeConstants opc shared6 bcConstants cs (cc + 1))))
          else storeConstants opc s3 bcConstants cs (cc + 1)) = Inr s'"
    by (auto elim!: and_then_InrE)
  note p3 = store_u32_fields(1,2) [OF 1] getTypeID_constants [OF 2] store_u32_fields(1,2) [OF 3]
  show ?case
  proof (cases "op irConstant = kIROp_IntLit")
    case True
    obtain p s4 where 4: "allocate s3 T_IRIntegerValue = (p, s4)" by (cases "allocate s3 T_IRIntegerValue")
    from r True 4 obtain s5 s6 where
        5: "store_bytes s4 p (encodeLE 8 (u_intVal irConstant)) = Inr s5"
      and 6: "store_ptr s5 (bcConstants + cc * sizeof T_BCConstant + offsetof BCConstant_ptr) (Some p) = Inr s6"
      and 7: "storeConstants opc s6 bcConstants cs (cc + 1) = Inr s'"
      by (auto elim!: and_then_InrE)
    from Cons.IH [OF 7] p3 allocate_props(5,7) [OF 4] store_bytes_Inr(5,7) [OF 5] store_ptr_fields(1,2) [OF 6]
    show ?thesis by simp
  next
    case False
    with r have "storeConstants opc s3 bcConstants cs (cc + 1) = Inr s'" by simp
    from Cons.IH [OF this] p3 show ?thesis by simp
  qed
qed

lemma storeTypes_fields:
  "storeTypes s arr ts tt = Inr s' \<Longrightarrow> constants s' = constants s \<and> bcTypes s' = bcTypes s"
proof (induction ts arbitrary: s tt)
  case Nil
  then show ?case by simp
next
  case (Cons t ts)
  from Cons.prems obtain s1 where 1: "store_ptr s (arr + tt * sizeof T_BCPtr) (Some t) = Inr s1"
    and 2: "storeTypes s1 arr ts (tt + 1) = Inr s'"
    by (auto elim!: and_then_InrE)
  from Cons.IH [OF 2] store_ptr_fields(1,2) [OF 1] show ?case by simp
qed

text \<open>
  C3, as stated, fails: of two translation units, a module with one global variable of
  type \<open>int32\<close> and then an empty module, the record of the empty module (the second
  entry of the module array) has \<open>typeCount = 1\<close>, the type interned for the first.
\<close>

theorem empty_module_after_types_counterexample:
  "(case generateBytecodeForCompileRequest scenarioOpcodes globalVarThenEmptyRequest of
      Inr a \<Rightarrow>
        load_u32 a (unat (load_ptr a (unat (load_ptr a (offsetof BCHeader_modules)) + 1 * sizeof T_BCPtr))
                    + offsetof BCModule_typeCount) = 1 \<and>
        load_u32 a (unat (load_ptr a (unat (load_ptr a (offsetof BCHeader_modules)) + 1 * sizeof T_BCPtr))
                    + offsetof BCModule_symbolCount) = 0
    | Inl e \<Rightarrow> False)"
  by code_simp

text \<open>
  C3, amended. The record of a module without global instructions has
  \<open>symbolCount = 0\<close>; its \<open>constantCount\<close> is the size of the constant pool and its
  \<open>typeCount\<close> the size of the type table of the shared context, which hold what the
  earlier modules of the same call have pooled and interned (the type table together
  with the types of the pooled constants, interned while the pool is written). The
  module adds no constant, and with an empty pool no type: all three counts are 0 when
  nothing was pooled or interned before, as for the first translation unit.
\<close>

theorem empty_module_counts:
  assumes g: "generateBytecodeForModule opc shared context' (Some \<lparr>getGlobalInsts = []\<rparr>)
                = Inr (h, shared', context'')"
  shows "\<exists>bcModule. h = Some bcModule \<and>
     load_u32 (bytecode shared') (bcModule + offsetof BCModule_symbolCount) = 0 \<and>
     load_u32 (bytecode shared') (bcModule + offsetof BCModule_constantCount)
       = of_nat (length (constants shared)) \<and>
     load_u32 (bytecode shared') (bcModule + offsetof BCModule_typeCount)
       = of_nat (length (bcTypes shared')) \<and>
     constants shared' = constants shared \<and>
     length (bcTypes shared) \<le> length (bcTypes shared') \<and>
     (constants shared = [] \<longrightarrow> bcTypes shared' = bcTypes shared)"
proof -
  let ?m = "\<lparr>getGlobalInsts = []\<rparr> :: IRModule"
  from g obtain bcModule s1 symbolCount s2 bcSymbols s3 s4 s5 s6 bcConstants s7 s8 s9 s10
      arr s11 s12 s13 where
      h: "h = Some bcModule"
    and 1: "allocate shared T_BCModule = (bcModule, s1)"
    and 2: "assignGlobalIDs s1 context' (getGlobalInsts ?m) 0 = (symbolCount, s2, context'')"
    and 3: "allocateArray s2 T_BCPtr symbolCount = (bcSymbols, s3)"
    and 4: "store_u32 s3 (bcModule + offsetof BCModule_symbolCount) (of_nat symbolCount) = Inr s4"
    and 5: "store_ptr s4 (bcModule + offsetof BCModule_symbols) (Some bcSymbols) = Inr s5"
    and 6: "generateSymbols opc s5 context'' bcSymbols (getGlobalInsts ?m) = Inr s6"
    and 7: "allocateArray s6 T_BCConstant (length (constants s6)) = (bcConstants, s7)"
    and 8: "store_u32 s7 (bcModule + offsetof BCModule_constantCount) (of_nat (length (constants s6))) = Inr s8"
    and 9: "store_ptr s8 (bcModule + offsetof BCModule_constants) (Some bcConstants) = Inr s9"
    and 10: "storeConstants opc s9 bcConstants (constants s9) 0 = Inr s10"
    and 11: "allocateArray s10 T_BCPtr (length (bcTypes s10)) = (arr, s11)"
    and 12: "store_u32 s11 (bcModule + offsetof BCModule_typeCount) (of_nat (length (bcTypes s10))) = Inr s12"
    and 13: "store_ptr s12 (bcModule + offsetof BCModule_types) (Some arr) = Inr s13"
    and 14: "storeTypes s13 arr (bcTypes s13) 0 = Inr shared'"
    by (rule generateBytecodeForModuleE)
  from 2 have s2: "symbolCount = 0" "s2 = s1" by simp_all
  from 6 have s6: "s6 = s5" by simp
  let ?L = "bcModule + sizeof T_BCModule"
  txt \<open>The arena never gets shorter than the end of the module record.\<close>
  from allocate_props(3) [OF 1] have k1: "keeps ?L 0 [] s1" by (simp add: keeps_def)
  from keeps_allocateArray [OF k1 3 [unfolded s2]] have k3: "keeps ?L 0 [] s3"
    and bs: "?L \<le> bcSymbols" by simp_all
  from keeps_store_u32 [OF k3 4] have k4: "keeps ?L 0 [] s4" by simp
  from keeps_store_ptr [OF k4 5] have k5: "keeps ?L 0 [] s5" by simp
  from keeps_allocateArray [OF k5 7 [unfolded s6]] have k7: "keeps ?L 0 [] s7"
    and bc: "?L \<le> bcConstants" by simp_all
  from keeps_store_u32 [OF k7 8] have k8: "keeps ?L 0 [] s8" by simp
  from keeps_store_ptr [OF k8 9] have k9: "keeps ?L 0 [] s9" by simp
  from keeps_storeConstants [OF k9 10] have k10: "keeps ?L 0 [] s10" by simp
  from keeps_allocateArray [OF k10 11] have k11: "keeps ?L 0 [] s11"
    and ba: "?L \<le> arr" by simp_all
  from keeps_store_u32 [OF k11 12] have k12: "keeps ?L 0 [] s12" by simp
  txt \<open>The symbol count: nothing below offset 4 of the record is written after it.\<close>
  let ?r4 = "take (bcModule + 4) (bytecode s4)"
  from k4 have a4: "keeps ?L (bcModule + 4) ?r4 s4" by (intro keeps_refl) (simp_all add: keeps_def)
  from keeps_store_ptr [OF a4 5] have a5: "keeps ?L (bcModule + 4) ?r4 s5" by simp
  from keeps_allocateArray [OF a5 7 [unfolded s6]] have a7: "keeps ?L (bcModule + 4) ?r4 s7" by simp
  from keeps_store_u32 [OF a7 8] have a8: "keeps ?L (bcModule + 4) ?r4 s8" by simp
  from keeps_store_ptr [OF a8 9] have a9: "keeps ?L (bcModule + 4) ?r4 s9" by simp
  from keeps_storeConstants [OF a9 10] bc have a10: "keeps ?L (bcModule + 4) ?r4 s10" by simp
  from keeps_allocateArray [OF a10 11] have a11: "keeps ?L (bcModule + 4) ?r4 s11" by simp
  from keeps_store_u32 [OF a11 12] have a12: "keeps ?L (bcModule + 4) ?r4 s12" by simp
  from keeps_store_ptr [OF a12 13] have a13: "keeps ?L (bcModule + 4) ?r4 s13" by simp
  from keeps_storeTypes [OF a13 14] ba have a14: "keeps ?L (bcModule + 4) ?r4 shared'" by simp
  have "load_u32 (bytecode shared') (bcModule + offsetof BCModule_symbolCount)
      = load_u32 (bytecode s4) (bcModule + offsetof BCModule_symbolCount)"
    by (rule keeps_load_u32 [OF a4 a14]) simp
  also have "\<dots> = of_nat symbolCount" by (rule load_u32_store_u32 [OF 4])
  finally have nsym: "load_u32 (bytecode shared') (bcModule + offsetof BCModule_symbolCount) = 0"
    using s2 by simp
  txt \<open>The constant count: nothing below offset 20 of the record is written after it.\<close>
  let ?r8 = "take (bcModule + 20) (bytecode s8)"
  from k8 have b8: "keeps ?L (bcModule + 20) ?r8 s8" by (intro keeps_refl) (simp_all add: keeps_def)
  from keeps_store_ptr [OF b8 9] have b9: "keeps ?L (bcModule + 20) ?r8 s9" by simp
  from keeps_storeConstants [OF b9 10] bc have b10: "keeps ?L (bcModule + 20) ?r8 s10" by simp
  from keeps_allocateArray [OF b10 11] have b11: "keeps ?L (bcModule + 20) ?r8 s11" by simp
  from keeps_store_u32 [OF b11 12] have b12: "keeps ?L (bcModule + 20) ?r8 s12" by simp
  from keeps_store_ptr [OF b12 13] have b13: "keeps ?L (bcModule + 20) ?r8 s13" by simp
  from keeps_storeTypes [OF b13 14] ba have b14: "keeps ?L (bcModule + 20) ?r8 shared'" by simp
  have c6: "constants s6 = constants shared"
    using allocate_props(7) [OF 1] allocateArray_props(7) [OF 3] store_u32_fields(1) [OF 4]
      store_ptr_fields(1) [OF 5] s2 s6 by simp
  have "load_u32 (bytecode shared') (bcModule + offsetof BCModule_constantCount)
      = load_u32 (bytecode s8) (bcModule + offsetof BCModule_constantCount)"
    by (rule keeps_load_u32 [OF b8 b14]) simp
  also have "\<dots> = of_nat (length (constants s6))" by (rule load_u32_store_u32 [OF 8])
  finally have ncon: "load_u32 (bytecode shared') (bcModule + offsetof BCModule_constantCount)
      = of_nat (length (constants shared))"
    using c6 by simp
  txt \<open>The type count: nothing below offset 36 of the record is written after it.\<close>
  let ?r12 = "take (bcModule + 36) (bytecode s12)"
  from k12 have d12: "keeps ?L (bcModule + 36) ?r12 s12" by (intro keeps_refl) (simp_all add: keeps_def)
  from keeps_store_ptr [OF d12 13] have d13: "keeps ?L (bcModule + 36) ?r12 s13" by simp
  from keeps_storeTypes [OF d13 14] ba have d14: "keeps ?L (bcModule + 36) ?r12 shared'" by simp
  have t10: "bcTypes shared' = bcTypes s10"
    using allocateArray_props(5) [OF 11] store_u32_fields(2) [OF 12] store_ptr_fields(2) [OF 13]
      storeTypes_fields [OF 14] by simp
  have "load_u32 (bytecode shared') (bcModule + offsetof BCModule_typeCount)
      = load_u32 (bytecode s12) (bcModule + offsetof BCModule_typeCount)"
    by (rule keeps_load_u32 [OF d12 d14]) simp
  also have "\<dots> = of_nat (length (bcTypes s10))" by (rule load_u32_store_u32 [OF 12])
  finally have ntyp: "load_u32 (bytecode shared') (bcModule + offsetof BCModule_typeCount)
      = of_nat (length (bcTypes shared'))"
    using t10 by simp
  txt \<open>The pools themselves.\<close>
  have c9: "constants s9 = constants shared"
    using c6 s6 allocateArray_props(7) [OF 7] store_u32_fields(1) [OF 8] store_ptr_fields(1) [OF 9]
    by simp
  have t9: "bcTypes s9 = bcTypes shared"
    using allocate_props(5) [OF 1] allocateArray_props(5) [OF 3] store_u32_fields(2) [OF 4]
      store_ptr_fields(2) [OF 5] s2 s6 allocateArray_props(5) [OF 7] store_u32_fields(2) [OF 8]
      store_ptr_fields(2) [OF 9] by simp
  have c14: "constants shared' = constants shared"
    using c9 storeConstants_constants [OF 10] allocateArray_props(7) [OF 11] store_u32_fields(1) [OF 12]
      store_ptr_fields(1) [OF 13] storeTypes_fields [OF 14] by simp
  have grow: "length (bcTypes shared) \<le> length (bcTypes shared')"
    using t9 t10 storeConstants_constants [OF 10] by simp
  have none: "constants shared = [] \<longrightarrow> bcTypes shared' = bcTypes shared"
  proof
    assume "constants shared = []"
    with c9 10 have "s10 = s9" by simp
    with t9 t10 show "bcTypes shared' = bcTypes shared" by simp
  qed
  from h nsym ncon ntyp c14 grow none show ?thesis by simp
qed

theorem empty_module_counts_witness:
  "(case generateBytecodeForModule scenarioOpcodes freshShared
           \<lparr>currentBytecode = [], remappedGlobalSymbols = [], mapInstToLocalID = Map.empty\<rparr>
           (Some \<lparr>getGlobalInsts = []\<rparr>) of
      Inr (Some bcModule, shared', context'') \<Rightarrow>
        load_u32 (bytecode shared') (bcModule + offsetof BCModule_symbolCount) = 0 \<and>
        load_u32 (bytecode shared') (bcModule + offsetof BCModule_constantCount) = 0 \<and>
        load_u32 (bytecode shared') (bcModule + offsetof BCModule_typeCount) = 0
    | _ \<Rightarrow> False)"
proof -
  have "case generateBytecodeForModule scenarioOpcodes freshShared
           \<lparr>currentBytecode = [], remappedGlobalSymbols = [], mapInstToLocalID = Map.empty\<rparr>
           (Some \<lparr>getGlobalInsts = []\<rparr>) of Inr r \<Rightarrow> True | Inl e \<Rightarrow> False"
    by code_simp
  then obtain h s' c' where g: "generateBytecodeForModule scenarioOpcodes freshShared
           \<lparr>currentBytecode = [], remappedGlobalSymbols = [], mapInstToLocalID = Map.empty\<rparr>
           (Some \<lparr>getGlobalInsts = []\<rparr>) = Inr (h, s', c')"
    by (cases "generateBytecodeForModule scenarioOpcodes freshShared
           \<lparr>currentBytecode = [], remappedGlobalSymbols = [], mapInstToLocalID = Map.empty\<rparr>
           (Some \<lparr>getGlobalInsts = []\<rparr>)") auto
  have f: "constants freshShared = []" "bcTypes freshShared = []" by (simp_all add: freshShared_def)
  from empty_module_counts [OF g] obtain bcModule where "h = Some bcModule"
    and "load_u32 (bytecode s') (bcModule + offsetof BCModule_symbolCount) = 0"
    and "load_u32 (bytecode s') (bcModule + offsetof BCModule_constantCount)
       = of_nat (length (constants freshShared))"
    and "load_u32 (bytecode s') (bcModule + offsetof BCModule_typeCount) = of_nat (length (bcTypes s'))"
    and "constants freshShared = [] \<longrightarrow> bcTypes s' = bcTypes freshShared"
    by blast
  with f g show ?thesis by simp
qed

section \<open>The null type\<close>

lemma store_u32_succeeds:
  "off + 4 \<le> length (bytecode s) \<Longrightarrow> \<exists>s'. store_u32 s off v = Inr s'"
  by (simp add: store_u32_def store_bytes_def)

lemma emitBCType_args_nil:
  "\<exists>h s'. emitBCType_args opc s t op' [] = Inr (h, s') \<and>
     h + sizeof T_BCType \<le> length (bytecode s') \<and>
     load_u32 (bytecode s') (h + offsetof BCType_op) = of_nat (opc op') \<and>
     load_u32 (bytecode s') (h + offsetof BCType_argCount) = 0 \<and>
     load_u32 (bytecode s') (h + offsetof BCType_id) = of_nat (length (bcTypes s)) \<and>
     mapTypeToID s' = (mapTypeToID s)(t \<mapsto> length (bcTypes s)) \<and>
     bcTypes s' = bcTypes s @ [h]"
proof -
  obtain b s1 where a: "allocateRaw s (sizeof T_BCType) (2 ^ 3) = (b, s1)"
    by (cases "allocateRaw s (sizeof T_BCType) (2 ^ 3)")
  note p = allocateRaw_pow2 [OF a]
  from p(3) have l1: "length (bytecode s1) = b + 12" by simp
  then obtain s2 where 2: "store_u32 s1 (b + offsetof BCType_op) (of_nat (opc op')) = Inr s2"
    using store_u32_succeeds [of "b + offsetof BCType_op" s1] by auto
  from store_u32_fields [OF 2] l1 have l2: "length (bytecode s2) = b + 12" by simp
  then obtain s3 where 3: "store_u32 s2 (b + offsetof BCType_argCount) 0 = Inr s3"
    using store_u32_succeeds [of "b + offsetof BCType_argCount" s2] by auto
  from store_u32_fields [OF 3] l2 have l3: "length (bytecode s3) = b + 12" by simp
  let ?s5 = "s3\<lparr>mapTypeToID := (mapTypeToID s3)(t \<mapsto> length (bcTypes s3)),
                  bcTypes := bcTypes s3 @ [b]\<rparr>"
  from l3 have l5: "length (bytecode ?s5) = b + 12" by simp
  then obtain s6 where 6: "store_u32 ?s5 (b + offsetof BCType_id) (of_nat (length (bcTypes s3))) = Inr s6"
    using store_u32_succeeds [of "b + offsetof BCType_id" ?s5] by auto
  from store_u32_fields [OF 6] l5 have l6: "length (bytecode s6) = b + 12" by simp
  have t3: "bcTypes s3 = bcTypes s" "mapTypeToID s3 = mapTypeToID s"
    using p(5,6) store_bytes_Inr(5,6) [OF 2 [unfolded store_u32_def]]
      store_bytes_Inr(5,6) [OF 3 [unfolded store_u32_def]] by simp_all
  have e: "emitBCType_args opc s t op' [] = Inr (b, s6)"
    using a 2 3 6 by (simp add: emitBCType_args_def Let_def)
  txt \<open>The field \<open>op\<close> is not written again.\<close>
  let ?r2 = "take (b + 4) (bytecode s2)"
  from l2 have a2: "keeps (b + 12) (b + 4) ?r2 s2" by (intro keeps_refl) simp_all
  from keeps_store_u32 [OF a2 3] have a3: "keeps (b + 12) (b + 4) ?r2 s3" by simp
  then have "keeps (b + 12) (b + 4) ?r2 ?s5" by (simp add: keeps_def)
  from keeps_store_u32 [OF this 6] have a6: "keeps (b + 12) (b + 4) ?r2 s6" by simp
  have "load_u32 (bytecode s6) (b + offsetof BCType_op) = load_u32 (bytecode s2) (b + offsetof BCType_op)"
    by (rule keeps_load_u32 [OF a2 a6]) simp
  with load_u32_store_u32 [OF 2]
  have f1: "load_u32 (bytecode s6) (b + offsetof BCType_op) = of_nat (opc op')" by simp
  txt \<open>Nor the field \<open>argCount\<close>.\<close>
  let ?r3 = "take (b + 8) (bytecode s3)"
  from l3 have b3: "keeps (b + 12) (b + 8) ?r3 s3" by (intro keeps_refl) simp_all
  then have "keeps (b + 12) (b + 8) ?r3 ?s5" by (simp add: keeps_def)
  from keeps_store_u32 [OF this 6] have b6: "keeps (b + 12) (b + 8) ?r3 s6" by simp
  have "load_u32 (bytecode s6) (b + offsetof BCType_argCount)
      = load_u32 (bytecode s3) (b + offsetof BCType_argCount)"
    by (rule keeps_load_u32 [OF b3 b6]) simp
  with load_u32_store_u32 [OF 3]
  have f2: "load_u32 (bytecode s6) (b + offsetof BCType_argCount) = 0" by simp
  from load_u32_store_u32 [OF 6] t3
  have f3: "load_u32 (bytecode s6) (b + offsetof BCType_id) = of_nat (length (bcTypes s))" by simp
  have m6: "mapTypeToID s6 = (mapTypeToID s)(t \<mapsto> length (bcTypes s))" "bcTypes s6 = bcTypes s @ [b]"
    using store_bytes_Inr(5,6) [OF 6 [unfolded store_u32_def]] t3 by simp_all
  from e l6 f1 f2 f3 m6 show ?thesis by simp
qed

text \<open>
  C4. Interning the null type succeeds and yields a void record, exactly as interning
  the explicit void type does: there is no error, in particular not the fatal
  \<open>unimplemented\<close> one, the record has the opcode of the void type and no arguments,
  and \<open>getTypeID\<close> returns the id stored in it. The type is registered afterwards, to
  a void record. This holds in every state of the type table in which the type is not
  registered yet, or is registered to an entry of the table that is a void record (what
  interning it leaves behind).
\<close>

theorem null_type_interned_as_void:
  assumes t: "type' = None \<or> type' = Some (BasicExpressionType BaseType_Void)"
    and r: "registeredAsVoid opc shared type'"
  shows "\<exists>bcType shared'.
     emitBCType opc shared type' = Inr (bcType, shared') \<and>
     isVoidRecord opc shared' bcType \<and>
     getTypeID opc shared type'
       = Inr (load_u32 (bytecode shared') (bcType + offsetof BCType_id), shared') \<and>
     mapTypeToID shared' type' \<noteq> None \<and>
     registeredAsVoid opc shared' type'"
proof (cases "mapTypeToID shared type'")
  case None
  from emitBCType_args_nil [of opc shared type' kIROp_VoidType] obtain h s' where
      e: "emitBCType_args opc shared type' kIROp_VoidType [] = Inr (h, s')"
    and l: "h + sizeof T_BCType \<le> length (bytecode s')"
    and f1: "load_u32 (bytecode s') (h + offsetof BCType_op) = of_nat (opc kIROp_VoidType)"
    and f2: "load_u32 (bytecode s') (h + offsetof BCType_argCount) = 0"
    and m: "mapTypeToID s' = (mapTypeToID shared)(type' \<mapsto> length (bcTypes shared))"
    and b: "bcTypes s' = bcTypes shared @ [h]"
    by blast
  from t None e have i: "emitBCType opc shared type' = Inr (h, s')"
    by (auto simp add: GetCanonicalType_def emitBCType_op_def)
  from l f1 f2 have v: "isVoidRecord opc s' h" by (simp add: isVoidRecord_def)
  from i l have g: "getTypeID opc shared type'
       = Inr (load_u32 (bytecode s') (h + offsetof BCType_id), s')"
    by (simp add: getTypeID_def)
  from m b v have "registeredAsVoid opc s' type'" by (simp add: registeredAsVoid_def)
  with i v g m show ?thesis by simp
next
  case (Some id')
  with r have b: "id' < length (bcTypes shared)" and v: "isVoidRecord opc shared (bcTypes shared ! id')"
    by (simp_all add: registeredAsVoid_def)
  from t Some b have i: "emitBCType opc shared type' = Inr (bcTypes shared ! id', shared)"
    by (auto simp add: GetCanonicalType_def)
  from v have "bcTypes shared ! id' + offsetof BCType_id + 4 \<le> length (bytecode shared)"
    by (simp add: isVoidRecord_def)
  with i have "getTypeID opc shared type'
       = Inr (load_u32 (bytecode shared) (bcTypes shared ! id' + offsetof BCType_id), shared)"
    by (simp add: getTypeID_def)
  with i v r Some show ?thesis by simp
qed

theorem null_type_interned_as_void_witness:
  "(case emitBCType scenarioOpcodes freshShared None of
      Inr (bcType, shared') \<Rightarrow>
        isVoidRecord scenarioOpcodes shared' bcType \<and>
        mapTypeToID shared' None = Some 0 \<and>
        load_u32 (bytecode shared') (bcType + offsetof BCType_id) = 0
    | Inl e \<Rightarrow> False)"
proof -
  have r: "registeredAsVoid scenarioOpcodes freshShared None"
    by (simp add: registeredAsVoid_def freshShared_def)
  from null_type_interned_as_void [of None, OF _ r] obtain bcType shared' where
      e: "emitBCType scenarioOpcodes freshShared None = Inr (bcType, shared')"
    and v: "isVoidRecord scenarioOpcodes shared' bcType"
    by auto
  have c: "case emitBCType scenarioOpcodes freshShared None of
      Inr (bcType, shared') \<Rightarrow>
        mapTypeToID shared' None = Some 0 \<and>
        load_u32 (bytecode shared') (bcType + offsetof BCType_id) = 0
    | Inl e \<Rightarrow> False"
    by code_simp
  from e v c show ?thesis by simp
qed

section \<open>A literal in a block\<close>

lemma literalRequest_bytecode:
  "generateBytecodeForCompileRequest scenarioOpcodes literalRequest = Inr literalBytecode"
  by code_simp

lemma literalBytecode_fields:
  "load_bytes literalBytecode (unat (load_ptr literalBytecode (firstBlock literalBytecode + offsetof BCBlock_code))) 5
     = [0x07, 0x00, 0x2A, 0x00, 0x03]"
  "load_u32 literalBytecode (firstModule literalBytecode + offsetof BCModule_constantCount) = 0"
  "load_u32 literalBytecode (firstModule literalBytecode + offsetof BCModule_typeCount) = 1"
  "load_u32 literalBytecode (firstSymbol literalBytecode + offsetof BCFunc_regCount) = 1"
  "load_u32 literalBytecode (firstSymbol literalBytecode + offsetof BCFunc_constCount) = 0"
  "load_u32 literalBytecode (firstRegister literalBytecode + offsetof BCReg_op) = 7"
  "load_u32 literalBytecode (firstRegister literalBytecode + offsetof BCReg_typeID) = 0"
  "load_u32 literalBytecode (firstType literalBytecode + offsetof BCType_op) = 20"
  "load_u32 literalBytecode (firstType literalBytecode + offsetof BCType_id) = 0"
  by code_simp+

text \<open>
  C2, as stated, fails: for the function whose entry block is \<open>IntLit 42 : int32\<close> and
  \<open>ReturnVoid\<close>, the fourth byte of the code of the block is the destination operand
  00 of the literal, not the opcode 03 of \<open>ReturnVoid\<close>, and the constant pool of the
  module is empty.
\<close>

theorem intLit_in_block_counterexample:
  "(case generateBytecodeForCompileRequest scenarioOpcodes literalRequest of
      Inr a \<Rightarrow>
        load_bytes a (unat (load_ptr a (firstBlock a + offsetof BCBlock_code))) 4
          = [0x07, 0x00, 0x2A, 0x00] \<and>
        [0x07, 0x00, 0x2A, 0x00] \<noteq> [0x07, 0x00, 0x2A, 0x03 :: byte] \<and>
        load_u32 a (firstModule a + offsetof BCModule_constantCount) = 0
    | Inl e \<Rightarrow> False)"
proof -
  have "load_bytes literalBytecode
          (unat (load_ptr literalBytecode (firstBlock literalBytecode + offsetof BCBlock_code))) 4
        = [0x07, 0x00, 0x2A, 0x00]"
    by code_simp
  with literalBytecode_fields(2) show ?thesis by (simp add: literalRequest_bytecode)
qed

text \<open>
  C2, amended. For the function whose entry block is \<open>IntLit 42 : int32\<close> and
  \<open>ReturnVoid\<close> (opcodes \<open>IntLit\<close> = 7 and \<open>ReturnVoid\<close> = 3, \<open>int32\<close> interned
  first with type id 0) the code of the block is 07 00 2A 00 03: the literal is an
  instruction with a result, so it has a register of its own, register 0 of type 0, and
  its destination operand is that local id, the byte 00. The function has one register
  and imports no constant, and the constant pool of the module is empty: a literal
  comes into the pool only as an operand without a local id.
\<close>

theorem intLit_in_block:
  "(case generateBytecodeForCompileRequest scenarioOpcodes literalRequest of
      Inr a \<Rightarrow>
        load_bytes a (unat (load_ptr a (firstBlock a + offsetof BCBlock_code))) 5
          = [0x07, 0x00, 0x2A, 0x00, 0x03] \<and>
        load_u32 a (firstSymbol a + offsetof BCFunc_regCount) = 1 \<and>
        load_u32 a (firstRegister a + offsetof BCReg_op) = 7 \<and>
        load_u32 a (firstRegister a + offsetof BCReg_typeID) = 0 \<and>
        load_u32 a (firstSymbol a + offsetof BCFunc_constCount) = 0 \<and>
        load_u32 a (firstModule a + offsetof BCModule_constantCount) = 0 \<and>
        load_u32 a (firstModule a + offsetof BCModule_typeCount) = 1 \<and>
        load_u32 a (firstType a + offsetof BCType_op) = 20 \<and>
        load_u32 a (firstType a + offsetof BCType_id) = 0
    | Inl e \<Rightarrow> False)"
  using literalBytecode_fields by (simp add: literalRequest_bytecode)

section \<open>The output does not depend on addresses\<close>

lemma renameInst_sel [simp]:
  "addr (renameInst f v) = f (addr v)" "op (renameInst f v) = op v"
  "getDataType (renameInst f v) = getDataType v"
  "getOperands (renameInst f v) = map (renameInst f) (getOperands v)"
  "u_intVal (renameInst f v) = u_intVal v"
  by (cases v; simp)+

lemma renameBlock_sel [simp]:
  "blockAddr (renameBlock f b) = f (blockAddr b)"
  "getInsts (renameBlock f b) = map (renameInst f) (getInsts b)"
  by (cases b; simp)+

lemma renameGlobalValue_sel [simp]:
  "asInst (renameGlobalValue f gv) = renameInst f (asInst gv)"
  "findDecoration (renameGlobalValue f gv) = findDecoration gv"
  "getBlocks (renameGlobalValue f gv) = map (renameBlock f) (getBlocks gv)"
  by (cases gv; simp)+

lemma renameShared_sel [simp]:
  "bytecode (renameShared f s) = bytecode s"
  "bcTypes (renameShared f s) = bcTypes s"
  "mapTypeToID (renameShared f s) = mapTypeToID s"
  "constants (renameShared f s) = map (renameInst f) (constants s)"
  "mapValueToGlobal (renameShared f s) = mapValueToGlobal s \<circ> inv f"
  by (simp_all add: renameShared_def)

lemma renameContext_sel [simp]:
  "currentBytecode (renameContext f c) = currentBytecode c"
  "remappedGlobalSymbols (renameContext f c) = remappedGlobalSymbols c"
  "mapInstToLocalID (renameContext f c) = mapInstToLocalID c \<circ> inv f"
  by (simp_all add: renameContext_def)

lemma renameShared_upd [simp]:
  "(renameShared f s)\<lparr>bytecode := b\<rparr> = renameShared f (s\<lparr>bytecode := b\<rparr>)"
  "(renameShared f s)\<lparr>bcTypes := ts\<rparr> = renameShared f (s\<lparr>bcTypes := ts\<rparr>)"
  "(renameShared f s)\<lparr>mapTypeToID := m\<rparr> = renameShared f (s\<lparr>mapTypeToID := m\<rparr>)"
  by (simp_all add: renameShared_def)

lemma renameContext_upd [simp]:
  "(renameContext f c)\<lparr>currentBytecode := b\<rparr> = renameContext f (c\<lparr>currentBytecode := b\<rparr>)"
  "(renameContext f c)\<lparr>remappedGlobalSymbols := r\<rparr> = renameContext f (c\<lparr>remappedGlobalSymbols := r\<rparr>)"
  by (simp_all add: renameContext_def)

lemma mapResult_simps [simp]: "mapResult g (Inl e) = Inl e" "mapResult g (Inr x) = Inr (g x)"
  by (simp_all add: mapResult_def)

lemma and_then_mapResult [simp]: "and_then (mapResult g m) k = and_then m (\<lambda>x. k (g x))"
  by (cases m) simp_all

lemma mapResult_and_then [simp]: "mapResult h (and_then m k) = and_then m (\<lambda>x. mapResult h (k x))"
  by (cases m) simp_all

lemma case_apsnd [simp]:
  "(case apsnd g p of (a, b) \<Rightarrow> h a b) = (case p of (a, b) \<Rightarrow> h a (g b))"
  by (cases p) simp



















lemma bij_inv_f_f [simp]: "bij f \<Longrightarrow> inv f (f a) = a"
  by (simp add: bij_is_inj)

lemma comp_inv_upd: "bij f \<Longrightarrow> (m \<circ> inv f)(f a \<mapsto> v) = (m(a \<mapsto> v)) \<circ> inv f"
proof (rule ext)
  fix k
  assume b: "bij f"
  show "((m \<circ> inv f)(f a \<mapsto> v)) k = ((m(a \<mapsto> v)) \<circ> inv f) k"
  proof (cases "k = f a")
    case True
    with b show ?thesis by simp
  next
    case False
    with b have "inv f k \<noteq> a" by (metis bij_inv_eq_iff)
    with False show ?thesis by simp
  qed
qed

lemma renameShared_global [simp]:
  "bij f \<Longrightarrow>
   (renameShared f s)\<lparr>mapValueToGlobal := (m \<circ> inv f)(f a \<mapsto> v)\<rparr>
     = renameShared f (s\<lparr>mapValueToGlobal := m(a \<mapsto> v)\<rparr>)"
  by (simp add: renameShared_def comp_inv_upd)

lemma renameShared_constant [simp]:
  "(renameShared f s)\<lparr>constants := map (renameInst f) cs @ [renameInst f c]\<rparr>
     = renameShared f (s\<lparr>constants := cs @ [c]\<rparr>)"
  by (simp add: renameShared_def)

lemma renameContext_local [simp]:
  "bij f \<Longrightarrow>
   (renameContext f c)\<lparr>mapInstToLocalID := (m \<circ> inv f)(f a \<mapsto> v)\<rparr>
     = renameContext f (c\<lparr>mapInstToLocalID := m(a \<mapsto> v)\<rparr>)"
  by (simp add: renameContext_def comp_inv_upd)






lemma rename_opHasResult [simp]: "opHasResult (renameInst f inst) = opHasResult inst"
  by (simp add: opHasResult_def)










lemma renameContext_empty [simp]:
  "renameContext f \<lparr>currentBytecode = b, remappedGlobalSymbols = r, mapInstToLocalID = Map.empty\<rparr>
     = \<lparr>currentBytecode = b, remappedGlobalSymbols = r, mapInstToLocalID = Map.empty\<rparr>"
  by (simp add: renameContext_def fun_eq_iff)

lemma renameShared_empty [simp]:
  "renameShared f \<lparr>bytecode = b, mapValueToGlobal = Map.empty, bcTypes = ts, mapTypeToID = m,
                    constants = []\<rparr>
     = \<lparr>bytecode = b, mapValueToGlobal = Map.empty, bcTypes = ts, mapTypeToID = m, constants = []\<rparr>"
  by (simp add: renameShared_def fun_eq_iff)


















end
